theory Spec2Isabelle
  imports Main "HOL-Library.Word"
begin

section \<open>Machine integers\<close>

text \<open>
  Every amount, counter and identifier of the order workflows is a Go \<^verbatim>\<open>int64\<close>.
  It is a 64-bit word here: \<open>+\<close>, \<open>-\<close> and \<open>*\<close> wrap around as Go's do, and the
  comparisons of the source (\<^verbatim>\<open><\<close>, \<^verbatim>\<open><=\<close>) read both sides as two's complement.
\<close>

type_synonym int64 = "64 word"

definition slt :: "int64 \<Rightarrow> int64 \<Rightarrow> bool" where
  "slt a b = (sint a < sint b)"

definition sle :: "int64 \<Rightarrow> int64 \<Rightarrow> bool" where
  "sle a b = (sint a \<le> sint b)"

section \<open>Constants (package order)\<close>

definition MaxOrderAmount :: int64 where
  "MaxOrderAmount = 2147483647"

definition MaxRechargeAmount :: int64 where
  "MaxRechargeAmount = 2000000000"

definition MaxQuantity :: int64 where
  "MaxQuantity = 1000"

definition CloseOrderTimeMinutes :: nat where
  "CloseOrderTimeMinutes = 15"

section \<open>Data model\<close>

text \<open>
  The model types live in packages that are not part of the sources at hand
  (\<^verbatim>\<open>internal/model/...\<close>, \<^verbatim>\<open>internal/types\<close>). Each record holds the fields the
  workflows read or write, under the source's field name behind a prefix.
\<close>

record user =
  u_Id :: int64
  u_GiftAmount :: int64

record subscribe =
  s_Id :: int64
  s_Name :: string
  s_UnitPrice :: int64
  s_Discount :: string
  s_Inventory :: int64
  s_Quota :: int64
  s_Sell :: "bool option"  \<comment> \<open>a \<^verbatim>\<open>*bool\<close>; \<open>None\<close> is the nil pointer\<close>
  s_Nodes :: string
  s_NodeTags :: string

record user_subscribe =
  us_Id :: int64
  us_UserId :: int64
  us_OrderId :: int64
  us_SubscribeId :: int64
  us_Token :: string
  us_UUID :: string
  us_ExpireTime :: int  \<comment> \<open>\<^verbatim>\<open>ExpireTime.Unix()\<close>, in seconds\<close>
  us_Download :: int64
  us_Upload :: int64
  us_Traffic :: int64
  us_Status :: nat

record coupon =
  c_Code :: string
  c_Count :: int64
  c_UsedCount :: int64
  c_UserLimit :: int64
  c_Subscribe :: string

record payment =
  p_Id :: int64
  p_Platform :: string

record order =
  o_UserId :: int64
  o_ParentId :: int64
  o_OrderNo :: string
  o_Type :: nat
  o_Quantity :: int64
  o_Price :: int64
  o_Amount :: int64
  o_Discount :: int64
  o_GiftAmount :: int64
  o_Coupon :: string
  o_CouponDiscount :: int64
  o_PaymentId :: int64
  o_Method :: string
  o_FeeAmount :: int64
  o_Status :: nat
  o_IsNew :: bool
  o_SubscribeId :: int64
  o_SubscribeToken :: string

datatype gift_type = GiftTypeIncrease | GiftTypeReduce

record gift =
  g_Type :: gift_type
  g_OrderNo :: string
  g_SubscribeId :: int64
  g_Amount :: int64
  g_Balance :: int64
  g_Remark :: string
  g_Timestamp :: int64

datatype log_type = TypeGift | TypeSubscribe

text \<open>
  A row of the system log. The source stores the marshalled gift record as a string;
  the row keeps the record itself.
\<close>

record system_log =
  l_Type :: log_type
  l_Date :: string
  l_ObjectID :: int64
  l_Content :: gift

datatype task_kind = DeferCloseOrder

record task =
  t_Kind :: task_kind
  t_OrderNo :: string  \<comment> \<open>the payload \<^verbatim>\<open>DeferCloseOrderPayload{OrderNo}\<close>\<close>
  t_MaxRetry :: nat
  t_ProcessInMinutes :: nat

record database =
  users :: "user list"
  subscribes :: "subscribe list"
  user_subscribes :: "user_subscribe list"
  coupons :: "coupon list"
  payments :: "payment list"
  orders :: "order list"
  system_logs :: "system_log list"

text \<open>
  What a request sees and changes: the store, the deferred-task queue and the lines
  written to the logger (the message of each call, in order).
\<close>

record world =
  db :: database
  queue :: "task list"
  logs :: "string list"

section \<open>Errors\<close>

text \<open>
  The error codes of package \<^verbatim>\<open>xerr\<close> that the workflows return. \<open>StoreError\<close> is an
  error of the store handed on as it is (\<^verbatim>\<open>errors.Wrapf(err, ...)\<close>), \<open>Panic\<close> a nil
  dereference, \<open>SubscribeTokenInvalid\<close> the plain error \<^verbatim>\<open>"subscribe token invalid"\<close> and
  \<open>Code500\<close> is \<^verbatim>\<open>xerr.NewErrCode(500)\<close>.
\<close>

datatype error =
    InvalidAccess
  | InvalidParams
  | DatabaseQueryError
  | DatabaseInsertError
  | ERROR
  | SubscribeOutOfStock
  | SubscribeQuotaLimit
  | UserSubscribeExist
  | CouponNotExist
  | CouponInsufficientUsage
  | CouponNotApplicable
  | StoreError
  | Panic
  | SubscribeTokenInvalid
  | Code500

section \<open>Collaborators\<close>

text \<open>The store and queue calls that can fail, as fault points of a request.\<close>

datatype op =
    OpQueryUserSubscribe
  | OpFindOneUserSubscribe
  | OpFindSubscribe
  | OpFindCoupon
  | OpCountOrders
  | OpFindPayment
  | OpIsUserEligible
  | OpUserUpdate
  | OpLogCreate
  | OpSubscribeUpdate
  | OpOrderCreate
  | OpCommit
  | OpEnqueue

text \<open>
  The helpers of this package and of \<^verbatim>\<open>pkg/tool\<close> that the workflows call are not among
  the sources at hand, and the arithmetic of \<^verbatim>\<open>float64\<close> is not modelled; a request takes
  them as parameters:
  \<^item> \<open>getDiscount\<close>: the multiplier for a quantity out of the plan's encoded tier table
    (\<^verbatim>\<open>json.Unmarshal\<close> followed by \<^verbatim>\<open>getDiscount(dis, quantity)\<close>), a \<^verbatim>\<open>float64\<close>,
    here a value of an uninterpreted type \<open>'f\<close>;
  \<^item> \<open>noDiscount\<close>: the \<^verbatim>\<open>float64\<close> 1;
  \<^item> \<open>applyDiscount price d\<close>: the conversion \<^verbatim>\<open>int64(float64(price) * d)\<close> that the
    workflows write inline, about which nothing is assumed;
  \<^item> \<open>calculateCoupon\<close>, \<open>calculateFee\<close>, \<open>StringToInt64Slice\<close>;
  \<^item> \<open>GenerateTradeNo\<close>: the order number generated for this request;
  \<^item> \<open>IsUserEligibleForNewOrder\<close>: the answer of the order store;
  \<^item> \<open>nowUnixMilli\<close>, \<open>today\<close>: the clock;
  \<^item> \<open>faults\<close>: the store and queue calls that fail during this request.
  \<open>ctxUser\<close> is the user found in the request context and \<open>SingleModel\<close> the
  configuration flag \<^verbatim>\<open>Config.Subscribe.SingleModel\<close>.
\<close>

record 'f env =
  ctxUser :: "user option"
  SingleModel :: bool
  getDiscount :: "string \<Rightarrow> int64 \<Rightarrow> 'f"
  noDiscount :: 'f
  applyDiscount :: "int64 \<Rightarrow> 'f \<Rightarrow> int64"
  calculateCoupon :: "int64 \<Rightarrow> coupon \<Rightarrow> int64"
  calculateFee :: "int64 \<Rightarrow> payment \<Rightarrow> int64"
  StringToInt64Slice :: "string \<Rightarrow> int64 list"
  GenerateTradeNo :: string
  IsUserEligibleForNewOrder :: "int64 \<Rightarrow> bool"
  nowUnixMilli :: int64
  today :: string
  faults :: "op set"

subsection \<open>Store operations\<close>

text \<open>
  Modelled from the spec: the stores behind \<^verbatim>\<open>svcCtx\<close> (PlanStore find-by-id and
  update, PaymentMethodStore find-by-id, CouponStore find-by-code, UserStore update and
  find subscriptions, OrderStore insert and count-by-filter, AuditLogStore append) are
  not among the sources. A read answers from the rows of the table and fails when the
  row is missing or the call is a fault of the request; a write fails only on a fault.
\<close>

definition PaymentModel_FindOne :: "'f env \<Rightarrow> database \<Rightarrow> int64 \<Rightarrow> payment option" where
  "PaymentModel_FindOne env d i =
     (if OpFindPayment \<in> faults env then None else find (\<lambda>p. p_Id p = i) (payments d))"

definition SubscribeModel_FindOne :: "'f env \<Rightarrow> database \<Rightarrow> int64 \<Rightarrow> subscribe option" where
  "SubscribeModel_FindOne env d i =
     (if OpFindSubscribe \<in> faults env then None else find (\<lambda>s. s_Id s = i) (subscribes d))"

definition UserModel_QueryUserSubscribe ::
  "'f env \<Rightarrow> database \<Rightarrow> int64 \<Rightarrow> user_subscribe list option" where
  "UserModel_QueryUserSubscribe env d uid =
     (if OpQueryUserSubscribe \<in> faults env then None
      else Some (filter (\<lambda>s. us_UserId s = uid) (user_subscribes d)))"

definition UserModel_FindOneUserSubscribe ::
  "'f env \<Rightarrow> database \<Rightarrow> int64 \<Rightarrow> user_subscribe option" where
  "UserModel_FindOneUserSubscribe env d i =
     (if OpFindOneUserSubscribe \<in> faults env then None
      else find (\<lambda>s. us_Id s = i) (user_subscribes d))"

datatype 'a lookup = Found 'a | RecordNotFound | QueryFailed

definition CouponModel_FindOneByCode :: "'f env \<Rightarrow> database \<Rightarrow> string \<Rightarrow> coupon lookup" where
  "CouponModel_FindOneByCode env d code =
     (if OpFindCoupon \<in> faults env then QueryFailed
      else case find (\<lambda>c. c_Code c = code) (coupons d) of
             None \<Rightarrow> RecordNotFound
           | Some c \<Rightarrow> Found c)"

text \<open>
  \<^verbatim>\<open>tx.Model(&order.Order{}).Where("user_id = ? and coupon = ?", ...).Count(&count)\<close>
\<close>

definition countCouponOrders :: "'f env \<Rightarrow> database \<Rightarrow> int64 \<Rightarrow> string \<Rightarrow> int64 option" where
  "countCouponOrders env d uid code =
     (if OpCountOrders \<in> faults env then None
      else Some (of_nat (length (filter (\<lambda>x. o_UserId x = uid \<and> o_Coupon x = code) (orders d)))))"

definition OrderModel_IsUserEligibleForNewOrder :: "'f env \<Rightarrow> int64 \<Rightarrow> bool option" where
  "OrderModel_IsUserEligibleForNewOrder env uid =
     (if OpIsUserEligible \<in> faults env then None else Some (IsUserEligibleForNewOrder env uid))"

definition UserModel_Update :: "'f env \<Rightarrow> user \<Rightarrow> database \<Rightarrow> database option" where
  "UserModel_Update env u d =
     (if OpUserUpdate \<in> faults env then None
      else Some (d\<lparr>users := map (\<lambda>x. if u_Id x = u_Id u then u else x) (users d)\<rparr>))"

definition SubscribeModel_Update :: "'f env \<Rightarrow> subscribe \<Rightarrow> database \<Rightarrow> database option" where
  "SubscribeModel_Update env s d =
     (if OpSubscribeUpdate \<in> faults env then None
      else Some (d\<lparr>subscribes := map (\<lambda>x. if s_Id x = s_Id s then s else x) (subscribes d)\<rparr>))"

definition SystemLog_Create :: "'f env \<Rightarrow> system_log \<Rightarrow> database \<Rightarrow> database option" where
  "SystemLog_Create env l d =
     (if OpLogCreate \<in> faults env then None
      else Some (d\<lparr>system_logs := system_logs d @ [l]\<rparr>))"

definition Order_Create :: "'f env \<Rightarrow> order \<Rightarrow> database \<Rightarrow> database option" where
  "Order_Create env x d =
     (if OpOrderCreate \<in> faults env then None
      else Some (d\<lparr>orders := orders d @ [x]\<rparr>))"

subsection \<open>Steps of a request\<close>

text \<open>
  A step runs in a world and returns the error it stops with or its value, and the
  world it leaves. \<open>andThen\<close> is Go's early return on \<^verbatim>\<open>err != nil\<close>.
\<close>

type_synonym 'a step = "world \<Rightarrow> (error + 'a) \<times> world"

definition ok :: "'a \<Rightarrow> 'a step" where
  "ok x w = (Inr x, w)"

definition throw :: "error \<Rightarrow> 'a step" where
  "throw e w = (Inl e, w)"

definition andThen :: "'a step \<Rightarrow> ('a \<Rightarrow> 'b step) \<Rightarrow> 'b step" where
  "andThen m f w = (case m w of (Inl e, w') \<Rightarrow> (Inl e, w') | (Inr x, w') \<Rightarrow> f x w')"

definition logged :: "string \<Rightarrow> 'a step \<Rightarrow> 'a step" where
  "logged line m w = m (w\<lparr>logs := logs w @ [line]\<rparr>)"

text \<open>A step that leaves the store and the queue alone, whatever it returns.\<close>

definition quiet :: "'a step \<Rightarrow> bool" where
  "quiet m \<longleftrightarrow> (\<forall>w r w'. m w = (r, w') \<longrightarrow> db w' = db w \<and> queue w' = queue w)"

text \<open>
  Modelled from the spec: \<^verbatim>\<open>DB.Transaction\<close> belongs to the ORM, not to the sources.
  The closure's writes are kept when it returns no error and the commit succeeds;
  otherwise the store is as it was before (the lines logged meanwhile stay).
\<close>

definition Transaction :: "'f env \<Rightarrow> (database \<Rightarrow> string list \<times> database option) \<Rightarrow> unit step" where
  "Transaction env body w =
     (case body (db w) of
        (ls, None) \<Rightarrow> (Inl StoreError, w\<lparr>logs := logs w @ ls\<rparr>)
      | (ls, Some d') \<Rightarrow>
          if OpCommit \<in> faults env then (Inl StoreError, w\<lparr>logs := logs w @ ls\<rparr>)
          else (Inr (), w\<lparr>db := d', logs := logs w @ ls\<rparr>))"

text \<open>
  The deferred close-order task (the tail of all three workflows):
  \<^verbatim>\<open>asynq.NewTask(queue.DeferCloseOrder, val, asynq.MaxRetry(3))\<close> enqueued with
  \<^verbatim>\<open>asynq.ProcessIn(CloseOrderTimeMinutes*time.Minute)\<close>. A failed enqueue is logged
  and the workflow goes on. (\<^verbatim>\<open>json.Marshal\<close> of a struct with one string field does
  not fail.)
\<close>

definition closeOrderTask :: "string \<Rightarrow> task" where
  "closeOrderTask orderNo =
     \<lparr>t_Kind = DeferCloseOrder, t_OrderNo = orderNo, t_MaxRetry = 3,
      t_ProcessInMinutes = CloseOrderTimeMinutes\<rparr>"

definition enqueueCloseOrder :: "'f env \<Rightarrow> string \<Rightarrow> string \<Rightarrow> string step" where
  "enqueueCloseOrder env tag orderNo w =
     (if OpEnqueue \<in> faults env
      then (Inr orderNo, w\<lparr>logs := logs w @ [tag @ '' Enqueue task error'']\<rparr>)
      else (Inr orderNo, w\<lparr>queue := queue w @ [closeOrderTask orderNo],
                           logs := logs w @ [tag @ '' Enqueue task success'']\<rparr>))"

section \<open>Recharge (rechargeLogic.go)\<close>

record recharge_request =
  rr_Amount :: int64
  rr_Payment :: int64

text \<open>The order record of a recharge: the fields not set keep Go's zero value.\<close>

definition emptyOrder :: order where
  "emptyOrder =
     \<lparr>o_UserId = 0, o_ParentId = 0, o_OrderNo = [], o_Type = 0, o_Quantity = 0, o_Price = 0,
      o_Amount = 0, o_Discount = 0, o_GiftAmount = 0, o_Coupon = [], o_CouponDiscount = 0,
      o_PaymentId = 0, o_Method = [], o_FeeAmount = 0, o_Status = 0, o_IsNew = False,
      o_SubscribeId = 0, o_SubscribeToken = []\<rparr>"

definition rechargeOrder :: "'f env \<Rightarrow> user \<Rightarrow> recharge_request \<Rightarrow> payment \<Rightarrow> int64 \<Rightarrow> int64 \<Rightarrow> bool \<Rightarrow> order" where
  "rechargeOrder env u req pay feeAmount totalAmount isNew =
     emptyOrder\<lparr>o_UserId := u_Id u, o_OrderNo := GenerateTradeNo env, o_Type := 4,
                o_Price := rr_Amount req, o_Amount := totalAmount, o_FeeAmount := feeAmount,
                o_PaymentId := p_Id pay, o_Method := p_Platform pay, o_Status := 1,
                o_IsNew := isNew\<rparr>"

text \<open>\<^verbatim>\<open>l.svcCtx.OrderModel.Insert(l.ctx, &orderInfo)\<close>, a single insert outside any transaction.\<close>

definition OrderModel_Insert :: "'f env \<Rightarrow> order \<Rightarrow> unit step" where
  "OrderModel_Insert env x w =
     (case Order_Create env x (db w) of
        None \<Rightarrow> (Inl StoreError, w)
      | Some d' \<Rightarrow> (Inr (), w\<lparr>db := d'\<rparr>))"

definition Recharge :: "'f env \<Rightarrow> recharge_request \<Rightarrow> string step" where
  "Recharge env req w =
     (case ctxUser env of
        None \<Rightarrow> logged ''current user is not found in context'' (throw InvalidAccess) w
      | Some u \<Rightarrow>
          if sle (rr_Amount req) 0
          then logged ''[Recharge] Invalid recharge amount'' (throw InvalidParams) w
          else if slt MaxRechargeAmount (rr_Amount req)
          then logged ''[Recharge] Recharge amount exceeds maximum limit'' (throw InvalidParams) w
          else
            (case PaymentModel_FindOne env (db w) (rr_Payment req) of
               None \<Rightarrow> logged ''[Recharge] Database query error'' (throw StoreError) w
             | Some pay \<Rightarrow>
                 let feeAmount = calculateFee env (rr_Amount req) pay;
                     totalAmount = rr_Amount req + feeAmount
                 in if slt MaxOrderAmount totalAmount
                    then logged ''[Recharge] Total amount exceeds maximum limit after fee''
                           (throw InvalidParams) w
                    else
                      (case OrderModel_IsUserEligibleForNewOrder env (u_Id u) of
                         None \<Rightarrow> logged ''[Recharge] Database query error'' (throw StoreError) w
                       | Some isNew \<Rightarrow>
                           let orderInfo = rechargeOrder env u req pay feeAmount totalAmount isNew
                           in (case OrderModel_Insert env orderInfo w of
                                 (Inl e, w') \<Rightarrow>
                                   logged ''[Recharge] Database insert error'' (throw StoreError) w'
                               | (Inr _, w') \<Rightarrow>
                                   enqueueCloseOrder env ''[Recharge]'' (o_OrderNo orderInfo) w'))))"

section \<open>Stages shared by Purchase and Renewal\<close>

text \<open>
  Quantity (purchaseLogic.go 360-369, renewalLogic.go 48-57): a quantity \<open>\<le> 0\<close>
  becomes 1, a quantity above \<open>MaxQuantity\<close> is refused.
\<close>

definition checkQuantity :: "string \<Rightarrow> int64 \<Rightarrow> int64 step" where
  "checkQuantity tag quantity w =
     (let (q, w1) =
            (if sle quantity 0
             then (1, w\<lparr>logs := logs w @ [tag @ '' Quantity is less than or equal to 0, setting to 1'']\<rparr>)
             else (quantity, w))
      in if slt MaxQuantity q
         then logged (tag @ '' Quantity exceeds maximum limit'') (throw InvalidParams) w1
         else ok q w1)"

text \<open>
  Discount (purchaseLogic.go 413-422, renewalLogic.go 75-83): the list price, the amount
  after the quantity discount and the discount amount.
\<close>

definition discountedAmount :: "'f env \<Rightarrow> subscribe \<Rightarrow> int64 \<Rightarrow> int64 \<times> int64 \<times> int64" where
  "discountedAmount env sub quantity =
     (let discount = (if s_Discount sub \<noteq> [] then getDiscount env (s_Discount sub) quantity
                      else noDiscount env);
          price = s_UnitPrice sub * quantity;
          amount = applyDiscount env price discount;
          discountAmount = price - amount
      in (price, amount, discountAmount))"

text \<open>
  Coupon (purchaseLogic.go 434-464, renewalLogic.go 95-124). \<open>subId\<close> is
  \<^verbatim>\<open>req.SubscribeId\<close> in Purchase and \<^verbatim>\<open>sub.Id\<close> in Renewal; \<^verbatim>\<open>tool.Contains\<close> is
  membership in the slice. The count of the user's orders with this coupon is read in a
  transaction of its own, whose failure is the fault \<open>OpCountOrders\<close>.
\<close>

definition couponDeduction ::
  "'f env \<Rightarrow> string \<Rightarrow> user \<Rightarrow> string \<Rightarrow> int64 \<Rightarrow> int64 \<Rightarrow> int64 step" where
  "couponDeduction env tag u code subId amount w =
     (if code = [] then ok 0 w
      else
        (case CouponModel_FindOneByCode env (db w) code of
           RecordNotFound \<Rightarrow> throw CouponNotExist w
         | QueryFailed \<Rightarrow> throw DatabaseQueryError w
         | Found couponInfo \<Rightarrow>
             if c_Count couponInfo \<noteq> 0 \<and> sle (c_Count couponInfo) (c_UsedCount couponInfo)
             then throw CouponInsufficientUsage w
             else
               let couponSub = StringToInt64Slice env (c_Subscribe couponInfo)
               in if 0 < length couponSub \<and> subId \<notin> set couponSub
                  then throw CouponNotApplicable w
                  else
                    (case countCouponOrders env (db w) (u_Id u) code of
                       None \<Rightarrow> logged (tag @ '' Database query error'') (throw DatabaseQueryError) w
                     | Some count \<Rightarrow>
                         if sle (c_UserLimit couponInfo) count
                         then throw CouponInsufficientUsage w
                         else ok (calculateCoupon env amount couponInfo) w)))"

text \<open>
  Gift balance (purchaseLogic.go 467-479, renewalLogic.go 132-144): the deduction, the
  amount still due and the user's balance afterwards.
\<close>

definition giftDeduction :: "int64 \<Rightarrow> int64 \<Rightarrow> int64 \<times> int64 \<times> int64" where
  "giftDeduction giftAmount amount =
     (if slt 0 giftAmount
      then if sle amount giftAmount
           then (amount, 0, giftAmount - amount)
           else (giftAmount, amount - giftAmount, 0)
      else (0, amount, giftAmount))"

text \<open>\<^verbatim>\<open>OrderModel.IsUserEligibleForNewOrder\<close> (purchaseLogic.go 501-506).\<close>

definition isNewStep :: "'f env \<Rightarrow> user \<Rightarrow> bool step" where
  "isNewStep env u w =
     (case OrderModel_IsUserEligibleForNewOrder env (u_Id u) of
        None \<Rightarrow> logged ''[Purchase] Database query error'' (throw DatabaseQueryError) w
      | Some isNew \<Rightarrow> ok isNew w)"

text \<open>
  The writes for a gift deduction inside the transaction (purchaseLogic.go 529-559,
  renewalLogic.go 186-213): the user row, then the gift record in the system log.
  \<open>u\<close> is the user after the deduction.
\<close>

definition giftLog :: "'f env \<Rightarrow> string \<Rightarrow> user \<Rightarrow> order \<Rightarrow> system_log" where
  "giftLog env remark u orderInfo =
     \<lparr>l_Type = TypeGift, l_Date = today env, l_ObjectID = u_Id u,
      l_Content = \<lparr>g_Type = GiftTypeReduce, g_OrderNo = o_OrderNo orderInfo, g_SubscribeId = 0,
                   g_Amount = o_GiftAmount orderInfo, g_Balance = u_GiftAmount u,
                   g_Remark = remark, g_Timestamp = nowUnixMilli env\<rparr>\<rparr>"

definition giftWrites ::
  "'f env \<Rightarrow> string \<Rightarrow> string \<Rightarrow> user \<Rightarrow> order \<Rightarrow> database \<Rightarrow> string list \<times> database option" where
  "giftWrites env tag remark u orderInfo d =
     (if slt 0 (o_GiftAmount orderInfo)
      then (case UserModel_Update env u d of
              None \<Rightarrow> ([tag @ '' Database update error''], None)
            | Some d1 \<Rightarrow>
                (case SystemLog_Create env (giftLog env remark u orderInfo) d1 of
                   None \<Rightarrow> ([tag @ '' Database insert error''], None)
                 | Some d2 \<Rightarrow> ([], Some d2)))
      else ([], Some d))"

text \<open>
  The local variables of a workflow at the point where it builds the order record:
  the amount after the discount, after the coupon, after the gift deduction and after
  the fee, and what was taken off or added at each stage.
\<close>

record pricing =
  x_user :: user
  x_Quantity :: int64
  x_sub :: subscribe
  x_price :: int64
  x_discountAmount :: int64
  x_amount0 :: int64  \<comment> \<open>after the quantity discount\<close>
  x_coupon :: int64
  x_amount1 :: int64  \<comment> \<open>after the coupon\<close>
  x_deductionAmount :: int64
  x_giftAfter :: int64
  x_amount2 :: int64  \<comment> \<open>after the gift deduction\<close>
  x_payment :: payment
  x_feeAmount :: int64
  x_amount3 :: int64  \<comment> \<open>after the fee\<close>
  x_isNew :: bool

section \<open>Purchase (purchaseLogic.go)\<close>

record purchase_request =
  pr_SubscribeId :: int64
  pr_Quantity :: int64
  pr_Coupon :: string
  pr_Payment :: int64

text \<open>The loop of lines 402-407.\<close>

fun countSubscribe :: "user_subscribe list \<Rightarrow> int64 \<Rightarrow> int64 \<Rightarrow> int64" where
  "countSubscribe [] subscribeId count = count"
| "countSubscribe (v # vs) subscribeId count =
     countSubscribe vs subscribeId (if us_SubscribeId v = subscribeId then count + 1 else count)"

text \<open>Lines 371-432: the subscriptions of the user, the plan and the discounted amount.\<close>

definition purchasePlan ::
  "'f env \<Rightarrow> user \<Rightarrow> purchase_request \<Rightarrow> int64 \<Rightarrow> (subscribe \<times> int64 \<times> int64 \<times> int64) step" where
  "purchasePlan env u req quantity w =
     (case UserModel_QueryUserSubscribe env (db w) (u_Id u) of
        None \<Rightarrow> logged ''[Purchase] Database query error'' (throw DatabaseQueryError) w
      | Some userSub \<Rightarrow>
          if SingleModel env \<and> 0 < length userSub then throw UserSubscribeExist w
          else
            (case SubscribeModel_FindOne env (db w) (pr_SubscribeId req) of
               None \<Rightarrow> logged ''[Purchase] Database query error'' (throw DatabaseQueryError) w
             | Some sub \<Rightarrow>
                 (case s_Sell sub of
                    None \<Rightarrow> throw Panic w
                  | Some sell \<Rightarrow>
                      if \<not> sell then throw ERROR w
                      else if s_Inventory sub = 0 then throw SubscribeOutOfStock w
                      else if slt 0 (s_Quota sub) \<and>
                              sle (s_Quota sub) (countSubscribe userSub (pr_SubscribeId req) 0)
                      then throw SubscribeQuotaLimit w
                      else
                        (case discountedAmount env sub quantity of
                           (price, amount, discountAmount) \<Rightarrow>
                             if slt MaxOrderAmount amount
                             then logged ''[Purchase] Order amount exceeds maximum limit''
                                    (throw InvalidParams) w
                             else ok (sub, price, amount, discountAmount) w))))"

text \<open>Lines 480-500: the payment method and the fee.\<close>

definition purchaseFee :: "'f env \<Rightarrow> int64 \<Rightarrow> int64 \<Rightarrow> (payment \<times> int64 \<times> int64) step" where
  "purchaseFee env paymentId amount w =
     (case PaymentModel_FindOne env (db w) paymentId of
        None \<Rightarrow> logged ''[Purchase] Database query error'' (throw DatabaseQueryError) w
      | Some pay \<Rightarrow>
          if slt 0 amount
          then let feeAmount = calculateFee env amount pay;
                   amount' = amount + feeAmount
               in if slt MaxOrderAmount amount'
                  then logged ''[Purchase] Final order amount exceeds maximum limit after fee''
                         (throw InvalidParams) w
                  else ok (pay, feeAmount, amount') w
          else ok (pay, 0, amount) w)"

text \<open>
  Lines 354-506: everything before the order record is built, for the user of the
  request (\<open>purchaseSteps\<close>) and from the request context (\<open>purchasePricing\<close>).
\<close>

definition purchaseSteps :: "'f env \<Rightarrow> purchase_request \<Rightarrow> user \<Rightarrow> pricing step" where
  "purchaseSteps env req u =
     andThen (checkQuantity ''[Purchase]'' (pr_Quantity req)) (\<lambda>quantity.
     andThen (purchasePlan env u req quantity) (\<lambda>(sub, price, amount0, discountAmount).
     andThen (couponDeduction env ''[Purchase]'' u (pr_Coupon req) (pr_SubscribeId req) amount0)
       (\<lambda>coupon.
     case giftDeduction (u_GiftAmount u) (amount0 - coupon) of
       (deductionAmount, amount2, giftAfter) \<Rightarrow>
     andThen (purchaseFee env (pr_Payment req) amount2) (\<lambda>(pay, feeAmount, amount3).
     andThen (isNewStep env u) (\<lambda>isNew.
     ok \<lparr>x_user = u, x_Quantity = quantity, x_sub = sub, x_price = price,
         x_discountAmount = discountAmount, x_amount0 = amount0, x_coupon = coupon,
         x_amount1 = amount0 - coupon, x_deductionAmount = deductionAmount,
         x_giftAfter = giftAfter, x_amount2 = amount2, x_payment = pay,
         x_feeAmount = feeAmount, x_amount3 = amount3, x_isNew = isNew\<rparr>)))))"

definition purchasePricing :: "'f env \<Rightarrow> purchase_request \<Rightarrow> pricing step" where
  "purchasePricing env req =
     (case ctxUser env of
        None \<Rightarrow> logged ''current user is not found in context'' (throw InvalidAccess)
      | Some u \<Rightarrow> purchaseSteps env req u)"

text \<open>Lines 508-525.\<close>

definition purchaseOrder :: "'f env \<Rightarrow> purchase_request \<Rightarrow> pricing \<Rightarrow> order" where
  "purchaseOrder env req x =
     emptyOrder\<lparr>o_UserId := u_Id (x_user x), o_OrderNo := GenerateTradeNo env, o_Type := 1,
                o_Quantity := x_Quantity x, o_Price := x_price x, o_Amount := x_amount3 x,
                o_Discount := x_discountAmount x, o_GiftAmount := x_deductionAmount x,
                o_Coupon := pr_Coupon req, o_CouponDiscount := x_coupon x,
                o_PaymentId := p_Id (x_payment x), o_Method := p_Platform (x_payment x),
                o_FeeAmount := x_feeAmount x, o_Status := 1, o_IsNew := x_isNew x,
                o_SubscribeId := pr_SubscribeId req\<rparr>"

text \<open>
  Lines 527-573, the closure of the transaction: the gift writes, the inventory of a
  plan whose counter is not \<open>-1\<close>, the order.
\<close>

definition purchaseTx ::
  "'f env \<Rightarrow> user \<Rightarrow> subscribe \<Rightarrow> order \<Rightarrow> database \<Rightarrow> string list \<times> database option" where
  "purchaseTx env u sub orderInfo d =
     (case giftWrites env ''[Purchase]'' ''Purchase order deduction'' u orderInfo d of
        (ls, None) \<Rightarrow> (ls, None)
      | (ls, Some d1) \<Rightarrow>
          if s_Inventory sub \<noteq> - 1
          then (case SubscribeModel_Update env (sub\<lparr>s_Inventory := s_Inventory sub - 1\<rparr>) d1 of
                  None \<Rightarrow> (ls @ [''[Purchase] Database update error''], None)
                | Some d2 \<Rightarrow> (ls, Order_Create env orderInfo d2))
          else (ls, Order_Create env orderInfo d1))"

text \<open>Lines 527-578: the transaction and what Purchase returns when it fails.\<close>

definition purchaseCommit :: "'f env \<Rightarrow> purchase_request \<Rightarrow> pricing \<Rightarrow> order step" where
  "purchaseCommit env req x w =
     (let orderInfo = purchaseOrder env req x;
          u = (x_user x)\<lparr>u_GiftAmount := x_giftAfter x\<rparr>
      in case Transaction env (purchaseTx env u (x_sub x) orderInfo) w of
           (Inl e, w') \<Rightarrow> logged ''[Purchase] Database insert error'' (throw DatabaseInsertError) w'
         | (Inr _, w') \<Rightarrow> ok orderInfo w')"

definition Purchase :: "'f env \<Rightarrow> purchase_request \<Rightarrow> string step" where
  "Purchase env req =
     andThen (purchasePricing env req) (\<lambda>x.
     andThen (purchaseCommit env req x) (\<lambda>orderInfo.
     enqueueCloseOrder env ''[Purchase]'' (o_OrderNo orderInfo)))"

section \<open>Renewal (renewalLogic.go)\<close>

record renewal_request =
  rn_UserSubscribeID :: int64
  rn_Quantity :: int64
  rn_Coupon :: string
  rn_Payment :: int64

text \<open>Lines 59-93: the subscription being renewed, its plan and the discounted amount.\<close>

definition renewalPlan ::
  "'f env \<Rightarrow> renewal_request \<Rightarrow> int64 \<Rightarrow> (user_subscribe \<times> subscribe \<times> int64 \<times> int64 \<times> int64) step" where
  "renewalPlan env req quantity w =
     (case UserModel_FindOneUserSubscribe env (db w) (rn_UserSubscribeID req) of
        None \<Rightarrow> throw DatabaseQueryError w
      | Some userSubscribe \<Rightarrow>
          (case SubscribeModel_FindOne env (db w) (us_SubscribeId userSubscribe) of
             None \<Rightarrow> logged ''[Renewal] Database query error'' (throw DatabaseQueryError) w
           | Some sub \<Rightarrow>
               (case s_Sell sub of
                  None \<Rightarrow> throw Panic w
                | Some sell \<Rightarrow>
                    if \<not> sell then throw ERROR w
                    else
                      (case discountedAmount env sub quantity of
                         (price, amount, discountAmount) \<Rightarrow>
                           if slt MaxOrderAmount amount
                           then logged ''[Renewal] Order amount exceeds maximum limit''
                                  (throw InvalidParams) w
                           else ok (userSubscribe, sub, price, amount, discountAmount) w))))"

text \<open>Line 125-129.\<close>

definition renewalPayment :: "'f env \<Rightarrow> int64 \<Rightarrow> payment step" where
  "renewalPayment env paymentId w =
     (case PaymentModel_FindOne env (db w) paymentId of
        None \<Rightarrow> logged ''[Renewal] Database query error'' (throw DatabaseQueryError) w
      | Some pay \<Rightarrow> ok pay w)"

text \<open>Lines 146-161: the fee and the check of the total.\<close>

definition renewalFee :: "'f env \<Rightarrow> payment \<Rightarrow> int64 \<Rightarrow> (int64 \<times> int64) step" where
  "renewalFee env pay amount w =
     (let feeAmount = (if slt 0 amount then calculateFee env amount pay else 0);
          amount' = amount + feeAmount
      in if slt MaxOrderAmount amount'
         then logged ''[Renewal] Final order amount exceeds maximum limit after fee''
                (throw InvalidParams) w
         else ok (feeAmount, amount') w)"

text \<open>
  Lines 43-161: everything before the order record is built, for the user of the
  request (\<open>renewalSteps\<close>) and from the request context (\<open>renewalPricing\<close>).
\<close>

definition renewalSteps ::
  "'f env \<Rightarrow> renewal_request \<Rightarrow> user \<Rightarrow> (user_subscribe \<times> pricing) step" where
  "renewalSteps env req u =
     andThen (checkQuantity ''[Renewal]'' (rn_Quantity req)) (\<lambda>quantity.
     andThen (renewalPlan env req quantity)
       (\<lambda>(userSubscribe, sub, price, amount0, discountAmount).
     andThen (couponDeduction env ''[Renewal]'' u (rn_Coupon req) (s_Id sub) amount0)
       (\<lambda>coupon.
     andThen (renewalPayment env (rn_Payment req)) (\<lambda>pay.
     case giftDeduction (u_GiftAmount u) (amount0 - coupon) of
       (deductionAmount, amount2, giftAfter) \<Rightarrow>
     andThen (renewalFee env pay amount2) (\<lambda>(feeAmount, amount3).
     ok (userSubscribe,
         \<lparr>x_user = u, x_Quantity = quantity, x_sub = sub, x_price = price,
          x_discountAmount = discountAmount, x_amount0 = amount0, x_coupon = coupon,
          x_amount1 = amount0 - coupon, x_deductionAmount = deductionAmount,
          x_giftAfter = giftAfter, x_amount2 = amount2, x_payment = pay,
          x_feeAmount = feeAmount, x_amount3 = amount3, x_isNew = False\<rparr>))))))"

definition renewalPricing :: "'f env \<Rightarrow> renewal_request \<Rightarrow> (user_subscribe \<times> pricing) step" where
  "renewalPricing env req =
     (case ctxUser env of
        None \<Rightarrow> logged ''current user is not found in context'' (throw InvalidAccess)
      | Some u \<Rightarrow> renewalSteps env req u)"

text \<open>Lines 164-182.\<close>

definition renewalOrder :: "'f env \<Rightarrow> renewal_request \<Rightarrow> user_subscribe \<Rightarrow> pricing \<Rightarrow> order" where
  "renewalOrder env req userSubscribe x =
     emptyOrder\<lparr>o_UserId := u_Id (x_user x), o_ParentId := us_OrderId userSubscribe,
                o_OrderNo := GenerateTradeNo env, o_Type := 2, o_Quantity := x_Quantity x,
                o_Price := x_price x, o_Amount := x_amount3 x,
                o_GiftAmount := x_deductionAmount x, o_Discount := x_discountAmount x,
                o_Coupon := rn_Coupon req, o_CouponDiscount := x_coupon x,
                o_PaymentId := p_Id (x_payment x), o_Method := p_Platform (x_payment x),
                o_FeeAmount := x_feeAmount x, o_Status := 1,
                o_SubscribeId := us_SubscribeId userSubscribe,
                o_SubscribeToken := us_Token userSubscribe\<rparr>"

text \<open>Lines 184-216, the closure of the transaction: the gift writes, then the order.\<close>

definition renewalTx ::
  "'f env \<Rightarrow> user \<Rightarrow> order \<Rightarrow> database \<Rightarrow> string list \<times> database option" where
  "renewalTx env u orderInfo d =
     (case giftWrites env ''[Renewal]'' ''Renewal order deduction'' u orderInfo d of
        (ls, None) \<Rightarrow> (ls, None)
      | (ls, Some d1) \<Rightarrow> (ls, Order_Create env orderInfo d1))"

definition renewalCommit ::
  "'f env \<Rightarrow> renewal_request \<Rightarrow> user_subscribe \<Rightarrow> pricing \<Rightarrow> order step" where
  "renewalCommit env req userSubscribe x w =
     (let orderInfo = renewalOrder env req userSubscribe x;
          u = (x_user x)\<lparr>u_GiftAmount := x_giftAfter x\<rparr>
      in case Transaction env (renewalTx env u orderInfo) w of
           (Inl e, w') \<Rightarrow> logged ''[Renewal] Database insert error'' (throw StoreError) w'
         | (Inr _, w') \<Rightarrow> ok orderInfo w')"

definition Renewal :: "'f env \<Rightarrow> renewal_request \<Rightarrow> string step" where
  "Renewal env req =
     andThen (renewalPricing env req) (\<lambda>(userSubscribe, x).
     andThen (renewalCommit env req userSubscribe x) (\<lambda>orderInfo.
     enqueueCloseOrder env ''[Renewal]'' (o_OrderNo orderInfo)))"

section \<open>The writes of a fulfilment\<close>

text \<open>
  The writes that the specification lists for the fulfilment transaction (4.4), each as
  a function on the store: (a), (b) the user row and the gift record when a deduction
  occurred, (c) one unit off the inventory of a plan whose counter is not \<open>-1\<close>, (d) the
  order record.
\<close>

definition giftWritten :: "'f env \<Rightarrow> string \<Rightarrow> user \<Rightarrow> order \<Rightarrow> database \<Rightarrow> database" where
  "giftWritten env remark u orderInfo d =
     (if slt 0 (o_GiftAmount orderInfo)
      then d\<lparr>users := map (\<lambda>y. if u_Id y = u_Id u then u else y) (users d),
             system_logs := system_logs d @ [giftLog env remark u orderInfo]\<rparr>
      else d)"

definition stockTaken :: "subscribe \<Rightarrow> database \<Rightarrow> database" where
  "stockTaken sub d =
     (if s_Inventory sub \<noteq> - 1
      then d\<lparr>subscribes :=
               map (\<lambda>y. if s_Id y = s_Id sub then sub\<lparr>s_Inventory := s_Inventory sub - 1\<rparr> else y)
                 (subscribes d)\<rparr>
      else d)"

definition orderInserted :: "order \<Rightarrow> database \<Rightarrow> database" where
  "orderInserted orderInfo d = d\<lparr>orders := orders d @ [orderInfo]\<rparr>"

text \<open>The user of a priced request after the gift deduction.\<close>

definition debited :: "pricing \<Rightarrow> user" where
  "debited x = (x_user x)\<lparr>u_GiftAmount := x_giftAfter x\<rparr>"

section \<open>Amounts in range\<close>

text \<open>An amount within \<open>[0, MaxOrderAmount]\<close>.\<close>

definition inRange :: "int64 \<Rightarrow> bool" where
  "inRange a \<longleftrightarrow> sle 0 a \<and> sle a MaxOrderAmount"



section \<open>The order of the checks of a purchase\<close>

text \<open>
  The checks of the eligibility guard (specification 4.2), each as the error it raises
  when it is violated, for a purchase whose plan and payment method are known: the
  quantity, the plan being for sale, the inventory, the quota per user, the
  single-subscription mode, the coupon (the first of its four conditions that fails) and
  the ceiling of the amount, after the discount and after the fee.
\<close>

record guard_checks =
  g_quantity :: "error option"
  g_sellable :: "error option"
  g_inventory :: "error option"
  g_quota :: "error option"
  g_single :: "error option"
  g_coupon :: "error option"
  g_ceiling :: "error option"
  g_ceilingFee :: "error option"

definition violated :: "bool \<Rightarrow> error \<Rightarrow> error option" where
  "violated b e = (if b then Some e else None)"

definition couponViolation ::
  "'f env \<Rightarrow> database \<Rightarrow> user \<Rightarrow> string \<Rightarrow> int64 \<Rightarrow> error option" where
  "couponViolation env d u code subId =
     (if code = [] then None
      else case find (\<lambda>c. c_Code c = code) (coupons d) of
             None \<Rightarrow> Some CouponNotExist
           | Some c \<Rightarrow>
               if c_Count c \<noteq> 0 \<and> sle (c_Count c) (c_UsedCount c)
               then Some CouponInsufficientUsage
               else if StringToInt64Slice env (c_Subscribe c) \<noteq> [] \<and>
                       subId \<notin> set (StringToInt64Slice env (c_Subscribe c))
               then Some CouponNotApplicable
               else if sle (c_UserLimit c)
                         (of_nat (length (filter (\<lambda>x. o_UserId x = u_Id u \<and> o_Coupon x = code)
                                            (orders d))))
               then Some CouponInsufficientUsage
               else None)"

definition couponValue :: "'f env \<Rightarrow> database \<Rightarrow> string \<Rightarrow> int64 \<Rightarrow> int64" where
  "couponValue env d code amount =
     (if code = [] then 0
      else case find (\<lambda>c. c_Code c = code) (coupons d) of
             None \<Rightarrow> 0
           | Some c \<Rightarrow> calculateCoupon env amount c)"

definition purchaseChecks ::
  "'f env \<Rightarrow> database \<Rightarrow> user \<Rightarrow> purchase_request \<Rightarrow> subscribe \<Rightarrow> payment \<Rightarrow> guard_checks" where
  "purchaseChecks env d u req sub pay =
     (let quantity = (if sle (pr_Quantity req) 0 then 1 else pr_Quantity req);
          userSub = filter (\<lambda>s. us_UserId s = u_Id u) (user_subscribes d);
          amount0 = fst (snd (discountedAmount env sub quantity));
          coupon = couponValue env d (pr_Coupon req) amount0;
          amount2 = fst (snd (giftDeduction (u_GiftAmount u) (amount0 - coupon)))
      in \<lparr>g_quantity = violated (slt MaxQuantity quantity) InvalidParams,
          g_sellable = violated (s_Sell sub = Some False) ERROR,
          g_inventory = violated (s_Inventory sub = 0) SubscribeOutOfStock,
          g_quota = violated (slt 0 (s_Quota sub) \<and>
                              sle (s_Quota sub) (countSubscribe userSub (pr_SubscribeId req) 0))
                      SubscribeQuotaLimit,
          g_single = violated (SingleModel env \<and> userSub \<noteq> []) UserSubscribeExist,
          g_coupon = couponViolation env d u (pr_Coupon req) (pr_SubscribeId req),
          g_ceiling = violated (slt MaxOrderAmount amount0) InvalidParams,
          g_ceilingFee = violated (slt 0 amount2 \<and>
                                   slt MaxOrderAmount (amount2 + calculateFee env amount2 pay))
                           InvalidParams\<rparr>)"

fun firstViolation :: "error option list \<Rightarrow> error option" where
  "firstViolation [] = None"
| "firstViolation (None # cs) = firstViolation cs"
| "firstViolation (Some e # cs) = Some e"

text \<open>The order in which the claim lists the checks, and the order in which Purchase makes them.\<close>

definition claimedOrder :: "guard_checks \<Rightarrow> error option list" where
  "claimedOrder g =
     [g_quantity g, g_sellable g, g_inventory g, g_quota g, g_single g, g_coupon g,
      g_ceiling g, g_ceilingFee g]"

definition codeOrder :: "guard_checks \<Rightarrow> error option list" where
  "codeOrder g =
     [g_quantity g, g_single g, g_sellable g, g_inventory g, g_quota g, g_ceiling g,
      g_coupon g, g_ceilingFee g]"

definition verdict :: "'f env \<Rightarrow> error option list \<Rightarrow> error + string" where
  "verdict env checks =
     (case firstViolation checks of Some e \<Rightarrow> Inl e | None \<Rightarrow> Inr (GenerateTradeNo env))"

section \<open>Subscription content (subscribeLogic.go)\<close>

record node_server =
  ns_Id :: int64
  ns_Name :: string
  ns_Protocols :: string

record node =
  n_Name :: string
  n_Tags :: string
  n_Port :: nat
  n_Address :: string
  n_Server :: "node_server option"
  n_Protocol :: string
  n_Enabled :: "bool option"

record application =
  a_UserAgent :: string
  a_IsDefault :: bool
  a_SubscribeTemplate :: string
  a_OutputFormat :: string

record subscribe_request =
  sr_Token :: string
  sr_UA :: string
  sr_Params :: "(string \<times> string) list"

record adapter_user =
  au_Password :: string
  au_ExpiredAt :: int
  au_Download :: int64
  au_Upload :: int64
  au_Traffic :: int64
  au_SubscribeURL :: string

record adapter_config =
  ad_Template :: string
  ad_Servers :: "node list"
  ad_SiteName :: string
  ad_SubscribeName :: string
  ad_OutputFormat :: string
  ad_UserInfo :: adapter_user
  ad_Params :: "(string \<times> string) list"

text \<open>
  The answer of the handler: the built configuration and the four numbers that the source
  prints into the header line \<^verbatim>\<open>upload=%d;download=%d;total=%d;expire=%d\<close>.
\<close>

record subscribe_response =
  rs_Config :: string
  rs_Upload :: int64
  rs_Download :: int64
  rs_Total :: int64
  rs_Expire :: int

record subscribe_log =
  sl_Token :: string
  sl_UserAgent :: string
  sl_ClientIP :: string
  sl_UserSubscribeId :: int64
  sl_ObjectID :: int64
  sl_Date :: string

text \<open>
  What a subscription request reads: the configuration, the HTTP request, the clock, and
  the collaborators that are not among the sources (the stores, the adapter that renders
  the configuration, the helpers of \<^verbatim>\<open>pkg/tool\<close>) or belong to Go's library
  (\<^verbatim>\<open>strings.ToLower\<close>, \<^verbatim>\<open>url.QueryEscape\<close>). A store answers \<open>None\<close> when the call fails.
  \<^verbatim>\<open>FindOneSubscribeByToken\<close> returns a pointer and an error: an error, a nil pointer
  without an error, or a row.
\<close>

datatype by_token = TokenError | TokenNil | TokenFound user_subscribe

record sub_env =
  cfg_Host :: string
  cfg_SiteName :: string
  cfg_SubscribeDomain :: string
  req_UserAgent :: string
  req_RequestURI :: string
  req_Host :: string
  req_ClientIP :: string
  IsGatewayMode :: bool
  nowUnix :: int
  todayDate :: string
  ToLower :: "string \<Rightarrow> string"
  QueryEscape :: "string \<Rightarrow> string"
  ClientModel_List :: "application list option"
  FindOneSubscribeByToken :: "string \<Rightarrow> by_token"
  FindOneSubscribe :: "int64 \<Rightarrow> subscribe option"
  FilterNodeList :: "int64 list \<Rightarrow> string list \<Rightarrow> node list option"
  ToInt64Slice :: "string \<Rightarrow> int64 list"
  RemoveStringElement :: "string list \<Rightarrow> string \<Rightarrow> string list"
  RemoveDuplicateElements :: "string list \<Rightarrow> string list"
  adapterClient :: "adapter_config \<Rightarrow> adapter_config option"
  clientBuild :: "adapter_config \<Rightarrow> string option"
  LogInsertFails :: bool

text \<open>What a subscription request leaves: response headers, the system log, logger lines.\<close>

record sub_world =
  sw_headers :: "(string \<times> string) list"
  sw_system_logs :: "subscribe_log list"
  sw_lines :: "string list"

definition say :: "string \<Rightarrow> sub_world \<Rightarrow> sub_world" where
  "say line w = w\<lparr>sw_lines := sw_lines w @ [line]\<rparr>"

text \<open>\<^verbatim>\<open>strings.Split(s, sep)\<close> for a separator of one byte, \<^verbatim>\<open>strings.Contains\<close>.\<close>

fun Split :: "string \<Rightarrow> char \<Rightarrow> string list" where
  "Split [] sep = [[]]"
| "Split (c # cs) sep =
     (if c = sep then [] # Split cs sep
      else (case Split cs sep of [] \<Rightarrow> [[c]] | x # xs \<Rightarrow> (c # x) # xs))"

fun Contains :: "string \<Rightarrow> string \<Rightarrow> bool" where
  "Contains [] substr = (substr = [])"
| "Contains (c # cs) substr = (take (length substr) (c # cs) = substr \<or> Contains cs substr)"

definition newline :: char where
  "newline = CHR 0x0A"

definition getFirstHostLine :: "sub_env \<Rightarrow> string" where
  "getFirstHostLine env =
     (let host = cfg_Host env;
          lines = Split host newline
      in if 0 < length lines then hd lines else host)"

definition expiredServer :: node_server where
  "expiredServer =
     \<lparr>ns_Id = 1, ns_Name = ''Subscribe Expired'',
      ns_Protocols = ''[{\"type\":\"shadowsocks\",\"cipher\":\"aes-256-gcm\",\"port\":1}]''\<rparr>"

definition createExpiredServers :: "sub_env \<Rightarrow> node list" where
  "createExpiredServers env =
     (let enable = True;
          host = getFirstHostLine env
      in [\<lparr>n_Name = ''Subscribe Expired'', n_Tags = [], n_Port = 18080,
           n_Address = ''127.0.0.1'', n_Server = Some expiredServer,
           n_Protocol = ''shadowsocks'', n_Enabled = Some enable\<rparr>,
          \<lparr>n_Name = host, n_Tags = [], n_Port = 18080,
           n_Address = ''127.0.0.1'', n_Server = Some expiredServer,
           n_Protocol = ''shadowsocks'', n_Enabled = Some enable\<rparr>])"

definition isSubscriptionExpired :: "sub_env \<Rightarrow> user_subscribe \<Rightarrow> bool" where
  "isSubscriptionExpired env userSub =
     (us_ExpireTime userSub < nowUnix env \<and> us_ExpireTime userSub \<noteq> 0)"

definition getServers ::
  "sub_env \<Rightarrow> user_subscribe \<Rightarrow> sub_world \<Rightarrow> (error + node list) \<times> sub_world" where
  "getServers env userSub w =
     (if isSubscriptionExpired env userSub then (Inr (createExpiredServers env), w)
      else
        (case FindOneSubscribe env (us_SubscribeId userSub) of
           None \<Rightarrow>
             (Inl DatabaseQueryError, say ''[Generate Subscribe]find subscribe details error: %v'' w)
         | Some subDetails \<Rightarrow>
             let nodeIds = ToInt64Slice env (s_Nodes subDetails);
                 tags = RemoveStringElement env (Split (s_NodeTags subDetails) CHR '','') [];
                 w1 = say ''[Generate Subscribe]nodes: %v, NodeTags: %v'' w
             in if length nodeIds = 0 \<and> length tags = 0
                then (Inr [], say ''[Generate Subscribe]no subscribe nodes'' w1)
                else
                  (case FilterNodeList env nodeIds (RemoveDuplicateElements env tags) of
                     None \<Rightarrow>
                       (Inl DatabaseQueryError,
                        say ''[Generate Subscribe]find server details error: %v''
                          (say ''[Query Subscribe]found servers: %v'' w1))
                   | Some nodes \<Rightarrow>
                       (Inr nodes,
                        say ''[Generate Subscribe]found servers: %v''
                          (say ''[Query Subscribe]found servers: %v'' w1)))))"

text \<open>
  The check of the subscription's status is commented out in the source
  (\<^verbatim>\<open>//  Ignore expiration check\<close>): a subscription that is found is returned.
\<close>

definition getUserSubscribe ::
  "sub_env \<Rightarrow> string \<Rightarrow> sub_world \<Rightarrow> (error + user_subscribe) \<times> sub_world" where
  "getUserSubscribe env token w =
     (case FindOneSubscribeByToken env token of
        TokenError \<Rightarrow> (Inl DatabaseQueryError, say ''[Generate Subscribe]find subscribe error: %v'' w)
      | TokenNil \<Rightarrow>
          (Inl SubscribeTokenInvalid, say ''[Generate Subscribe] token invalid or user not found'' w)
      | TokenFound userSub \<Rightarrow> (Inr userSub, w))"

definition getSubscribeV2URL :: "sub_env \<Rightarrow> string" where
  "getSubscribeV2URL env =
     (let uri = (if IsGatewayMode env then ''/sub'' @ req_RequestURI env else req_RequestURI env)
      in if cfg_SubscribeDomain env \<noteq> []
         then ''https://'' @ hd (Split (cfg_SubscribeDomain env) newline) @ uri
         else ''https://'' @ req_Host env @ uri)"

definition logSubscribeActivity ::
  "sub_env \<Rightarrow> bool \<Rightarrow> user_subscribe \<Rightarrow> subscribe_request \<Rightarrow> sub_world \<Rightarrow> sub_world" where
  "logSubscribeActivity env subscribeStatus userSub req w =
     (if \<not> subscribeStatus then w
      else if LogInsertFails env
      then say ''[Generate Subscribe]insert subscribe log error: %v'' w
      else w\<lparr>sw_system_logs := sw_system_logs w @
               [\<lparr>sl_Token = sr_Token req, sl_UserAgent = sr_UA req, sl_ClientIP = req_ClientIP env,
                 sl_UserSubscribeId = us_Id userSub, sl_ObjectID = us_UserId userSub,
                 sl_Date = todayDate env\<rparr>]\<rparr>)"

text \<open>The loop of lines 53-67: the matching client and the default client seen so far.\<close>

fun selectClient ::
  "sub_env \<Rightarrow> string \<Rightarrow> application list \<Rightarrow> application option
     \<Rightarrow> application option \<times> application option" where
  "selectClient env userAgent [] defaultApp = (None, defaultApp)"
| "selectClient env userAgent (item # items) defaultApp =
     (let u = ToLower env (a_UserAgent item);
          defaultApp' = (if a_IsDefault item then Some item else defaultApp)
      in if Contains userAgent u
         then if Contains userAgent ''stash'' \<and> \<not> Contains u ''stash''
              then selectClient env userAgent items defaultApp'
              else (Some item, defaultApp')
         else selectClient env userAgent items defaultApp')"

text \<open>Lines 129-137: the download headers for the formats json, yaml and conf.\<close>

fun formatHeaders :: "sub_env \<Rightarrow> application \<Rightarrow> string list \<Rightarrow> sub_world \<Rightarrow> sub_world" where
  "formatHeaders env targetApp [] w = w"
| "formatHeaders env targetApp (format # formats) w =
     formatHeaders env targetApp formats
       (if format = ToLower env (a_OutputFormat targetApp)
        then w\<lparr>sw_headers := sw_headers w @
               [(''content-disposition'',
                 ''attachment;filename*=UTF-8'' @ [CHR 0x27, CHR 0x27] @
                   QueryEscape env (cfg_SiteName env) @ ''.'' @ format),
                (''Content-Type'', ''application/octet-stream; charset=UTF-8'')]\<rparr>
        else w)"

text \<open>Lines 86-148, once the client and the user's subscription are known.\<close>

definition buildSubscription ::
  "sub_env \<Rightarrow> subscribe_request \<Rightarrow> application \<Rightarrow> user_subscribe \<Rightarrow> sub_world
     \<Rightarrow> (error + subscribe_response) \<times> sub_world" where
  "buildSubscription env req targetApp userSubscribe w =
     (case FindOneSubscribe env (us_SubscribeId userSubscribe) of
        None \<Rightarrow> (Inl DatabaseQueryError, say ''[SubscribeLogic] Find subscribe info failed'' w)
      | Some subscribeInfo \<Rightarrow>
          (case getServers env userSubscribe w of
             (Inl e, w1) \<Rightarrow> (Inl e, w1)
           | (Inr servers, w1) \<Rightarrow>
               let a = \<lparr>ad_Template = a_SubscribeTemplate targetApp, ad_Servers = servers,
                        ad_SiteName = cfg_SiteName env, ad_SubscribeName = s_Name subscribeInfo,
                        ad_OutputFormat = a_OutputFormat targetApp,
                        ad_UserInfo =
                          \<lparr>au_Password = us_UUID userSubscribe,
                           au_ExpiredAt = us_ExpireTime userSubscribe,
                           au_Download = us_Download userSubscribe,
                           au_Upload = us_Upload userSubscribe,
                           au_Traffic = us_Traffic userSubscribe,
                           au_SubscribeURL = getSubscribeV2URL env\<rparr>,
                        ad_Params = sr_Params req\<rparr>;
                   w2 = say ''[SubscribeLogic] Building client config for user %d with URI %s'' w1
               in (case adapterClient env a of
                     None \<Rightarrow> (Inl Code500, say ''[SubscribeLogic] Client error'' w2)
                   | Some adapterClient' \<Rightarrow>
                       (case clientBuild env adapterClient' of
                          None \<Rightarrow> (Inl Code500, say ''[SubscribeLogic] Build client config failed'' w2)
                        | Some bytes \<Rightarrow>
                            let w3 = formatHeaders env targetApp [''json'', ''yaml'', ''conf''] w2
                            in (Inr \<lparr>rs_Config = bytes, rs_Upload = us_Upload userSubscribe,
                                     rs_Download = us_Download userSubscribe,
                                     rs_Total = us_Traffic userSubscribe,
                                     rs_Expire = us_ExpireTime userSubscribe\<rparr>,
                                logSubscribeActivity env True userSubscribe req w3)))))"

definition Handler ::
  "sub_env \<Rightarrow> subscribe_request \<Rightarrow> sub_world \<Rightarrow> (error + subscribe_response) \<times> sub_world" where
  "Handler env req w =
     (case ClientModel_List env of
        None \<Rightarrow> (Inl StoreError, say ''[SubscribeLogic] Query client list failed'' w)
      | Some clients \<Rightarrow>
          let userAgent = ToLower env (req_UserAgent env)
          in (case selectClient env userAgent clients None of
                (None, None) \<Rightarrow> (Inl ERROR, say ''[SubscribeLogic] No matching client found'' w)
              | (None, Some defaultApp) \<Rightarrow>
                  (case getUserSubscribe env (sr_Token req)
                          (say ''[SubscribeLogic] No matching client found'' w) of
                     (Inl e, w1) \<Rightarrow> (Inl e, say ''[SubscribeLogic] Get user subscribe failed'' w1)
                   | (Inr userSubscribe, w1) \<Rightarrow>
                       buildSubscription env req defaultApp userSubscribe w1)
              | (Some targetApp, _) \<Rightarrow>
                  (case getUserSubscribe env (sr_Token req) w of
                     (Inl e, w1) \<Rightarrow> (Inl e, say ''[SubscribeLogic] Get user subscribe failed'' w1)
                   | (Inr userSubscribe, w1) \<Rightarrow>
                       buildSubscription env req targetApp userSubscribe w1)))"

section \<open>Fixtures\<close>

text \<open>
  Concrete users, plans, payment methods and collaborators on which the theorems below
  are instantiated: a plan at unit price 1000 with five units in stock, a plan at unit
  price 2000000000 with unlimited stock, a payment method
  without fee and one with a fixed fee of 200000000, a coupon worth at most 100 that a
  user may redeem once, a coupon used up and a coupon for the second plan only, a subscription of the user to each plan, no quantity discount.
\<close>

definition user0 :: user where
  "user0 = \<lparr>u_Id = 7, u_GiftAmount = 0\<rparr>"

definition pay0 :: payment where
  "pay0 = \<lparr>p_Id = 1, p_Platform = ''epay''\<rparr>"

definition pay1 :: payment where
  "pay1 = \<lparr>p_Id = 2, p_Platform = ''stripe_alipay''\<rparr>"

definition plan0 :: subscribe where
  "plan0 = \<lparr>s_Id = 1, s_Name = ''basic'', s_UnitPrice = 1000, s_Discount = [], s_Inventory = 5,
            s_Quota = 0, s_Sell = Some True, s_Nodes = [], s_NodeTags = []\<rparr>"

definition plan1 :: subscribe where
  "plan1 = \<lparr>s_Id = 2, s_Name = ''premium'', s_UnitPrice = 2000000000, s_Discount = [],
            s_Inventory = - 1, s_Quota = 0, s_Sell = Some True, s_Nodes = [], s_NodeTags = []\<rparr>"

definition usub0 :: user_subscribe where
  "usub0 = \<lparr>us_Id = 3, us_UserId = 7, us_OrderId = 11, us_SubscribeId = 1, us_Token = ''tok'',
            us_UUID = ''uuid'', us_ExpireTime = 1600000000, us_Download = 0, us_Upload = 0,
            us_Traffic = 0, us_Status = 1\<rparr>"

definition usub1 :: user_subscribe where
  "usub1 = usub0\<lparr>us_Id := 4, us_OrderId := 12, us_SubscribeId := 2, us_Token := ''tok2''\<rparr>"

definition coupon0 :: coupon where
  "coupon0 = \<lparr>c_Code = ''SAVE'', c_Count = 0, c_UsedCount = 0, c_UserLimit = 1, c_Subscribe = []\<rparr>"

definition coupon1 :: coupon where
  "coupon1 = \<lparr>c_Code = ''GONE'', c_Count = 5, c_UsedCount = 5, c_UserLimit = 1, c_Subscribe = []\<rparr>"

definition coupon2 :: coupon where
  "coupon2 = \<lparr>c_Code = ''PREMIUM'', c_Count = 0, c_UsedCount = 0, c_UserLimit = 1,
              c_Subscribe = ''2''\<rparr>"

definition db0 :: database where
  "db0 = \<lparr>users = [user0], subscribes = [plan0, plan1], user_subscribes = [usub0, usub1], coupons = [coupon0, coupon1, coupon2],
          payments = [pay0, pay1], orders = [], system_logs = []\<rparr>"

definition world0 :: world where
  "world0 = \<lparr>db = db0, queue = [], logs = []\<rparr>"

definition env0 :: "unit env" where
  "env0 = \<lparr>ctxUser = Some user0, SingleModel = False, getDiscount = (\<lambda>_ _. ()), noDiscount = (),
           applyDiscount = (\<lambda>price _. price),
           calculateCoupon = (\<lambda>amount _. if sle amount 100 then amount else 100),
           calculateFee = (\<lambda>amount pay. if p_Id pay = 2 then 200000000 else 0),
           StringToInt64Slice = (\<lambda>s. if s = ''2'' then [2] else []), GenerateTradeNo = ''T0001'',
           IsUserEligibleForNewOrder = (\<lambda>_. True), nowUnixMilli = 1700000000000,
           today = ''2023-11-14'', faults = {}\<rparr>"

text \<open>The same store after the user has placed an order with the first coupon.\<close>

definition order0 :: order where
  "order0 = emptyOrder\<lparr>o_UserId := 7, o_OrderNo := ''T0000'', o_Type := 1, o_Coupon := ''SAVE'',
                       o_Status := 1\<rparr>"

definition world1 :: world where
  "world1 = world0\<lparr>db := db0\<lparr>orders := [order0]\<rparr>\<rparr>"

text \<open>The same collaborators for a user with a gift balance of 5000.\<close>

definition user1 :: user where
  "user1 = \<lparr>u_Id = 7, u_GiftAmount = 5000\<rparr>"

definition env1 :: "unit env" where
  "env1 = env0\<lparr>ctxUser := Some user1\<rparr>"

text \<open>
  The requests: three units of the first plan bought and renewed (without coupon, with
  the coupon and the fixed fee, with a code that no coupon has, with the coupon used up,
  with the coupon of the other plan), one unit of the second plan bought and renewed with
  the fixed fee, and a recharge of 5000 with the fixed fee.
\<close>

definition purchase0 :: purchase_request where
  "purchase0 = \<lparr>pr_SubscribeId = 1, pr_Quantity = 3, pr_Coupon = [], pr_Payment = 1\<rparr>"

definition renewal0 :: renewal_request where
  "renewal0 = \<lparr>rn_UserSubscribeID = 3, rn_Quantity = 3, rn_Coupon = ''SAVE'', rn_Payment = 1\<rparr>"

definition purchase1 :: purchase_request where
  "purchase1 = \<lparr>pr_SubscribeId = 2, pr_Quantity = 1, pr_Coupon = [], pr_Payment = 2\<rparr>"

definition purchase2 :: purchase_request where
  "purchase2 = \<lparr>pr_SubscribeId = 1, pr_Quantity = 3, pr_Coupon = ''SAVE'', pr_Payment = 2\<rparr>"

definition purchase3 :: purchase_request where
  "purchase3 = \<lparr>pr_SubscribeId = 1, pr_Quantity = 3, pr_Coupon = ''NONE'', pr_Payment = 1\<rparr>"

definition purchase4 :: purchase_request where
  "purchase4 = \<lparr>pr_SubscribeId = 1, pr_Quantity = 3, pr_Coupon = ''GONE'', pr_Payment = 1\<rparr>"

definition purchase5 :: purchase_request where
  "purchase5 = \<lparr>pr_SubscribeId = 1, pr_Quantity = 3, pr_Coupon = ''PREMIUM'', pr_Payment = 1\<rparr>"

definition renewal1 :: renewal_request where
  "renewal1 = \<lparr>rn_UserSubscribeID = 4, rn_Quantity = 1, rn_Coupon = [], rn_Payment = 2\<rparr>"

definition recharge0 :: recharge_request where
  "recharge0 = \<lparr>rr_Amount = 5000, rr_Payment = 2\<rparr>"

text \<open>
  A larger store: besides the two plans, a plan that is not for sale, a plan at unit
  price 3000000000 and a plan that is sold out, to which the user has a subscription;
  and the collaborators in single-subscription mode.
\<close>

definition plan2 :: subscribe where
  "plan2 = plan0\<lparr>s_Id := 3, s_Name := ''retired'', s_Sell := Some False\<rparr>"

definition plan3 :: subscribe where
  "plan3 = plan1\<lparr>s_Id := 4, s_Name := ''gold'', s_UnitPrice := 3000000000\<rparr>"

definition plan4 :: subscribe where
  "plan4 = plan0\<lparr>s_Id := 5, s_Name := ''limited'', s_Inventory := 0\<rparr>"

definition usub2 :: user_subscribe where
  "usub2 = usub0\<lparr>us_Id := 5, us_OrderId := 13, us_SubscribeId := 5, us_Token := ''tok3''\<rparr>"

definition world2 :: world where
  "world2 = world0\<lparr>db := db0\<lparr>subscribes := [plan0, plan1, plan2, plan3, plan4],
                               user_subscribes := [usub0, usub1, usub2]\<rparr>\<rparr>"

definition env3 :: "unit env" where
  "env3 = env0\<lparr>SingleModel := True\<rparr>"

definition purchase6 :: purchase_request where
  "purchase6 = \<lparr>pr_SubscribeId = 3, pr_Quantity = 1, pr_Coupon = [], pr_Payment = 1\<rparr>"

definition purchase7 :: purchase_request where
  "purchase7 = \<lparr>pr_SubscribeId = 4, pr_Quantity = 1, pr_Coupon = ''NONE'', pr_Payment = 1\<rparr>"

definition purchase8 :: purchase_request where
  "purchase8 = \<lparr>pr_SubscribeId = 5, pr_Quantity = 1, pr_Coupon = [], pr_Payment = 1\<rparr>"

definition purchase9 :: purchase_request where
  "purchase9 = \<lparr>pr_SubscribeId = 2, pr_Quantity = 1, pr_Coupon = [], pr_Payment = 1\<rparr>"

definition renewal2 :: renewal_request where
  "renewal2 = \<lparr>rn_UserSubscribeID = 5, rn_Quantity = 1, rn_Coupon = [], rn_Payment = 1\<rparr>"

text \<open>
  A subscription request: one client, which is the default; the token of \<open>usub0\<close>, which
  expired before \<open>nowUnix\<close>; a configured host of two lines; an adapter that renders the
  names of the nodes it is given.
\<close>

definition app0 :: application where
  "app0 = \<lparr>a_UserAgent = ''clash'', a_IsDefault = True, a_SubscribeTemplate = ''tpl'',
           a_OutputFormat = ''yaml''\<rparr>"

definition subenv0 :: sub_env where
  "subenv0 =
     \<lparr>cfg_Host = ''panel.example.com'' @ [newline] @ ''backup.example.com'',
      cfg_SiteName = ''Panel'', cfg_SubscribeDomain = [],
      req_UserAgent = ''clash'', req_RequestURI = ''/v1/subscribe'',
      req_Host = ''panel.example.com'', req_ClientIP = ''10.0.0.1'',
      IsGatewayMode = False, nowUnix = 1700000000, todayDate = ''2023-11-14'',
      ToLower = (\<lambda>s. s), QueryEscape = (\<lambda>s. s),
      ClientModel_List = Some [app0],
      FindOneSubscribeByToken = (\<lambda>t. if t = ''tok'' then TokenFound usub0 else TokenNil),
      FindOneSubscribe = (\<lambda>i. if i = 1 then Some plan0 else None),
      FilterNodeList = (\<lambda>ids tags. Some []),
      ToInt64Slice = (\<lambda>s. []),
      RemoveStringElement = (\<lambda>xs x. filter (\<lambda>y. y \<noteq> x) xs),
      RemoveDuplicateElements = remdups,
      adapterClient = Some,
      clientBuild = (\<lambda>c. Some (concat (map (\<lambda>n. n_Name n @ '';'') (ad_Servers c)))),
      LogInsertFails = False\<rparr>"

definition subreq0 :: subscribe_request where
  "subreq0 = \<lparr>sr_Token = ''tok'', sr_UA = ''clash'', sr_Params = []\<rparr>"

definition subworld0 :: sub_world where
  "subworld0 = \<lparr>sw_headers = [], sw_system_logs = [], sw_lines = []\<rparr>"

text \<open>
  A plan whose unit price is \<open>2 ^ 62\<close> and a plan whose unit price is negative, both
  for sale, without a tier table and with unlimited stock; a subscription of the user to
  the first of them. Without a tier table the multiplier is 1, and
  \<^verbatim>\<open>int64(float64(price) * 1)\<close> is \<open>price\<close> for the prices that occur here
  (\<open>- (2 ^ 62)\<close> and \<open>- 1000\<close> are \<^verbatim>\<open>float64\<close> values), as \<open>applyDiscount env0\<close> has it.
\<close>

definition plan5 :: subscribe where
  "plan5 = plan1\<lparr>s_Id := 6, s_Name := ''huge'', s_UnitPrice := 4611686018427387904\<rparr>"

definition plan6 :: subscribe where
  "plan6 = plan1\<lparr>s_Id := 7, s_Name := ''refund'', s_UnitPrice := - 1000\<rparr>"

definition usub3 :: user_subscribe where
  "usub3 = usub0\<lparr>us_Id := 6, us_OrderId := 14, us_SubscribeId := 6, us_Token := ''tok4''\<rparr>"

definition world3 :: world where
  "world3 = world0\<lparr>db := db0\<lparr>subscribes := [plan0, plan1, plan5, plan6],
                               user_subscribes := [usub0, usub1, usub3]\<rparr>\<rparr>"

definition purchase10 :: purchase_request where
  "purchase10 = \<lparr>pr_SubscribeId = 6, pr_Quantity = 3, pr_Coupon = [], pr_Payment = 1\<rparr>"

definition purchase11 :: purchase_request where
  "purchase11 = \<lparr>pr_SubscribeId = 7, pr_Quantity = 1, pr_Coupon = [], pr_Payment = 1\<rparr>"

definition renewal3 :: renewal_request where
  "renewal3 = \<lparr>rn_UserSubscribeID = 6, rn_Quantity = 3, rn_Coupon = [], rn_Payment = 1\<rparr>"

section \<open>Steps\<close>

lemma andThen_Inr:
  "andThen m f w = (Inr r, w') \<longleftrightarrow> (\<exists>x w1. m w = (Inr x, w1) \<and> f x w1 = (Inr r, w'))"
  by (auto simp: andThen_def split: prod.splits sum.splits)

lemma andThen_Inl:
  "andThen m f w = (Inl e, w') \<longleftrightarrow>
     (m w = (Inl e, w') \<or> (\<exists>x w1. m w = (Inr x, w1) \<and> f x w1 = (Inl e, w')))"
  by (auto simp: andThen_def split: prod.splits sum.splits)

lemma andThen_InrE:
  assumes "andThen m f w = (Inr r, w')"
  obtains x w1 where "m w = (Inr x, w1)" and "f x w1 = (Inr r, w')"
  using assms by (auto simp: andThen_Inr)

lemmas fixture_defs =
  user0_def pay0_def pay1_def plan0_def plan1_def usub0_def usub1_def coupon0_def coupon1_def
  coupon2_def db0_def world0_def env0_def order0_def world1_def user1_def env1_def
  purchase0_def purchase1_def purchase2_def purchase3_def purchase4_def purchase5_def
  renewal0_def renewal1_def recharge0_def plan2_def plan3_def plan4_def usub2_def world2_def
  env3_def purchase6_def purchase7_def purchase8_def purchase9_def renewal2_def
  plan5_def plan6_def usub3_def world3_def purchase10_def purchase11_def renewal3_def

lemmas step_defs = ok_def throw_def andThen_def logged_def

lemmas store_defs =
  PaymentModel_FindOne_def SubscribeModel_FindOne_def UserModel_QueryUserSubscribe_def
  UserModel_FindOneUserSubscribe_def CouponModel_FindOneByCode_def countCouponOrders_def
  OrderModel_IsUserEligibleForNewOrder_def UserModel_Update_def SubscribeModel_Update_def
  SystemLog_Create_def Order_Create_def Transaction_def OrderModel_Insert_def

lemmas workflow_defs =
  checkQuantity_def discountedAmount_def couponDeduction_def giftDeduction_def isNewStep_def
  giftLog_def giftWrites_def purchasePlan_def purchaseFee_def purchaseSteps_def
  purchasePricing_def purchaseOrder_def purchaseTx_def purchaseCommit_def Purchase_def
  renewalPlan_def renewalPayment_def renewalFee_def renewalSteps_def renewalPricing_def
  renewalOrder_def renewalTx_def renewalCommit_def Renewal_def
  rechargeOrder_def Recharge_def emptyOrder_def enqueueCloseOrder_def closeOrderTask_def

lemmas const_defs =
  sle_def slt_def MaxOrderAmount_def MaxRechargeAmount_def MaxQuantity_def
  CloseOrderTimeMinutes_def

lemmas eval_defs = step_defs store_defs workflow_defs const_defs fixture_defs Let_def

section \<open>What the stages before the transaction leave untouched\<close>

lemma quietD: "quiet m \<Longrightarrow> m w = (r, w') \<Longrightarrow> db w' = db w \<and> queue w' = queue w"
  by (simp add: quiet_def)

lemma quiet_andThen: "quiet m \<Longrightarrow> (\<And>x. quiet (f x)) \<Longrightarrow> quiet (andThen m f)"
  unfolding quiet_def andThen_def
  by (auto split: prod.splits sum.splits)

lemma quiet_case_prod: "(\<And>a b. quiet (f a b)) \<Longrightarrow> quiet (case p of (a, b) \<Rightarrow> f a b)"
  by (cases p) simp

lemma quiet_ok: "quiet (ok x)"
  by (simp add: quiet_def ok_def)

lemma quiet_throw: "quiet (throw e)"
  by (simp add: quiet_def throw_def)

lemma quiet_logged: "quiet m \<Longrightarrow> quiet (logged line m)"
  by (auto simp: quiet_def logged_def)

lemma checkQuantity_quiet: "quiet (checkQuantity tag q)"
  by (auto simp: quiet_def checkQuantity_def logged_def throw_def ok_def Let_def split: if_splits)

lemma purchasePlan_quiet: "quiet (purchasePlan env u req q)"
  by (auto simp: quiet_def purchasePlan_def logged_def throw_def ok_def
           split: option.splits if_splits prod.splits)

lemma renewalPlan_quiet: "quiet (renewalPlan env req q)"
  by (auto simp: quiet_def renewalPlan_def logged_def throw_def ok_def
           split: option.splits if_splits prod.splits)

lemma couponDeduction_quiet: "quiet (couponDeduction env tag u code subId amount)"
  by (auto simp: quiet_def couponDeduction_def logged_def throw_def ok_def Let_def
           split: option.splits if_splits lookup.splits)

lemma purchaseFee_quiet: "quiet (purchaseFee env pid amount)"
  by (auto simp: quiet_def purchaseFee_def logged_def throw_def ok_def Let_def
           split: option.splits if_splits)

lemma renewalPayment_quiet: "quiet (renewalPayment env pid)"
  by (auto simp: quiet_def renewalPayment_def logged_def throw_def ok_def split: option.splits)

lemma renewalFee_quiet: "quiet (renewalFee env pay amount)"
  by (auto simp: quiet_def renewalFee_def logged_def throw_def ok_def Let_def split: if_splits)

lemma isNewStep_quiet: "quiet (isNewStep env u)"
  by (auto simp: quiet_def isNewStep_def logged_def throw_def ok_def split: option.splits)

lemmas quiet_intros =
  quiet_andThen quiet_case_prod quiet_ok quiet_throw quiet_logged checkQuantity_quiet
  purchasePlan_quiet renewalPlan_quiet couponDeduction_quiet purchaseFee_quiet
  renewalPayment_quiet renewalFee_quiet isNewStep_quiet

lemma purchaseSteps_quiet: "quiet (purchaseSteps env req u)"
  unfolding purchaseSteps_def by (intro quiet_intros)

lemma renewalSteps_quiet: "quiet (renewalSteps env req u)"
  unfolding renewalSteps_def by (intro quiet_intros)

lemma purchasePricing_quiet: "quiet (purchasePricing env req)"
  by (cases "ctxUser env") (simp_all add: purchasePricing_def purchaseSteps_quiet quiet_intros)

lemma renewalPricing_quiet: "quiet (renewalPricing env req)"
  by (cases "ctxUser env") (simp_all add: renewalPricing_def renewalSteps_quiet quiet_intros)

section \<open>What a stage has established when it returns a value\<close>

lemma checkQuantity_Inr:
  assumes "checkQuantity tag q w = (Inr q', w')"
  shows "q' = (if sle q 0 then 1 else q)" and "\<not> slt MaxQuantity q'"
  using assms
  by (auto simp: checkQuantity_def logged_def throw_def ok_def Let_def split: if_splits)

lemma purchasePlan_Inr:
  assumes "purchasePlan env u req q w = (Inr (sub, price, amount0, discountAmount), w')"
  shows "w' = w"
    and "SubscribeModel_FindOne env (db w) (pr_SubscribeId req) = Some sub"
    and "s_Sell sub = Some True"
    and "s_Inventory sub \<noteq> 0"
    and "discountedAmount env sub q = (price, amount0, discountAmount)"
    and "\<not> slt MaxOrderAmount amount0"
  using assms
  by (auto simp: purchasePlan_def logged_def throw_def ok_def
           split: option.splits if_splits prod.splits)

lemma renewalPlan_Inr:
  assumes "renewalPlan env req q w = (Inr (userSubscribe, sub, price, amount0, discountAmount), w')"
  shows "w' = w"
    and "UserModel_FindOneUserSubscribe env (db w) (rn_UserSubscribeID req) = Some userSubscribe"
    and "SubscribeModel_FindOne env (db w) (us_SubscribeId userSubscribe) = Some sub"
    and "s_Sell sub = Some True"
    and "discountedAmount env sub q = (price, amount0, discountAmount)"
    and "\<not> slt MaxOrderAmount amount0"
  using assms
  by (auto simp: renewalPlan_def logged_def throw_def ok_def
           split: option.splits if_splits prod.splits)

lemma couponDeduction_Inr:
  assumes "couponDeduction env tag u code subId amount w = (Inr coupon, w')"
  shows "w' = w"
    and "code = [] \<and> coupon = 0 \<or>
         (\<exists>couponInfo count.
            code \<noteq> [] \<and>
            CouponModel_FindOneByCode env (db w) code = Found couponInfo \<and>
            (c_Count couponInfo = 0 \<or> \<not> sle (c_Count couponInfo) (c_UsedCount couponInfo)) \<and>
            (StringToInt64Slice env (c_Subscribe couponInfo) = [] \<or>
             subId \<in> set (StringToInt64Slice env (c_Subscribe couponInfo))) \<and>
            countCouponOrders env (db w) (u_Id u) code = Some count \<and>
            \<not> sle (c_UserLimit couponInfo) count \<and>
            coupon = calculateCoupon env amount couponInfo)"
  using assms
  by (auto simp: couponDeduction_def logged_def throw_def ok_def Let_def
           split: option.splits if_splits lookup.splits)

lemma purchaseFee_Inr:
  assumes "purchaseFee env pid amount w = (Inr (pay, feeAmount, amount'), w')"
  shows "w' = w"
    and "PaymentModel_FindOne env (db w) pid = Some pay"
    and "feeAmount = (if slt 0 amount then calculateFee env amount pay else 0)"
    and "amount' = amount + feeAmount"
    and "\<not> slt MaxOrderAmount amount'"
  using assms
  by (auto simp: purchaseFee_def logged_def throw_def ok_def Let_def slt_def MaxOrderAmount_def
           split: option.splits if_splits)

lemma renewalPayment_Inr:
  assumes "renewalPayment env pid w = (Inr pay, w')"
  shows "w' = w" and "PaymentModel_FindOne env (db w) pid = Some pay"
  using assms
  by (auto simp: renewalPayment_def logged_def throw_def ok_def split: option.splits)

lemma renewalFee_Inr:
  assumes "renewalFee env pay amount w = (Inr (feeAmount, amount'), w')"
  shows "w' = w"
    and "feeAmount = (if slt 0 amount then calculateFee env amount pay else 0)"
    and "amount' = amount + feeAmount"
    and "\<not> slt MaxOrderAmount amount'"
  using assms
  by (auto simp: renewalFee_def logged_def throw_def ok_def Let_def split: if_splits)

lemma isNewStep_Inr:
  assumes "isNewStep env u w = (Inr isNew, w')"
  shows "w' = w"
  using assms
  by (auto simp: isNewStep_def logged_def throw_def ok_def split: option.splits)

text \<open>The values of a purchase that reached the point where the order is built.\<close>

lemma purchaseSteps_Inr:
  assumes "purchaseSteps env req u w = (Inr x, w1)"
  shows "\<exists>wa. checkQuantity ''[Purchase]'' (pr_Quantity req) w = (Inr (x_Quantity x), wa) \<and>
           purchasePlan env u req (x_Quantity x) wa =
             (Inr (x_sub x, x_price x, x_amount0 x, x_discountAmount x), wa) \<and>
           couponDeduction env ''[Purchase]'' u (pr_Coupon req) (pr_SubscribeId req) (x_amount0 x) wa =
             (Inr (x_coupon x), wa) \<and>
           purchaseFee env (pr_Payment req) (x_amount2 x) wa =
             (Inr (x_payment x, x_feeAmount x, x_amount3 x), wa) \<and>
           db wa = db w \<and> w1 = wa"
    and "x_user x = u"
    and "x_amount1 x = x_amount0 x - x_coupon x"
    and "giftDeduction (u_GiftAmount u) (x_amount1 x) =
           (x_deductionAmount x, x_amount2 x, x_giftAfter x)"
proof -
  from assms obtain q wa sub price amount0 dA wb coupon wc ded amount2 gift' pay fee amount3 wd isNew
    where q: "checkQuantity ''[Purchase]'' (pr_Quantity req) w = (Inr q, wa)"
      and p: "purchasePlan env u req q wa = (Inr (sub, price, amount0, dA), wb)"
      and c: "couponDeduction env ''[Purchase]'' u (pr_Coupon req) (pr_SubscribeId req) amount0 wb =
                (Inr coupon, wc)"
      and g: "giftDeduction (u_GiftAmount u) (amount0 - coupon) = (ded, amount2, gift')"
      and f: "purchaseFee env (pr_Payment req) amount2 wc = (Inr (pay, fee, amount3), wd)"
      and n: "isNewStep env u wd = (Inr isNew, w1)"
      and x: "x = \<lparr>x_user = u, x_Quantity = q, x_sub = sub, x_price = price,
                   x_discountAmount = dA, x_amount0 = amount0, x_coupon = coupon,
                   x_amount1 = amount0 - coupon, x_deductionAmount = ded,
                   x_giftAfter = gift', x_amount2 = amount2, x_payment = pay,
                   x_feeAmount = fee, x_amount3 = amount3, x_isNew = isNew\<rparr>"
    unfolding purchaseSteps_def
    by - ((erule andThen_InrE | clarsimp simp: ok_def split: prod.splits)+)
  have w: "wb = wa" "wc = wb" "wd = wc" "w1 = wd"
    using purchasePlan_Inr(1) [OF p] couponDeduction_Inr(1) [OF c] purchaseFee_Inr(1) [OF f]
      isNewStep_Inr [OF n] by simp_all
  have d: "db wa = db w"
    using quietD [OF checkQuantity_quiet q] by simp
  show "\<exists>wa. checkQuantity ''[Purchase]'' (pr_Quantity req) w = (Inr (x_Quantity x), wa) \<and>
           purchasePlan env u req (x_Quantity x) wa =
             (Inr (x_sub x, x_price x, x_amount0 x, x_discountAmount x), wa) \<and>
           couponDeduction env ''[Purchase]'' u (pr_Coupon req) (pr_SubscribeId req) (x_amount0 x) wa =
             (Inr (x_coupon x), wa) \<and>
           purchaseFee env (pr_Payment req) (x_amount2 x) wa =
             (Inr (x_payment x, x_feeAmount x, x_amount3 x), wa) \<and>
           db wa = db w \<and> w1 = wa"
    using q p c f d w x by (intro exI [of _ wa]) simp
  show "x_user x = u" "x_amount1 x = x_amount0 x - x_coupon x"
    "giftDeduction (u_GiftAmount u) (x_amount1 x) = (x_deductionAmount x, x_amount2 x, x_giftAfter x)"
    using x g by simp_all
qed

lemma renewalSteps_Inr:
  assumes "renewalSteps env req u w = (Inr (us, x), w1)"
  shows "\<exists>wa. checkQuantity ''[Renewal]'' (rn_Quantity req) w = (Inr (x_Quantity x), wa) \<and>
           renewalPlan env req (x_Quantity x) wa =
             (Inr (us, x_sub x, x_price x, x_amount0 x, x_discountAmount x), wa) \<and>
           couponDeduction env ''[Renewal]'' u (rn_Coupon req) (s_Id (x_sub x)) (x_amount0 x) wa =
             (Inr (x_coupon x), wa) \<and>
           renewalPayment env (rn_Payment req) wa = (Inr (x_payment x), wa) \<and>
           renewalFee env (x_payment x) (x_amount2 x) wa = (Inr (x_feeAmount x, x_amount3 x), wa) \<and>
           db wa = db w \<and> w1 = wa"
    and "x_user x = u"
    and "x_amount1 x = x_amount0 x - x_coupon x"
    and "giftDeduction (u_GiftAmount u) (x_amount1 x) =
           (x_deductionAmount x, x_amount2 x, x_giftAfter x)"
proof -
  from assms obtain q wa sub price amount0 dA wb coupon wc ded amount2 gift' pay fee amount3 wd
    where q: "checkQuantity ''[Renewal]'' (rn_Quantity req) w = (Inr q, wa)"
      and p: "renewalPlan env req q wa = (Inr (us, sub, price, amount0, dA), wb)"
      and c: "couponDeduction env ''[Renewal]'' u (rn_Coupon req) (s_Id sub) amount0 wb =
                (Inr coupon, wc)"
      and y: "renewalPayment env (rn_Payment req) wc = (Inr pay, wd)"
      and g: "giftDeduction (u_GiftAmount u) (amount0 - coupon) = (ded, amount2, gift')"
      and f: "renewalFee env pay amount2 wd = (Inr (fee, amount3), w1)"
      and x: "x = \<lparr>x_user = u, x_Quantity = q, x_sub = sub, x_price = price,
                   x_discountAmount = dA, x_amount0 = amount0, x_coupon = coupon,
                   x_amount1 = amount0 - coupon, x_deductionAmount = ded,
                   x_giftAfter = gift', x_amount2 = amount2, x_payment = pay,
                   x_feeAmount = fee, x_amount3 = amount3, x_isNew = False\<rparr>"
    unfolding renewalSteps_def
    by - ((erule andThen_InrE | clarsimp simp: ok_def split: prod.splits)+)
  have w: "wb = wa" "wc = wb" "wd = wc" "w1 = wd"
    using renewalPlan_Inr(1) [OF p] couponDeduction_Inr(1) [OF c] renewalPayment_Inr(1) [OF y]
      renewalFee_Inr(1) [OF f] by simp_all
  have d: "db wa = db w"
    using quietD [OF checkQuantity_quiet q] by simp
  show "\<exists>wa. checkQuantity ''[Renewal]'' (rn_Quantity req) w = (Inr (x_Quantity x), wa) \<and>
           renewalPlan env req (x_Quantity x) wa =
             (Inr (us, x_sub x, x_price x, x_amount0 x, x_discountAmount x), wa) \<and>
           couponDeduction env ''[Renewal]'' u (rn_Coupon req) (s_Id (x_sub x)) (x_amount0 x) wa =
             (Inr (x_coupon x), wa) \<and>
           renewalPayment env (rn_Payment req) wa = (Inr (x_payment x), wa) \<and>
           renewalFee env (x_payment x) (x_amount2 x) wa = (Inr (x_feeAmount x, x_amount3 x), wa) \<and>
           db wa = db w \<and> w1 = wa"
    using q p c y f d w x by (intro exI [of _ wa]) simp
  show "x_user x = u" "x_amount1 x = x_amount0 x - x_coupon x"
    "giftDeduction (u_GiftAmount u) (x_amount1 x) = (x_deductionAmount x, x_amount2 x, x_giftAfter x)"
    using x g by simp_all
qed

lemma purchasePricing_Inr:
  assumes "purchasePricing env req w = (Inr x, w1)"
  shows "ctxUser env = Some (x_user x)" and "purchaseSteps env req (x_user x) w = (Inr x, w1)"
proof -
  from assms obtain u where u: "ctxUser env = Some u"
    by (cases "ctxUser env") (auto simp: purchasePricing_def logged_def throw_def)
  with assms have s: "purchaseSteps env req u w = (Inr x, w1)"
    by (simp add: purchasePricing_def)
  from purchaseSteps_Inr(2) [OF s] u s
  show "ctxUser env = Some (x_user x)" "purchaseSteps env req (x_user x) w = (Inr x, w1)"
    by simp_all
qed

lemma renewalPricing_Inr:
  assumes "renewalPricing env req w = (Inr (us, x), w1)"
  shows "ctxUser env = Some (x_user x)" and "renewalSteps env req (x_user x) w = (Inr (us, x), w1)"
proof -
  from assms obtain u where u: "ctxUser env = Some u"
    by (cases "ctxUser env") (auto simp: renewalPricing_def logged_def throw_def)
  with assms have s: "renewalSteps env req u w = (Inr (us, x), w1)"
    by (simp add: renewalPricing_def)
  from renewalSteps_Inr(2) [OF s] u s
  show "ctxUser env = Some (x_user x)" "renewalSteps env req (x_user x) w = (Inr (us, x), w1)"
    by simp_all
qed

section \<open>The transaction and the enqueue\<close>

lemma giftWrites_Some:
  "giftWrites env tag remark u orderInfo d = (ls, Some d') \<Longrightarrow>
     d' = giftWritten env remark u orderInfo d"
  by (auto simp: giftWrites_def giftWritten_def UserModel_Update_def SystemLog_Create_def
           split: if_splits option.splits)

lemma purchaseTx_Some:
  "purchaseTx env u sub orderInfo d = (ls, Some d') \<Longrightarrow>
     d' = orderInserted orderInfo (stockTaken sub
            (giftWritten env ''Purchase order deduction'' u orderInfo d))"
  by (auto simp: purchaseTx_def stockTaken_def orderInserted_def SubscribeModel_Update_def
                 Order_Create_def
           dest!: giftWrites_Some split: if_splits option.splits prod.splits)

lemma renewalTx_Some:
  "renewalTx env u orderInfo d = (ls, Some d') \<Longrightarrow>
     d' = orderInserted orderInfo (giftWritten env ''Renewal order deduction'' u orderInfo d)"
  by (auto simp: renewalTx_def orderInserted_def Order_Create_def
           dest!: giftWrites_Some split: if_splits option.splits prod.splits)

lemma Transaction_Inr:
  "Transaction env body w = (Inr r, w') \<Longrightarrow>
     \<exists>ls. body (db w) = (ls, Some (db w')) \<and> queue w' = queue w \<and> OpCommit \<notin> faults env"
  by (auto simp: Transaction_def split: prod.splits option.splits if_splits)

lemma Transaction_Inl:
  "Transaction env body w = (Inl e, w') \<Longrightarrow> db w' = db w \<and> queue w' = queue w"
  by (auto simp: Transaction_def split: prod.splits option.splits if_splits)

lemma purchaseCommit_Inr:
  assumes "purchaseCommit env req x w = (Inr orderInfo, w')"
  shows "orderInfo = purchaseOrder env req x"
    and "db w' = orderInserted orderInfo (stockTaken (x_sub x)
                   (giftWritten env ''Purchase order deduction'' (debited x) orderInfo (db w)))"
    and "queue w' = queue w"
  using assms
  by (auto simp: purchaseCommit_def Let_def logged_def throw_def ok_def debited_def
           dest!: Transaction_Inr purchaseTx_Some split: prod.splits sum.splits)

lemma purchaseCommit_Inl:
  assumes "purchaseCommit env req x w = (Inl e, w')"
  shows "e = DatabaseInsertError" and "db w' = db w" and "queue w' = queue w"
  using assms
  by (auto simp: purchaseCommit_def Let_def logged_def throw_def ok_def
           dest!: Transaction_Inl split: prod.splits sum.splits)

lemma renewalCommit_Inr:
  assumes "renewalCommit env req us x w = (Inr orderInfo, w')"
  shows "orderInfo = renewalOrder env req us x"
    and "db w' = orderInserted orderInfo
                   (giftWritten env ''Renewal order deduction'' (debited x) orderInfo (db w))"
    and "queue w' = queue w"
  using assms
  by (auto simp: renewalCommit_def Let_def logged_def throw_def ok_def debited_def
           dest!: Transaction_Inr renewalTx_Some split: prod.splits sum.splits)

lemma renewalCommit_Inl:
  assumes "renewalCommit env req us x w = (Inl e, w')"
  shows "e = StoreError" and "db w' = db w" and "queue w' = queue w"
  using assms
  by (auto simp: renewalCommit_def Let_def logged_def throw_def ok_def
           dest!: Transaction_Inl split: prod.splits sum.splits)

lemma enqueueCloseOrder_result:
  assumes "enqueueCloseOrder env tag orderNo w = (r, w')"
  shows "r = Inr orderNo" and "db w' = db w"
    and "queue w' = (if OpEnqueue \<in> faults env then queue w else queue w @ [closeOrderTask orderNo])"
    and "OpEnqueue \<in> faults env \<Longrightarrow> logs w' = logs w @ [tag @ '' Enqueue task error'']"
  using assms by (auto simp: enqueueCloseOrder_def split: if_splits)

section \<open>The three workflows, from the outside\<close>

lemma Purchase_Inr:
  assumes "Purchase env req w = (Inr no, w')"
  shows "\<exists>x w1. purchasePricing env req w = (Inr x, w1) \<and>
           no = GenerateTradeNo env \<and>
           db w' = orderInserted (purchaseOrder env req x) (stockTaken (x_sub x)
                     (giftWritten env ''Purchase order deduction'' (debited x)
                        (purchaseOrder env req x) (db w))) \<and>
           queue w' = (if OpEnqueue \<in> faults env then queue w
                       else queue w @ [closeOrderTask no])"
proof -
  from assms obtain x w1 orderInfo w2
    where p: "purchasePricing env req w = (Inr x, w1)"
      and c: "purchaseCommit env req x w1 = (Inr orderInfo, w2)"
      and e: "enqueueCloseOrder env ''[Purchase]'' (o_OrderNo orderInfo) w2 = (Inr no, w')"
    unfolding Purchase_def by - (erule andThen_InrE)+
  note q = quietD [OF purchasePricing_quiet p]
  note c' = purchaseCommit_Inr [OF c]
  note e' = enqueueCloseOrder_result [OF e]
  have no: "no = GenerateTradeNo env"
    using e'(1) c'(1) by (simp add: purchaseOrder_def)
  show ?thesis
    using p q c' e' no by (intro exI [of _ x] exI [of _ w1]) (simp add: purchaseOrder_def)
qed

lemma Purchase_Inl:
  assumes "Purchase env req w = (Inl e, w')"
  shows "db w' = db w" and "queue w' = queue w"
proof -
  from assms consider
      (pricing) "purchasePricing env req w = (Inl e, w')"
    | (commit) x w1 where "purchasePricing env req w = (Inr x, w1)"
        "purchaseCommit env req x w1 = (Inl e, w')"
    | (enqueue) o' :: order and w2 where
        "enqueueCloseOrder env ''[Purchase]'' (o_OrderNo o') w2 = (Inl e, w')"
    unfolding Purchase_def by (auto simp: andThen_Inl)
  then have "db w' = db w \<and> queue w' = queue w"
  proof cases
    case pricing
    then show ?thesis using quietD [OF purchasePricing_quiet] by blast
  next
    case commit
    then show ?thesis
      using quietD [OF purchasePricing_quiet commit(1)] purchaseCommit_Inl [OF commit(2)] by simp
  next
    case enqueue
    then show ?thesis using enqueueCloseOrder_result(1) [OF enqueue] by simp
  qed
  then show "db w' = db w" and "queue w' = queue w" by simp_all
qed

lemma Renewal_Inr:
  assumes "Renewal env req w = (Inr no, w')"
  shows "\<exists>us x w1. renewalPricing env req w = (Inr (us, x), w1) \<and>
           no = GenerateTradeNo env \<and>
           db w' = orderInserted (renewalOrder env req us x)
                     (giftWritten env ''Renewal order deduction'' (debited x)
                        (renewalOrder env req us x) (db w)) \<and>
           queue w' = (if OpEnqueue \<in> faults env then queue w
                       else queue w @ [closeOrderTask no])"
proof -
  from assms obtain us x w1 orderInfo w2
    where p: "renewalPricing env req w = (Inr (us, x), w1)"
      and c: "renewalCommit env req us x w1 = (Inr orderInfo, w2)"
      and e: "enqueueCloseOrder env ''[Renewal]'' (o_OrderNo orderInfo) w2 = (Inr no, w')"
    unfolding Renewal_def by - ((erule andThen_InrE | clarsimp split: prod.splits)+)
  note q = quietD [OF renewalPricing_quiet p]
  note c' = renewalCommit_Inr [OF c]
  note e' = enqueueCloseOrder_result [OF e]
  have no: "no = GenerateTradeNo env"
    using e'(1) c'(1) by (simp add: renewalOrder_def)
  show ?thesis
    using p q c' e' no
    by (intro exI [of _ us] exI [of _ x] exI [of _ w1]) (simp add: renewalOrder_def)
qed

lemma Renewal_Inl:
  assumes "Renewal env req w = (Inl e, w')"
  shows "db w' = db w" and "queue w' = queue w"
proof -
  from assms consider
      (pricing) "renewalPricing env req w = (Inl e, w')"
    | (commit) us x w1 where "renewalPricing env req w = (Inr (us, x), w1)"
        "renewalCommit env req us x w1 = (Inl e, w')"
    | (enqueue) o' :: order and w2 where
        "enqueueCloseOrder env ''[Renewal]'' (o_OrderNo o') w2 = (Inl e, w')"
    unfolding Renewal_def by (auto simp: andThen_Inl split: prod.splits)
  then have "db w' = db w \<and> queue w' = queue w"
  proof cases
    case pricing
    then show ?thesis using quietD [OF renewalPricing_quiet] by blast
  next
    case commit
    then show ?thesis
      using quietD [OF renewalPricing_quiet commit(1)] renewalCommit_Inl [OF commit(2)] by simp
  next
    case enqueue
    then show ?thesis using enqueueCloseOrder_result(1) [OF enqueue] by simp
  qed
  then show "db w' = db w" and "queue w' = queue w" by simp_all
qed

lemma Recharge_Inr:
  assumes "Recharge env req w = (Inr no, w')"
  shows "\<exists>u pay isNew.
           ctxUser env = Some u \<and>
           \<not> sle (rr_Amount req) 0 \<and> \<not> slt MaxRechargeAmount (rr_Amount req) \<and>
           PaymentModel_FindOne env (db w) (rr_Payment req) = Some pay \<and>
           \<not> slt MaxOrderAmount (rr_Amount req + calculateFee env (rr_Amount req) pay) \<and>
           no = GenerateTradeNo env \<and>
           db w' = orderInserted
                     (rechargeOrder env u req pay (calculateFee env (rr_Amount req) pay)
                        (rr_Amount req + calculateFee env (rr_Amount req) pay) isNew) (db w) \<and>
           queue w' = (if OpEnqueue \<in> faults env then queue w
                       else queue w @ [closeOrderTask no])"
  using assms
  by (auto simp: Recharge_def logged_def throw_def Let_def OrderModel_Insert_def Order_Create_def
                 orderInserted_def rechargeOrder_def enqueueCloseOrder_def
           split: option.splits if_splits prod.splits sum.splits)

lemma Recharge_Inl:
  assumes "Recharge env req w = (Inl e, w')"
  shows "db w' = db w" and "queue w' = queue w"
  using assms
  by (auto simp: Recharge_def logged_def throw_def Let_def OrderModel_Insert_def Order_Create_def
                 enqueueCloseOrder_def
           split: option.splits if_splits prod.splits sum.splits)

section \<open>Signed arithmetic without wrap-around\<close>



section \<open>The running amount, stage by stage\<close>




lemma orders_committed:
  "orders (orderInserted orderInfo (stockTaken sub (giftWritten env remark u orderInfo d))) =
     orders d @ [orderInfo]"
  "orders (orderInserted orderInfo (giftWritten env remark u orderInfo d)) = orders d @ [orderInfo]"
  "orders (orderInserted orderInfo d) = orders d @ [orderInfo]"
  by (simp_all add: orderInserted_def stockTaken_def giftWritten_def)

section \<open>The amount of an order\<close>

text \<open>
  C1 says that the running amount of every order that is created lies in
  \<open>[0, MaxOrderAmount]\<close> at every stage, and that the stored amount is the list price
  less the discounts and the deduction plus the fee. Purchase and Renewal compare the
  amount with \<open>MaxOrderAmount\<close> from above only, and after the product of the unit price
  and the quantity has been taken in \<^verbatim>\<open>int64\<close>. For three units of a plan at \<open>2 ^ 62\<close>
  the list price is \<open>3 * 2 ^ 62\<close>; the product wraps around to \<open>- (2 ^ 62)\<close>, no check
  refuses it, and both workflows store an order whose price and amount are \<open>- (2 ^ 62)\<close>;
  the running amount is below 0 at each of its four stages. For one unit of a plan at
  \<open>- 1000\<close> the order is stored with the amount \<open>- 1000\<close>.
\<close>

theorem order_amount_below_zero:
  "sint (s_UnitPrice plan5) * sint (pr_Quantity purchase10) = 13835058055282163712 \<and>
   fst (Purchase env0 purchase10 world3) = Inr ''T0001'' \<and>
   map (\<lambda>x. (sint (o_Price x), sint (o_Discount x), sint (o_CouponDiscount x),
              sint (o_GiftAmount x), sint (o_FeeAmount x), sint (o_Amount x)))
     (orders (db (snd (Purchase env0 purchase10 world3)))) =
     [(- 4611686018427387904, 0, 0, 0, 0, - 4611686018427387904)] \<and>
   map (inRange \<circ> o_Amount) (orders (db (snd (Purchase env0 purchase10 world3)))) = [False] \<and>
   (case fst (purchasePricing env0 purchase10 world3) of
      Inl e \<Rightarrow> []
    | Inr x \<Rightarrow> map inRange [x_amount0 x, x_amount1 x, x_amount2 x, x_amount3 x]) =
     [False, False, False, False] \<and>
   fst (Renewal env0 renewal3 world3) = Inr ''T0001'' \<and>
   map (\<lambda>x. (sint (o_Price x), sint (o_Discount x), sint (o_CouponDiscount x),
              sint (o_GiftAmount x), sint (o_FeeAmount x), sint (o_Amount x)))
     (orders (db (snd (Renewal env0 renewal3 world3)))) =
     [(- 4611686018427387904, 0, 0, 0, 0, - 4611686018427387904)] \<and>
   map (inRange \<circ> o_Amount) (orders (db (snd (Renewal env0 renewal3 world3)))) = [False] \<and>
   fst (Purchase env0 purchase11 world3) = Inr ''T0001'' \<and>
   map (\<lambda>x. (sint (o_Price x), sint (o_Amount x)))
     (orders (db (snd (Purchase env0 purchase11 world3)))) = [(- 1000, - 1000)] \<and>
   map (inRange \<circ> o_Amount) (orders (db (snd (Purchase env0 purchase11 world3)))) = [False]"
  by (simp add: inRange_def eval_defs)

section \<open>The gift balance\<close>

lemma committed_tables:
  "system_logs (orderInserted orderInfo d) = system_logs d"
  "users (orderInserted orderInfo d) = users d"
  "subscribes (orderInserted orderInfo d) = subscribes d"
  "system_logs (stockTaken sub d) = system_logs d"
  "users (stockTaken sub d) = users d"
  "subscribes (giftWritten env remark u orderInfo d) = subscribes d"
  by (simp_all add: orderInserted_def stockTaken_def giftWritten_def)






section \<open>The payment fee\<close>



lemma Purchase_pricing_Inl:
  assumes "ctxUser env = Some u" and "fst (purchaseSteps env req u w) = Inl e"
  shows "fst (Purchase env req w) = Inl e"
  using assms
  by (cases "purchaseSteps env req u w")
     (simp add: Purchase_def purchasePricing_def andThen_def)

lemma Renewal_pricing_Inl:
  assumes "ctxUser env = Some u" and "fst (renewalSteps env req u w) = Inl e"
  shows "fst (Renewal env req w) = Inl e"
  using assms
  by (cases "renewalSteps env req u w")
     (simp add: Renewal_def renewalPricing_def andThen_def)

lemma Purchase_rejected_world:
  "fst (Purchase env req w) = Inl e \<Longrightarrow>
     db (snd (Purchase env req w)) = db w \<and> queue (snd (Purchase env req w)) = queue w"
  using Purchase_Inl [of env req w e "snd (Purchase env req w)"]
  by (cases "Purchase env req w") simp

lemma Renewal_rejected_world:
  "fst (Renewal env req w) = Inl e \<Longrightarrow>
     db (snd (Renewal env req w)) = db w \<and> queue (snd (Renewal env req w)) = queue w"
  using Renewal_Inl [of env req w e "snd (Renewal env req w)"]
  by (cases "Renewal env req w") simp



section \<open>The deferred close-order task\<close>

lemma Purchase_enqueue:
  assumes "Purchase env req w = (Inr no, w')"
  shows "\<exists>w2. enqueueCloseOrder env ''[Purchase]'' no w2 = (Inr no, w')"
proof -
  from assms obtain orderInfo :: order and w2
    where e: "enqueueCloseOrder env ''[Purchase]'' (o_OrderNo orderInfo) w2 = (Inr no, w')"
    unfolding Purchase_def by - (erule andThen_InrE)+
  from enqueueCloseOrder_result(1) [OF e] e show ?thesis by auto
qed

lemma Renewal_enqueue:
  assumes "Renewal env req w = (Inr no, w')"
  shows "\<exists>w2. enqueueCloseOrder env ''[Renewal]'' no w2 = (Inr no, w')"
proof -
  from assms obtain orderInfo :: order and w2
    where e: "enqueueCloseOrder env ''[Renewal]'' (o_OrderNo orderInfo) w2 = (Inr no, w')"
    unfolding Renewal_def by - ((erule andThen_InrE | clarsimp split: prod.splits)+)
  from enqueueCloseOrder_result(1) [OF e] e show ?thesis by auto
qed

lemma Recharge_enqueue:
  assumes "Recharge env req w = (Inr no, w')"
  shows "\<exists>w2. enqueueCloseOrder env ''[Recharge]'' no w2 = (Inr no, w')"
  using assms
  by (auto simp: Recharge_def logged_def throw_def Let_def rechargeOrder_def
                 enqueueCloseOrder_def
           split: option.splits if_splits prod.splits sum.splits)

lemma enqueue_outcome:
  assumes "enqueueCloseOrder env tag no w2 = (Inr no, w')"
  shows "OpEnqueue \<in> faults env \<longrightarrow> last (logs w') = tag @ '' Enqueue task error''"
    and "OpEnqueue \<notin> faults env \<longrightarrow> last (logs w') = tag @ '' Enqueue task success''"
  using assms by (auto simp: enqueueCloseOrder_def split: if_splits)

text \<open>A request whose enqueue fails, all else being the same.\<close>

lemma stores_without_enqueue:
  "PaymentModel_FindOne (env\<lparr>faults := insert OpEnqueue (faults env)\<rparr>) = PaymentModel_FindOne env"
  "SubscribeModel_FindOne (env\<lparr>faults := insert OpEnqueue (faults env)\<rparr>) = SubscribeModel_FindOne env"
  "UserModel_QueryUserSubscribe (env\<lparr>faults := insert OpEnqueue (faults env)\<rparr>) =
     UserModel_QueryUserSubscribe env"
  "UserModel_FindOneUserSubscribe (env\<lparr>faults := insert OpEnqueue (faults env)\<rparr>) =
     UserModel_FindOneUserSubscribe env"
  "CouponModel_FindOneByCode (env\<lparr>faults := insert OpEnqueue (faults env)\<rparr>) =
     CouponModel_FindOneByCode env"
  "countCouponOrders (env\<lparr>faults := insert OpEnqueue (faults env)\<rparr>) = countCouponOrders env"
  "OrderModel_IsUserEligibleForNewOrder (env\<lparr>faults := insert OpEnqueue (faults env)\<rparr>) =
     OrderModel_IsUserEligibleForNewOrder env"
  "UserModel_Update (env\<lparr>faults := insert OpEnqueue (faults env)\<rparr>) = UserModel_Update env"
  "SubscribeModel_Update (env\<lparr>faults := insert OpEnqueue (faults env)\<rparr>) = SubscribeModel_Update env"
  "SystemLog_Create (env\<lparr>faults := insert OpEnqueue (faults env)\<rparr>) = SystemLog_Create env"
  "Order_Create (env\<lparr>faults := insert OpEnqueue (faults env)\<rparr>) = Order_Create env"
  "Transaction (env\<lparr>faults := insert OpEnqueue (faults env)\<rparr>) = Transaction env"
  "OrderModel_Insert (env\<lparr>faults := insert OpEnqueue (faults env)\<rparr>) = OrderModel_Insert env"
  by (auto simp: fun_eq_iff store_defs split: prod.splits option.splits)

lemma stages_without_enqueue:
  "discountedAmount (env\<lparr>faults := insert OpEnqueue (faults env)\<rparr>) = discountedAmount env"
  "couponDeduction (env\<lparr>faults := insert OpEnqueue (faults env)\<rparr>) = couponDeduction env"
  "isNewStep (env\<lparr>faults := insert OpEnqueue (faults env)\<rparr>) = isNewStep env"
  "giftLog (env\<lparr>faults := insert OpEnqueue (faults env)\<rparr>) = giftLog env"
  "purchaseFee (env\<lparr>faults := insert OpEnqueue (faults env)\<rparr>) = purchaseFee env"
  "renewalPayment (env\<lparr>faults := insert OpEnqueue (faults env)\<rparr>) = renewalPayment env"
  "renewalFee (env\<lparr>faults := insert OpEnqueue (faults env)\<rparr>) = renewalFee env"
  "purchaseOrder (env\<lparr>faults := insert OpEnqueue (faults env)\<rparr>) = purchaseOrder env"
  "renewalOrder (env\<lparr>faults := insert OpEnqueue (faults env)\<rparr>) = renewalOrder env"
  "rechargeOrder (env\<lparr>faults := insert OpEnqueue (faults env)\<rparr>) = rechargeOrder env"
  by (auto simp: fun_eq_iff stores_without_enqueue discountedAmount_def couponDeduction_def
        isNewStep_def giftLog_def purchaseFee_def renewalPayment_def renewalFee_def
        purchaseOrder_def renewalOrder_def rechargeOrder_def Let_def
      split: option.splits lookup.splits)

lemma plans_without_enqueue:
  "purchasePlan (env\<lparr>faults := insert OpEnqueue (faults env)\<rparr>) = purchasePlan env"
  "renewalPlan (env\<lparr>faults := insert OpEnqueue (faults env)\<rparr>) = renewalPlan env"
  "giftWrites (env\<lparr>faults := insert OpEnqueue (faults env)\<rparr>) = giftWrites env"
  by (auto simp: fun_eq_iff stores_without_enqueue stages_without_enqueue purchasePlan_def
        renewalPlan_def giftWrites_def
      split: option.splits prod.splits)

lemma pricing_without_enqueue:
  "purchasePricing (env\<lparr>faults := insert OpEnqueue (faults env)\<rparr>) = purchasePricing env"
  "renewalPricing (env\<lparr>faults := insert OpEnqueue (faults env)\<rparr>) = renewalPricing env"
  by (auto simp: fun_eq_iff stages_without_enqueue plans_without_enqueue purchasePricing_def
        purchaseSteps_def renewalPricing_def renewalSteps_def
      split: option.splits)

lemma tx_without_enqueue:
  "purchaseTx (env\<lparr>faults := insert OpEnqueue (faults env)\<rparr>) = purchaseTx env"
  "renewalTx (env\<lparr>faults := insert OpEnqueue (faults env)\<rparr>) = renewalTx env"
  by (auto simp: fun_eq_iff stores_without_enqueue plans_without_enqueue purchaseTx_def
        renewalTx_def
      split: prod.splits option.splits)

lemma commit_without_enqueue:
  "purchaseCommit (env\<lparr>faults := insert OpEnqueue (faults env)\<rparr>) = purchaseCommit env"
  "renewalCommit (env\<lparr>faults := insert OpEnqueue (faults env)\<rparr>) = renewalCommit env"
  by (simp_all add: fun_eq_iff stores_without_enqueue stages_without_enqueue
        tx_without_enqueue purchaseCommit_def renewalCommit_def)

lemma enqueue_answer:
  "fst (enqueueCloseOrder env' tag no w) = fst (enqueueCloseOrder env tag no w)"
  "db (snd (enqueueCloseOrder env' tag no w)) = db (snd (enqueueCloseOrder env tag no w))"
  by (simp_all add: enqueueCloseOrder_def)

lemma andThen_last_step:
  assumes "\<And>x v. fst (f' x v) = fst (f x v) \<and> db (snd (f' x v)) = db (snd (f x v))"
  shows "fst (andThen m f' w) = fst (andThen m f w) \<and>
         db (snd (andThen m f' w)) = db (snd (andThen m f w))"
  using assms by (auto simp: andThen_def split: prod.splits sum.splits)

lemma Purchase_without_enqueue:
  "fst (Purchase (env\<lparr>faults := insert OpEnqueue (faults env)\<rparr>) req w) = fst (Purchase env req w) \<and>
   db (snd (Purchase (env\<lparr>faults := insert OpEnqueue (faults env)\<rparr>) req w)) =
     db (snd (Purchase env req w))"
  unfolding Purchase_def pricing_without_enqueue commit_without_enqueue
  by (intro andThen_last_step) (simp add: enqueue_answer)

lemma Renewal_without_enqueue:
  "fst (Renewal (env\<lparr>faults := insert OpEnqueue (faults env)\<rparr>) req w) = fst (Renewal env req w) \<and>
   db (snd (Renewal (env\<lparr>faults := insert OpEnqueue (faults env)\<rparr>) req w)) =
     db (snd (Renewal env req w))"
  unfolding Renewal_def pricing_without_enqueue commit_without_enqueue
  apply (intro andThen_last_step)
  apply (clarsimp split: prod.splits)
  apply (intro andThen_last_step)
  apply (simp add: enqueue_answer)
  done

lemma Recharge_without_enqueue:
  "fst (Recharge (env\<lparr>faults := insert OpEnqueue (faults env)\<rparr>) req w) = fst (Recharge env req w) \<and>
   db (snd (Recharge (env\<lparr>faults := insert OpEnqueue (faults env)\<rparr>) req w)) =
     db (snd (Recharge env req w))"
  by (auto simp: Recharge_def stores_without_enqueue stages_without_enqueue logged_def throw_def
                 Let_def enqueueCloseOrder_def
           split: option.splits prod.splits sum.splits)

text \<open>
  C8. When Purchase, Renewal or Recharge returns an order number, the order stored last
  carries that number, and a close-order task with that number, a retry budget of 3 and
  a delay of 15 minutes has been appended to the queue, unless the enqueue failed: then
  the queue is as it was and the last line logged is the enqueue error. Whether the
  enqueue fails changes neither the answer of the request nor the store.
\<close>

theorem close_order_task_enqueued:
  "(Purchase env preq w = (Inr no, w') \<longrightarrow>
      no = GenerateTradeNo env \<and> o_OrderNo (last (orders (db w'))) = no \<and>
      (OpEnqueue \<notin> faults env \<longrightarrow>
         queue w' = queue w @ [\<lparr>t_Kind = DeferCloseOrder, t_OrderNo = no, t_MaxRetry = 3,
                                t_ProcessInMinutes = 15\<rparr>]) \<and>
      (OpEnqueue \<in> faults env \<longrightarrow>
         queue w' = queue w \<and> last (logs w') = ''[Purchase] Enqueue task error'')) \<and>
   (Renewal env nreq w = (Inr no, w') \<longrightarrow>
      no = GenerateTradeNo env \<and> o_OrderNo (last (orders (db w'))) = no \<and>
      (OpEnqueue \<notin> faults env \<longrightarrow>
         queue w' = queue w @ [\<lparr>t_Kind = DeferCloseOrder, t_OrderNo = no, t_MaxRetry = 3,
                                t_ProcessInMinutes = 15\<rparr>]) \<and>
      (OpEnqueue \<in> faults env \<longrightarrow>
         queue w' = queue w \<and> last (logs w') = ''[Renewal] Enqueue task error'')) \<and>
   (Recharge env rreq w = (Inr no, w') \<longrightarrow>
      no = GenerateTradeNo env \<and> o_OrderNo (last (orders (db w'))) = no \<and>
      (OpEnqueue \<notin> faults env \<longrightarrow>
         queue w' = queue w @ [\<lparr>t_Kind = DeferCloseOrder, t_OrderNo = no, t_MaxRetry = 3,
                                t_ProcessInMinutes = 15\<rparr>]) \<and>
      (OpEnqueue \<in> faults env \<longrightarrow>
         queue w' = queue w \<and> last (logs w') = ''[Recharge] Enqueue task error'')) \<and>
   fst (Purchase (env\<lparr>faults := insert OpEnqueue (faults env)\<rparr>) preq w) = fst (Purchase env preq w) \<and>
   db (snd (Purchase (env\<lparr>faults := insert OpEnqueue (faults env)\<rparr>) preq w)) =
     db (snd (Purchase env preq w)) \<and>
   fst (Renewal (env\<lparr>faults := insert OpEnqueue (faults env)\<rparr>) nreq w) = fst (Renewal env nreq w) \<and>
   db (snd (Renewal (env\<lparr>faults := insert OpEnqueue (faults env)\<rparr>) nreq w)) =
     db (snd (Renewal env nreq w)) \<and>
   fst (Recharge (env\<lparr>faults := insert OpEnqueue (faults env)\<rparr>) rreq w) = fst (Recharge env rreq w) \<and>
   db (snd (Recharge (env\<lparr>faults := insert OpEnqueue (faults env)\<rparr>) rreq w)) =
     db (snd (Recharge env rreq w))"
proof -
  have task: "\<And>n. closeOrderTask n =
      \<lparr>t_Kind = DeferCloseOrder, t_OrderNo = n, t_MaxRetry = 3, t_ProcessInMinutes = 15\<rparr>"
    by (simp add: closeOrderTask_def CloseOrderTimeMinutes_def)
  have A: "no = GenerateTradeNo env \<and> o_OrderNo (last (orders (db w'))) = no \<and>
      (OpEnqueue \<notin> faults env \<longrightarrow>
         queue w' = queue w @ [\<lparr>t_Kind = DeferCloseOrder, t_OrderNo = no, t_MaxRetry = 3,
                                t_ProcessInMinutes = 15\<rparr>]) \<and>
      (OpEnqueue \<in> faults env \<longrightarrow>
         queue w' = queue w \<and> last (logs w') = ''[Purchase] Enqueue task error'')"
    if a: "Purchase env preq w = (Inr no, w')"
  proof -
    from Purchase_Inr [OF a] obtain x
      where no: "no = GenerateTradeNo env"
        and d: "db w' = orderInserted (purchaseOrder env preq x) (stockTaken (x_sub x)
                  (giftWritten env ''Purchase order deduction'' (debited x)
                     (purchaseOrder env preq x) (db w)))"
        and q: "queue w' = (if OpEnqueue \<in> faults env then queue w
                            else queue w @ [closeOrderTask no])"
      by blast
    from Purchase_enqueue [OF a] obtain w2
      where e: "enqueueCloseOrder env ''[Purchase]'' no w2 = (Inr no, w')" by blast
    have "o_OrderNo (last (orders (db w'))) = no"
      unfolding d orders_committed(1) by (simp add: purchaseOrder_def no)
    with no q enqueue_outcome(1) [OF e] show ?thesis
      by (simp add: task)
  qed
  have B: "no = GenerateTradeNo env \<and> o_OrderNo (last (orders (db w'))) = no \<and>
      (OpEnqueue \<notin> faults env \<longrightarrow>
         queue w' = queue w @ [\<lparr>t_Kind = DeferCloseOrder, t_OrderNo = no, t_MaxRetry = 3,
                                t_ProcessInMinutes = 15\<rparr>]) \<and>
      (OpEnqueue \<in> faults env \<longrightarrow>
         queue w' = queue w \<and> last (logs w') = ''[Renewal] Enqueue task error'')"
    if a: "Renewal env nreq w = (Inr no, w')"
  proof -
    from Renewal_Inr [OF a] obtain us x
      where no: "no = GenerateTradeNo env"
        and d: "db w' = orderInserted (renewalOrder env nreq us x)
                  (giftWritten env ''Renewal order deduction'' (debited x)
                     (renewalOrder env nreq us x) (db w))"
        and q: "queue w' = (if OpEnqueue \<in> faults env then queue w
                            else queue w @ [closeOrderTask no])"
      by blast
    from Renewal_enqueue [OF a] obtain w2
      where e: "enqueueCloseOrder env ''[Renewal]'' no w2 = (Inr no, w')" by blast
    have "o_OrderNo (last (orders (db w'))) = no"
      unfolding d orders_committed(2) by (simp add: renewalOrder_def no)
    with no q enqueue_outcome(1) [OF e] show ?thesis
      by (simp add: task)
  qed
  have C: "no = GenerateTradeNo env \<and> o_OrderNo (last (orders (db w'))) = no \<and>
      (OpEnqueue \<notin> faults env \<longrightarrow>
         queue w' = queue w @ [\<lparr>t_Kind = DeferCloseOrder, t_OrderNo = no, t_MaxRetry = 3,
                                t_ProcessInMinutes = 15\<rparr>]) \<and>
      (OpEnqueue \<in> faults env \<longrightarrow>
         queue w' = queue w \<and> last (logs w') = ''[Recharge] Enqueue task error'')"
    if a: "Recharge env rreq w = (Inr no, w')"
  proof -
    from Recharge_Inr [OF a] obtain u pay isNew
      where no: "no = GenerateTradeNo env"
        and d: "db w' = orderInserted
                  (rechargeOrder env u rreq pay (calculateFee env (rr_Amount rreq) pay)
                     (rr_Amount rreq + calculateFee env (rr_Amount rreq) pay) isNew) (db w)"
        and q: "queue w' = (if OpEnqueue \<in> faults env then queue w
                            else queue w @ [closeOrderTask no])"
      by blast
    from Recharge_enqueue [OF a] obtain w2
      where e: "enqueueCloseOrder env ''[Recharge]'' no w2 = (Inr no, w')" by blast
    have "o_OrderNo (last (orders (db w'))) = no"
      unfolding d orders_committed(3) by (simp add: rechargeOrder_def no)
    with no q enqueue_outcome(1) [OF e] show ?thesis
      by (simp add: task)
  qed
  show ?thesis
    using Purchase_without_enqueue [of env preq w] Renewal_without_enqueue [of env nreq w]
      Recharge_without_enqueue [of env rreq w]
    by (intro conjI impI [OF A] impI [OF B] impI [OF C]) simp_all
qed

text \<open>
  On the fixtures: the purchase of three units with a working queue, and the same
  purchase, a renewal and a recharge when the enqueue fails.
\<close>

theorem close_order_task_enqueued_witness:
  "fst (Purchase env0 purchase0 world0) = Inr ''T0001'' \<and>
   queue (snd (Purchase env0 purchase0 world0)) =
     [\<lparr>t_Kind = DeferCloseOrder, t_OrderNo = ''T0001'', t_MaxRetry = 3, t_ProcessInMinutes = 15\<rparr>] \<and>
   fst (Purchase (env0\<lparr>faults := {OpEnqueue}\<rparr>) purchase0 world0) = Inr ''T0001'' \<and>
   queue (snd (Purchase (env0\<lparr>faults := {OpEnqueue}\<rparr>) purchase0 world0)) = [] \<and>
   last (logs (snd (Purchase (env0\<lparr>faults := {OpEnqueue}\<rparr>) purchase0 world0))) =
     ''[Purchase] Enqueue task error'' \<and>
   fst (Renewal (env0\<lparr>faults := {OpEnqueue}\<rparr>) renewal0 world0) = Inr ''T0001'' \<and>
   queue (snd (Renewal (env0\<lparr>faults := {OpEnqueue}\<rparr>) renewal0 world0)) = [] \<and>
   fst (Recharge (env0\<lparr>faults := {OpEnqueue}\<rparr>) recharge0 world0) = Inr ''T0001'' \<and>
   queue (snd (Recharge (env0\<lparr>faults := {OpEnqueue}\<rparr>) recharge0 world0)) = []"
proof -
  let ?e = "env0\<lparr>faults := {OpEnqueue}\<rparr>"
  let ?task = "\<lparr>t_Kind = DeferCloseOrder, t_OrderNo = ''T0001'', t_MaxRetry = 3,
                 t_ProcessInMinutes = 15\<rparr>"
  have p0: "Purchase env0 purchase0 world0 = (Inr ''T0001'', snd (Purchase env0 purchase0 world0))"
    and p1: "Purchase ?e purchase0 world0 = (Inr ''T0001'', snd (Purchase ?e purchase0 world0))"
    and n1: "Renewal ?e renewal0 world0 = (Inr ''T0001'', snd (Renewal ?e renewal0 world0))"
    and r1: "Recharge ?e recharge0 world0 = (Inr ''T0001'', snd (Recharge ?e recharge0 world0))"
    by (simp_all add: eval_defs)
  have p0f: "fst (Purchase env0 purchase0 world0) = Inr ''T0001''"
    and p1f: "fst (Purchase ?e purchase0 world0) = Inr ''T0001''"
    and n1f: "fst (Renewal ?e renewal0 world0) = Inr ''T0001''"
    and r1f: "fst (Recharge ?e recharge0 world0) = Inr ''T0001''"
    using p0 p1 n1 r1 by (metis fst_conv)+
  have f: "OpEnqueue \<notin> faults env0" "OpEnqueue \<in> faults ?e"
    by (simp_all add: env0_def)
  have q: "queue world0 = []"
    by (simp add: world0_def)
  note t = close_order_task_enqueued [where w = world0 and no = "''T0001''" and
      preq = purchase0 and nreq = renewal0 and rreq = recharge0]
  from t [where env = env0 and w' = "snd (Purchase env0 purchase0 world0)"] p0 f(1)
  have "queue (snd (Purchase env0 purchase0 world0)) = queue world0 @ [?task]"
    by blast
  with p0f have a: "fst (Purchase env0 purchase0 world0) = Inr ''T0001'' \<and>
     queue (snd (Purchase env0 purchase0 world0)) = [?task]"
    by (simp add: q)
  from t [where env = ?e and w' = "snd (Purchase ?e purchase0 world0)"] p1 f(2)
  have "queue (snd (Purchase ?e purchase0 world0)) = queue world0 \<and>
     last (logs (snd (Purchase ?e purchase0 world0))) = ''[Purchase] Enqueue task error''"
    by blast
  with p1f have b: "fst (Purchase ?e purchase0 world0) = Inr ''T0001'' \<and>
     queue (snd (Purchase ?e purchase0 world0)) = [] \<and>
     last (logs (snd (Purchase ?e purchase0 world0))) = ''[Purchase] Enqueue task error''"
    by (simp add: q)
  from t [where env = ?e and w' = "snd (Renewal ?e renewal0 world0)"] n1 f(2)
  have "queue (snd (Renewal ?e renewal0 world0)) = queue world0"
    by blast
  with n1f have c: "fst (Renewal ?e renewal0 world0) = Inr ''T0001'' \<and>
     queue (snd (Renewal ?e renewal0 world0)) = []"
    by (simp add: q)
  from t [where env = ?e and w' = "snd (Recharge ?e recharge0 world0)"] r1 f(2)
  have "queue (snd (Recharge ?e recharge0 world0)) = queue world0"
    by blast
  with r1f have d: "fst (Recharge ?e recharge0 world0) = Inr ''T0001'' \<and>
     queue (snd (Recharge ?e recharge0 world0)) = []"
    by (simp add: q)
  from a b c d show ?thesis by blast
qed

section \<open>Coupons\<close>

lemma couponDeduction_rejections:
  assumes "code \<noteq> []"
  shows "CouponModel_FindOneByCode env (db w) code = RecordNotFound \<Longrightarrow>
           fst (couponDeduction env tag u code subId amount w) = Inl CouponNotExist"
    and "CouponModel_FindOneByCode env (db w) code = Found c \<Longrightarrow>
         c_Count c \<noteq> 0 \<Longrightarrow> sle (c_Count c) (c_UsedCount c) \<Longrightarrow>
           fst (couponDeduction env tag u code subId amount w) = Inl CouponInsufficientUsage"
    and "CouponModel_FindOneByCode env (db w) code = Found c \<Longrightarrow>
         c_Count c = 0 \<or> slt (c_UsedCount c) (c_Count c) \<Longrightarrow>
         StringToInt64Slice env (c_Subscribe c) \<noteq> [] \<Longrightarrow>
         subId \<notin> set (StringToInt64Slice env (c_Subscribe c)) \<Longrightarrow>
           fst (couponDeduction env tag u code subId amount w) = Inl CouponNotApplicable"
    and "CouponModel_FindOneByCode env (db w) code = Found c \<Longrightarrow>
         c_Count c = 0 \<or> slt (c_UsedCount c) (c_Count c) \<Longrightarrow>
         StringToInt64Slice env (c_Subscribe c) = [] \<or>
           subId \<in> set (StringToInt64Slice env (c_Subscribe c)) \<Longrightarrow>
         countCouponOrders env (db w) (u_Id u) code = Some n \<Longrightarrow>
         sle (c_UserLimit c) n \<Longrightarrow>
           fst (couponDeduction env tag u code subId amount w) = Inl CouponInsufficientUsage"
  using assms
  by (auto simp: couponDeduction_def throw_def logged_def Let_def sle_def slt_def)

lemma purchaseSteps_coupon_rejected:
  assumes "checkQuantity ''[Purchase]'' (pr_Quantity req) w = (Inr q, wa)"
    and "purchasePlan env u req q wa = (Inr (sub, price, afterDiscount, discountAmount), wb)"
    and "fst (couponDeduction env ''[Purchase]'' u (pr_Coupon req) (pr_SubscribeId req)
                afterDiscount wb) = Inl e"
  shows "fst (purchaseSteps env req u w) = Inl e"
  using assms
  by (cases "couponDeduction env ''[Purchase]'' u (pr_Coupon req) (pr_SubscribeId req)
               afterDiscount wb")
     (simp add: purchaseSteps_def andThen_def)

lemma renewalSteps_coupon_rejected:
  assumes "checkQuantity ''[Renewal]'' (rn_Quantity req) w = (Inr q, wa)"
    and "renewalPlan env req q wa = (Inr (us, sub, price, afterDiscount, discountAmount), wb)"
    and "fst (couponDeduction env ''[Renewal]'' u (rn_Coupon req) (s_Id sub) afterDiscount wb) =
           Inl e"
  shows "fst (renewalSteps env req u w) = Inl e"
  using assms
  by (cases "couponDeduction env ''[Renewal]'' u (rn_Coupon req) (s_Id sub) afterDiscount wb")
     (simp add: renewalSteps_def andThen_def)

lemma countCouponOrders_Some:
  "countCouponOrders env d uid code = Some n \<Longrightarrow>
     n = of_nat (length (filter (\<lambda>x. o_UserId x = uid \<and> o_Coupon x = code) (orders d)))"
  by (auto simp: countCouponOrders_def split: if_splits)

lemma CouponModel_Found:
  "CouponModel_FindOneByCode env d code = Found c \<Longrightarrow> c \<in> set (coupons d) \<and> c_Code c = code"
  by (auto simp: CouponModel_FindOneByCode_def find_Some_iff split: if_splits option.splits)

text \<open>
  C5. An order that Purchase or Renewal creates for a request with a coupon code was
  priced with a coupon of the store that has this code, has uses left (a total of 0
  uses meaning no limit), applies to the plan (an empty list of plans meaning any plan),
  and which the user, counting the user's orders in the store that carry the code, has
  redeemed less often than the limit per user allows. Once the checks before the coupon
  have passed, the first of these conditions that fails refuses the request with its
  error: no such coupon, no uses left, not applicable, limit per user reached (the same
  error code as for no uses left). Whenever a request is refused the store is left as it
  was.
\<close>

theorem coupon_checks:
  "(Purchase env preq w = (Inr no, w') \<and> pr_Coupon preq \<noteq> [] \<longrightarrow>
      (\<exists>x w1 c. purchasePricing env preq w = (Inr x, w1) \<and>
         CouponModel_FindOneByCode env (db w) (pr_Coupon preq) = Found c \<and>
         c \<in> set (coupons (db w)) \<and> c_Code c = pr_Coupon preq \<and>
         (c_Count c = 0 \<or> slt (c_UsedCount c) (c_Count c)) \<and>
         (StringToInt64Slice env (c_Subscribe c) = [] \<or>
          pr_SubscribeId preq \<in> set (StringToInt64Slice env (c_Subscribe c))) \<and>
         slt (of_nat (length (filter (\<lambda>y. o_UserId y = u_Id (x_user x) \<and>
                                           o_Coupon y = pr_Coupon preq) (orders (db w)))))
           (c_UserLimit c) \<and>
         o_CouponDiscount (last (orders (db w'))) = calculateCoupon env (x_amount0 x) c)) \<and>
   (Renewal env nreq w = (Inr no, w') \<and> rn_Coupon nreq \<noteq> [] \<longrightarrow>
      (\<exists>us x w1 c. renewalPricing env nreq w = (Inr (us, x), w1) \<and>
         CouponModel_FindOneByCode env (db w) (rn_Coupon nreq) = Found c \<and>
         c \<in> set (coupons (db w)) \<and> c_Code c = rn_Coupon nreq \<and>
         (c_Count c = 0 \<or> slt (c_UsedCount c) (c_Count c)) \<and>
         (StringToInt64Slice env (c_Subscribe c) = [] \<or>
          s_Id (x_sub x) \<in> set (StringToInt64Slice env (c_Subscribe c))) \<and>
         slt (of_nat (length (filter (\<lambda>y. o_UserId y = u_Id (x_user x) \<and>
                                           o_Coupon y = rn_Coupon nreq) (orders (db w)))))
           (c_UserLimit c) \<and>
         o_CouponDiscount (last (orders (db w'))) = calculateCoupon env (x_amount0 x) c)) \<and>
   (ctxUser env = Some u \<and> pr_Coupon preq \<noteq> [] \<and>
    checkQuantity ''[Purchase]'' (pr_Quantity preq) w = (Inr q, wa) \<and>
    purchasePlan env u preq q wa = (Inr (sub, price, afterDiscount, discountAmount), wb) \<longrightarrow>
      (CouponModel_FindOneByCode env (db w) (pr_Coupon preq) = RecordNotFound \<longrightarrow>
         fst (Purchase env preq w) = Inl CouponNotExist) \<and>
      (CouponModel_FindOneByCode env (db w) (pr_Coupon preq) = Found c \<and>
       c_Count c \<noteq> 0 \<and> sle (c_Count c) (c_UsedCount c) \<longrightarrow>
         fst (Purchase env preq w) = Inl CouponInsufficientUsage) \<and>
      (CouponModel_FindOneByCode env (db w) (pr_Coupon preq) = Found c \<and>
       (c_Count c = 0 \<or> slt (c_UsedCount c) (c_Count c)) \<and>
       StringToInt64Slice env (c_Subscribe c) \<noteq> [] \<and>
       pr_SubscribeId preq \<notin> set (StringToInt64Slice env (c_Subscribe c)) \<longrightarrow>
         fst (Purchase env preq w) = Inl CouponNotApplicable) \<and>
      (CouponModel_FindOneByCode env (db w) (pr_Coupon preq) = Found c \<and>
       (c_Count c = 0 \<or> slt (c_UsedCount c) (c_Count c)) \<and>
       (StringToInt64Slice env (c_Subscribe c) = [] \<or>
        pr_SubscribeId preq \<in> set (StringToInt64Slice env (c_Subscribe c))) \<and>
       countCouponOrders env (db w) (u_Id u) (pr_Coupon preq) = Some n \<and>
       sle (c_UserLimit c) n \<longrightarrow>
         fst (Purchase env preq w) = Inl CouponInsufficientUsage)) \<and>
   (ctxUser env = Some u \<and> rn_Coupon nreq \<noteq> [] \<and>
    checkQuantity ''[Renewal]'' (rn_Quantity nreq) w = (Inr q, wa) \<and>
    renewalPlan env nreq q wa = (Inr (us', sub, price, afterDiscount, discountAmount), wb) \<longrightarrow>
      (CouponModel_FindOneByCode env (db w) (rn_Coupon nreq) = RecordNotFound \<longrightarrow>
         fst (Renewal env nreq w) = Inl CouponNotExist) \<and>
      (CouponModel_FindOneByCode env (db w) (rn_Coupon nreq) = Found c \<and>
       c_Count c \<noteq> 0 \<and> sle (c_Count c) (c_UsedCount c) \<longrightarrow>
         fst (Renewal env nreq w) = Inl CouponInsufficientUsage) \<and>
      (CouponModel_FindOneByCode env (db w) (rn_Coupon nreq) = Found c \<and>
       (c_Count c = 0 \<or> slt (c_UsedCount c) (c_Count c)) \<and>
       StringToInt64Slice env (c_Subscribe c) \<noteq> [] \<and>
       s_Id sub \<notin> set (StringToInt64Slice env (c_Subscribe c)) \<longrightarrow>
         fst (Renewal env nreq w) = Inl CouponNotApplicable) \<and>
      (CouponModel_FindOneByCode env (db w) (rn_Coupon nreq) = Found c \<and>
       (c_Count c = 0 \<or> slt (c_UsedCount c) (c_Count c)) \<and>
       (StringToInt64Slice env (c_Subscribe c) = [] \<or>
        s_Id sub \<in> set (StringToInt64Slice env (c_Subscribe c))) \<and>
       countCouponOrders env (db w) (u_Id u) (rn_Coupon nreq) = Some n \<and>
       sle (c_UserLimit c) n \<longrightarrow>
         fst (Renewal env nreq w) = Inl CouponInsufficientUsage)) \<and>
   (fst (Purchase env preq w) = Inl e \<longrightarrow> db (snd (Purchase env preq w)) = db w) \<and>
   (fst (Renewal env nreq w) = Inl e \<longrightarrow> db (snd (Renewal env nreq w)) = db w)"
proof -
  have A: "\<exists>x w1 c. purchasePricing env preq w = (Inr x, w1) \<and>
         CouponModel_FindOneByCode env (db w) (pr_Coupon preq) = Found c \<and>
         c \<in> set (coupons (db w)) \<and> c_Code c = pr_Coupon preq \<and>
         (c_Count c = 0 \<or> slt (c_UsedCount c) (c_Count c)) \<and>
         (StringToInt64Slice env (c_Subscribe c) = [] \<or>
          pr_SubscribeId preq \<in> set (StringToInt64Slice env (c_Subscribe c))) \<and>
         slt (of_nat (length (filter (\<lambda>y. o_UserId y = u_Id (x_user x) \<and>
                                           o_Coupon y = pr_Coupon preq) (orders (db w)))))
           (c_UserLimit c) \<and>
         o_CouponDiscount (last (orders (db w'))) = calculateCoupon env (x_amount0 x) c"
    if a: "Purchase env preq w = (Inr no, w') \<and> pr_Coupon preq \<noteq> []"
  proof -
    from a Purchase_Inr obtain x w1
      where p: "purchasePricing env preq w = (Inr x, w1)"
        and d: "db w' = orderInserted (purchaseOrder env preq x) (stockTaken (x_sub x)
                  (giftWritten env ''Purchase order deduction'' (debited x)
                     (purchaseOrder env preq x) (db w)))"
      by blast
    note s = purchasePricing_Inr(2) [OF p]
    from purchaseSteps_Inr(1) [OF s] obtain wa
      where c: "couponDeduction env ''[Purchase]'' (x_user x) (pr_Coupon preq) (pr_SubscribeId preq)
                  (x_amount0 x) wa = (Inr (x_coupon x), wa)"
        and dw: "db wa = db w"
      by blast
    from couponDeduction_Inr(2) [OF c] a dw obtain couponInfo count
      where f: "CouponModel_FindOneByCode env (db w) (pr_Coupon preq) = Found couponInfo"
        and g: "c_Count couponInfo = 0 \<or> \<not> sle (c_Count couponInfo) (c_UsedCount couponInfo)"
        and h: "StringToInt64Slice env (c_Subscribe couponInfo) = [] \<or>
                pr_SubscribeId preq \<in> set (StringToInt64Slice env (c_Subscribe couponInfo))"
        and k: "countCouponOrders env (db w) (u_Id (x_user x)) (pr_Coupon preq) = Some count"
        and l: "\<not> sle (c_UserLimit couponInfo) count"
        and v: "x_coupon x = calculateCoupon env (x_amount0 x) couponInfo"
      by auto
    have "o_CouponDiscount (last (orders (db w'))) = calculateCoupon env (x_amount0 x) couponInfo"
      unfolding d orders_committed(1) using v by (simp add: purchaseOrder_def)
    with p f g h l CouponModel_Found [OF f] countCouponOrders_Some [OF k] show ?thesis
      by (intro exI [of _ x] exI [of _ w1] exI [of _ couponInfo]) (auto simp: sle_def slt_def)
  qed
  have B: "\<exists>us x w1 c. renewalPricing env nreq w = (Inr (us, x), w1) \<and>
         CouponModel_FindOneByCode env (db w) (rn_Coupon nreq) = Found c \<and>
         c \<in> set (coupons (db w)) \<and> c_Code c = rn_Coupon nreq \<and>
         (c_Count c = 0 \<or> slt (c_UsedCount c) (c_Count c)) \<and>
         (StringToInt64Slice env (c_Subscribe c) = [] \<or>
          s_Id (x_sub x) \<in> set (StringToInt64Slice env (c_Subscribe c))) \<and>
         slt (of_nat (length (filter (\<lambda>y. o_UserId y = u_Id (x_user x) \<and>
                                           o_Coupon y = rn_Coupon nreq) (orders (db w)))))
           (c_UserLimit c) \<and>
         o_CouponDiscount (last (orders (db w'))) = calculateCoupon env (x_amount0 x) c"
    if a: "Renewal env nreq w = (Inr no, w') \<and> rn_Coupon nreq \<noteq> []"
  proof -
    from a Renewal_Inr obtain us x w1
      where p: "renewalPricing env nreq w = (Inr (us, x), w1)"
        and d: "db w' = orderInserted (renewalOrder env nreq us x)
                  (giftWritten env ''Renewal order deduction'' (debited x)
                     (renewalOrder env nreq us x) (db w))"
      by blast
    note s = renewalPricing_Inr(2) [OF p]
    from renewalSteps_Inr(1) [OF s] obtain wa
      where c: "couponDeduction env ''[Renewal]'' (x_user x) (rn_Coupon nreq) (s_Id (x_sub x))
                  (x_amount0 x) wa = (Inr (x_coupon x), wa)"
        and dw: "db wa = db w"
      by blast
    from couponDeduction_Inr(2) [OF c] a dw obtain couponInfo count
      where f: "CouponModel_FindOneByCode env (db w) (rn_Coupon nreq) = Found couponInfo"
        and g: "c_Count couponInfo = 0 \<or> \<not> sle (c_Count couponInfo) (c_UsedCount couponInfo)"
        and h: "StringToInt64Slice env (c_Subscribe couponInfo) = [] \<or>
                s_Id (x_sub x) \<in> set (StringToInt64Slice env (c_Subscribe couponInfo))"
        and k: "countCouponOrders env (db w) (u_Id (x_user x)) (rn_Coupon nreq) = Some count"
        and l: "\<not> sle (c_UserLimit couponInfo) count"
        and v: "x_coupon x = calculateCoupon env (x_amount0 x) couponInfo"
      by auto
    have "o_CouponDiscount (last (orders (db w'))) = calculateCoupon env (x_amount0 x) couponInfo"
      unfolding d orders_committed(2) using v by (simp add: renewalOrder_def)
    with p f g h l CouponModel_Found [OF f] countCouponOrders_Some [OF k] show ?thesis
      by (intro exI [of _ us] exI [of _ x] exI [of _ w1] exI [of _ couponInfo])
         (auto simp: sle_def slt_def)
  qed
  have C: "(CouponModel_FindOneByCode env (db w) (pr_Coupon preq) = RecordNotFound \<longrightarrow>
         fst (Purchase env preq w) = Inl CouponNotExist) \<and>
      (CouponModel_FindOneByCode env (db w) (pr_Coupon preq) = Found c \<and>
       c_Count c \<noteq> 0 \<and> sle (c_Count c) (c_UsedCount c) \<longrightarrow>
         fst (Purchase env preq w) = Inl CouponInsufficientUsage) \<and>
      (CouponModel_FindOneByCode env (db w) (pr_Coupon preq) = Found c \<and>
       (c_Count c = 0 \<or> slt (c_UsedCount c) (c_Count c)) \<and>
       StringToInt64Slice env (c_Subscribe c) \<noteq> [] \<and>
       pr_SubscribeId preq \<notin> set (StringToInt64Slice env (c_Subscribe c)) \<longrightarrow>
         fst (Purchase env preq w) = Inl CouponNotApplicable) \<and>
      (CouponModel_FindOneByCode env (db w) (pr_Coupon preq) = Found c \<and>
       (c_Count c = 0 \<or> slt (c_UsedCount c) (c_Count c)) \<and>
       (StringToInt64Slice env (c_Subscribe c) = [] \<or>
        pr_SubscribeId preq \<in> set (StringToInt64Slice env (c_Subscribe c))) \<and>
       countCouponOrders env (db w) (u_Id u) (pr_Coupon preq) = Some n \<and>
       sle (c_UserLimit c) n \<longrightarrow>
         fst (Purchase env preq w) = Inl CouponInsufficientUsage)"
    if a: "ctxUser env = Some u \<and> pr_Coupon preq \<noteq> [] \<and>
      checkQuantity ''[Purchase]'' (pr_Quantity preq) w = (Inr q, wa) \<and>
      purchasePlan env u preq q wa = (Inr (sub, price, afterDiscount, discountAmount), wb)"
  proof -
    from a have u: "ctxUser env = Some u" and code: "pr_Coupon preq \<noteq> []"
      and cq: "checkQuantity ''[Purchase]'' (pr_Quantity preq) w = (Inr q, wa)"
      and pp: "purchasePlan env u preq q wa = (Inr (sub, price, afterDiscount, discountAmount), wb)"
      by simp_all
    have dw: "db wb = db w"
      using quietD [OF checkQuantity_quiet cq] quietD [OF purchasePlan_quiet pp] by simp
    have up: "fst (Purchase env preq w) = Inl k"
      if "fst (couponDeduction env ''[Purchase]'' u (pr_Coupon preq) (pr_SubscribeId preq)
                afterDiscount wb) = Inl k" for k
      using u purchaseSteps_coupon_rejected [OF cq pp that] by (rule Purchase_pricing_Inl)
    note r = couponDeduction_rejections [OF code, of env wb, unfolded dw, THEN up]
    show ?thesis
      using r by blast
  qed
  have D: "(CouponModel_FindOneByCode env (db w) (rn_Coupon nreq) = RecordNotFound \<longrightarrow>
         fst (Renewal env nreq w) = Inl CouponNotExist) \<and>
      (CouponModel_FindOneByCode env (db w) (rn_Coupon nreq) = Found c \<and>
       c_Count c \<noteq> 0 \<and> sle (c_Count c) (c_UsedCount c) \<longrightarrow>
         fst (Renewal env nreq w) = Inl CouponInsufficientUsage) \<and>
      (CouponModel_FindOneByCode env (db w) (rn_Coupon nreq) = Found c \<and>
       (c_Count c = 0 \<or> slt (c_UsedCount c) (c_Count c)) \<and>
       StringToInt64Slice env (c_Subscribe c) \<noteq> [] \<and>
       s_Id sub \<notin> set (StringToInt64Slice env (c_Subscribe c)) \<longrightarrow>
         fst (Renewal env nreq w) = Inl CouponNotApplicable) \<and>
      (CouponModel_FindOneByCode env (db w) (rn_Coupon nreq) = Found c \<and>
       (c_Count c = 0 \<or> slt (c_UsedCount c) (c_Count c)) \<and>
       (StringToInt64Slice env (c_Subscribe c) = [] \<or>
        s_Id sub \<in> set (StringToInt64Slice env (c_Subscribe c))) \<and>
       countCouponOrders env (db w) (u_Id u) (rn_Coupon nreq) = Some n \<and>
       sle (c_UserLimit c) n \<longrightarrow>
         fst (Renewal env nreq w) = Inl CouponInsufficientUsage)"
    if a: "ctxUser env = Some u \<and> rn_Coupon nreq \<noteq> [] \<and>
      checkQuantity ''[Renewal]'' (rn_Quantity nreq) w = (Inr q, wa) \<and>
      renewalPlan env nreq q wa = (Inr (us', sub, price, afterDiscount, discountAmount), wb)"
  proof -
    from a have u: "ctxUser env = Some u" and code: "rn_Coupon nreq \<noteq> []"
      and cq: "checkQuantity ''[Renewal]'' (rn_Quantity nreq) w = (Inr q, wa)"
      and pp: "renewalPlan env nreq q wa = (Inr (us', sub, price, afterDiscount, discountAmount), wb)"
      by simp_all
    have dw: "db wb = db w"
      using quietD [OF checkQuantity_quiet cq] quietD [OF renewalPlan_quiet pp] by simp
    have up: "fst (Renewal env nreq w) = Inl k"
      if "fst (couponDeduction env ''[Renewal]'' u (rn_Coupon nreq) (s_Id sub) afterDiscount wb) =
            Inl k" for k
      using u renewalSteps_coupon_rejected [OF cq pp that] by (rule Renewal_pricing_Inl)
    note r = couponDeduction_rejections [OF code, of env wb, unfolded dw, THEN up]
    show ?thesis
      using r by blast
  qed
  have E: "db (snd (Purchase env preq w)) = db w" if "fst (Purchase env preq w) = Inl e"
    using Purchase_rejected_world [OF that] by simp
  have F: "db (snd (Renewal env nreq w)) = db w" if "fst (Renewal env nreq w) = Inl e"
    using Renewal_rejected_world [OF that] by simp
  show ?thesis
    by (rule conjI [OF impI [OF A] conjI [OF impI [OF B] conjI [OF impI [OF C]
          conjI [OF impI [OF D] conjI [OF impI [OF E] impI [OF F]]]]]])
qed

text \<open>
  On the fixtures: the coupon accepted in a purchase, then a code that no coupon has, a
  coupon with no uses left, a coupon of another plan, and the coupon that the user has
  already redeemed once, in a purchase and in a renewal.
\<close>

theorem coupon_checks_witness:
  "fst (Purchase env0 purchase2 world0) = Inr ''T0001'' \<and>
   o_CouponDiscount (last (orders (db (snd (Purchase env0 purchase2 world0))))) = 100 \<and>
   fst (Purchase env0 purchase3 world0) = Inl CouponNotExist \<and>
   db (snd (Purchase env0 purchase3 world0)) = db world0 \<and>
   fst (Purchase env0 purchase4 world0) = Inl CouponInsufficientUsage \<and>
   fst (Purchase env0 purchase5 world0) = Inl CouponNotApplicable \<and>
   fst (Purchase env0 purchase2 world1) = Inl CouponInsufficientUsage \<and>
   fst (Renewal env0 renewal0 world1) = Inl CouponInsufficientUsage \<and>
   db (snd (Renewal env0 renewal0 world1)) = db world1"
proof -
  have p2: "Purchase env0 purchase2 world0 = (Inr ''T0001'', snd (Purchase env0 purchase2 world0))"
    by (simp add: eval_defs)
  then have p2f: "fst (Purchase env0 purchase2 world0) = Inr ''T0001''"
    by (metis fst_conv)
  have x2: "purchasePricing env0 purchase2 world0 =
      (Inr \<lparr>x_user = user0, x_Quantity = 3, x_sub = plan0, x_price = 3000, x_discountAmount = 0,
            x_amount0 = 3000, x_coupon = 100, x_amount1 = 2900, x_deductionAmount = 0,
            x_giftAfter = 0, x_amount2 = 2900, x_payment = pay1, x_feeAmount = 200000000,
            x_amount3 = 200002900, x_isNew = True\<rparr>, world0)"
    and c2: "CouponModel_FindOneByCode env0 (db world0) (pr_Coupon purchase2) = Found coupon0"
    and code2: "pr_Coupon purchase2 \<noteq> []"
    by (simp_all add: eval_defs)
  from coupon_checks [where env = env0 and preq = purchase2 and w = world0 and no = "''T0001''" and
            w' = "snd (Purchase env0 purchase2 world0)",
            THEN conjunct1] p2 code2
  obtain x w1 c where "purchasePricing env0 purchase2 world0 = (Inr x, w1)"
    and "CouponModel_FindOneByCode env0 (db world0) (pr_Coupon purchase2) = Found c"
    and "o_CouponDiscount (last (orders (db (snd (Purchase env0 purchase2 world0))))) =
           calculateCoupon env0 (x_amount0 x) c"
    by blast
  with x2 c2
  have "o_CouponDiscount (last (orders (db (snd (Purchase env0 purchase2 world0))))) =
          calculateCoupon env0 3000 coupon0"
    by simp
  then have a: "o_CouponDiscount (last (orders (db (snd (Purchase env0 purchase2 world0))))) = 100"
    by (simp add: env0_def sle_def)
  have g3: "ctxUser env0 = Some user0 \<and> pr_Coupon purchase3 \<noteq> [] \<and>
      checkQuantity ''[Purchase]'' (pr_Quantity purchase3) world0 = (Inr 3, world0) \<and>
      purchasePlan env0 user0 purchase3 3 world0 = (Inr (plan0, 3000, 3000, 0), world0)"
    and l3: "CouponModel_FindOneByCode env0 (db world0) (pr_Coupon purchase3) = RecordNotFound"
    by (simp_all add: eval_defs)
  from coupon_checks [where env = env0 and preq = purchase3 and w = world0 and u = user0 and q = 3 and
            wa = world0 and sub = plan0 and price = 3000 and afterDiscount = 3000 and
            discountAmount = 0 and wb = world0,
            THEN conjunct2, THEN conjunct2, THEN conjunct1] g3 l3
  have b1: "fst (Purchase env0 purchase3 world0) = Inl CouponNotExist"
    by blast
  with coupon_checks [where env = env0 and preq = purchase3 and w = world0 and e = CouponNotExist,
            THEN conjunct2, THEN conjunct2, THEN conjunct2, THEN conjunct2,
            THEN conjunct1]
  have b: "fst (Purchase env0 purchase3 world0) = Inl CouponNotExist \<and>
           db (snd (Purchase env0 purchase3 world0)) = db world0"
    by blast
  have g4: "ctxUser env0 = Some user0 \<and> pr_Coupon purchase4 \<noteq> [] \<and>
      checkQuantity ''[Purchase]'' (pr_Quantity purchase4) world0 = (Inr 3, world0) \<and>
      purchasePlan env0 user0 purchase4 3 world0 = (Inr (plan0, 3000, 3000, 0), world0)"
    and l4: "CouponModel_FindOneByCode env0 (db world0) (pr_Coupon purchase4) = Found coupon1 \<and>
      c_Count coupon1 \<noteq> 0 \<and> sle (c_Count coupon1) (c_UsedCount coupon1)"
    by (simp_all add: eval_defs)
  from coupon_checks [where env = env0 and preq = purchase4 and w = world0 and u = user0 and q = 3 and
            wa = world0 and sub = plan0 and price = 3000 and afterDiscount = 3000 and
            discountAmount = 0 and wb = world0 and c = coupon1,
            THEN conjunct2, THEN conjunct2, THEN conjunct1] g4 l4
  have c: "fst (Purchase env0 purchase4 world0) = Inl CouponInsufficientUsage"
    by blast
  have g5: "ctxUser env0 = Some user0 \<and> pr_Coupon purchase5 \<noteq> [] \<and>
      checkQuantity ''[Purchase]'' (pr_Quantity purchase5) world0 = (Inr 3, world0) \<and>
      purchasePlan env0 user0 purchase5 3 world0 = (Inr (plan0, 3000, 3000, 0), world0)"
    and l5: "CouponModel_FindOneByCode env0 (db world0) (pr_Coupon purchase5) = Found coupon2 \<and>
      (c_Count coupon2 = 0 \<or> slt (c_UsedCount coupon2) (c_Count coupon2)) \<and>
      StringToInt64Slice env0 (c_Subscribe coupon2) \<noteq> [] \<and>
      pr_SubscribeId purchase5 \<notin> set (StringToInt64Slice env0 (c_Subscribe coupon2))"
    by (simp_all add: eval_defs)
  from coupon_checks [where env = env0 and preq = purchase5 and w = world0 and u = user0 and q = 3 and
            wa = world0 and sub = plan0 and price = 3000 and afterDiscount = 3000 and
            discountAmount = 0 and wb = world0 and c = coupon2,
            THEN conjunct2, THEN conjunct2, THEN conjunct1] g5 l5
  have d: "fst (Purchase env0 purchase5 world0) = Inl CouponNotApplicable"
    by blast
  have g6: "ctxUser env0 = Some user0 \<and> pr_Coupon purchase2 \<noteq> [] \<and>
      checkQuantity ''[Purchase]'' (pr_Quantity purchase2) world1 = (Inr 3, world1) \<and>
      purchasePlan env0 user0 purchase2 3 world1 = (Inr (plan0, 3000, 3000, 0), world1)"
    and l6: "CouponModel_FindOneByCode env0 (db world1) (pr_Coupon purchase2) = Found coupon0 \<and>
      (c_Count coupon0 = 0 \<or> slt (c_UsedCount coupon0) (c_Count coupon0)) \<and>
      (StringToInt64Slice env0 (c_Subscribe coupon0) = [] \<or>
       pr_SubscribeId purchase2 \<in> set (StringToInt64Slice env0 (c_Subscribe coupon0))) \<and>
      countCouponOrders env0 (db world1) (u_Id user0) (pr_Coupon purchase2) = Some 1 \<and>
      sle (c_UserLimit coupon0) 1"
    by (simp_all add: eval_defs)
  from coupon_checks [where env = env0 and preq = purchase2 and w = world1 and u = user0 and q = 3 and
            wa = world1 and sub = plan0 and price = 3000 and afterDiscount = 3000 and
            discountAmount = 0 and wb = world1 and c = coupon0 and n = 1,
            THEN conjunct2, THEN conjunct2, THEN conjunct1] g6 l6
  have e: "fst (Purchase env0 purchase2 world1) = Inl CouponInsufficientUsage"
    by blast
  have g7: "ctxUser env0 = Some user0 \<and> rn_Coupon renewal0 \<noteq> [] \<and>
      checkQuantity ''[Renewal]'' (rn_Quantity renewal0) world1 = (Inr 3, world1) \<and>
      renewalPlan env0 renewal0 3 world1 = (Inr (usub0, plan0, 3000, 3000, 0), world1)"
    and l7: "CouponModel_FindOneByCode env0 (db world1) (rn_Coupon renewal0) = Found coupon0 \<and>
      (c_Count coupon0 = 0 \<or> slt (c_UsedCount coupon0) (c_Count coupon0)) \<and>
      (StringToInt64Slice env0 (c_Subscribe coupon0) = [] \<or>
       s_Id plan0 \<in> set (StringToInt64Slice env0 (c_Subscribe coupon0))) \<and>
      countCouponOrders env0 (db world1) (u_Id user0) (rn_Coupon renewal0) = Some 1 \<and>
      sle (c_UserLimit coupon0) 1"
    by (simp_all add: eval_defs)
  from coupon_checks [where env = env0 and nreq = renewal0 and w = world1 and u = user0 and q = 3 and
            wa = world1 and sub = plan0 and price = 3000 and afterDiscount = 3000 and
            discountAmount = 0 and wb = world1 and c = coupon0 and n = 1 and us' = usub0,
            THEN conjunct2, THEN conjunct2, THEN conjunct2, THEN conjunct1] g7 l7
  have f1: "fst (Renewal env0 renewal0 world1) = Inl CouponInsufficientUsage"
    by blast
  with coupon_checks [where env = env0 and nreq = renewal0 and w = world1 and e = CouponInsufficientUsage,
            THEN conjunct2, THEN conjunct2, THEN conjunct2, THEN conjunct2,
            THEN conjunct2]
  have f: "fst (Renewal env0 renewal0 world1) = Inl CouponInsufficientUsage \<and>
           db (snd (Renewal env0 renewal0 world1)) = db world1"
    by blast
  from p2f a b c d e f show ?thesis by blast
qed

section \<open>The fulfilment transaction\<close>

lemma purchaseCommit_fault:
  assumes "OpUserUpdate \<in> faults env \<and> slt 0 (x_deductionAmount x) \<or>
           OpLogCreate \<in> faults env \<and> slt 0 (x_deductionAmount x) \<or>
           OpSubscribeUpdate \<in> faults env \<and> s_Inventory (x_sub x) \<noteq> - 1 \<or>
           OpOrderCreate \<in> faults env \<or> OpCommit \<in> faults env"
  shows "fst (purchaseCommit env req x w) = Inl DatabaseInsertError"
  using assms
  by (auto simp: purchaseCommit_def purchaseTx_def giftWrites_def purchaseOrder_def
                 store_defs logged_def throw_def ok_def Let_def
           split: option.splits prod.splits sum.splits if_splits)

lemma renewalCommit_fault:
  assumes "OpUserUpdate \<in> faults env \<and> slt 0 (x_deductionAmount x) \<or>
           OpLogCreate \<in> faults env \<and> slt 0 (x_deductionAmount x) \<or>
           OpOrderCreate \<in> faults env \<or> OpCommit \<in> faults env"
  shows "fst (renewalCommit env req us x w) = Inl StoreError"
  using assms
  by (auto simp: renewalCommit_def renewalTx_def giftWrites_def renewalOrder_def
                 store_defs logged_def throw_def ok_def Let_def
           split: option.splits prod.splits sum.splits if_splits)

lemma Purchase_commit_Inl:
  assumes "purchasePricing env req w = (Inr x, w1)"
    and "fst (purchaseCommit env req x w1) = Inl e"
  shows "fst (Purchase env req w) = Inl e"
  using assms
  by (cases "purchaseCommit env req x w1") (simp add: Purchase_def andThen_def)

lemma Renewal_commit_Inl:
  assumes "renewalPricing env req w = (Inr (us, x), w1)"
    and "fst (renewalCommit env req us x w1) = Inl e"
  shows "fst (Renewal env req w) = Inl e"
  using assms
  by (cases "renewalCommit env req us x w1") (simp add: Renewal_def andThen_def)

text \<open>
  C2, as amended. Purchase commits the writes of the fulfilment together: when it returns
  an order number the store is the store before with the user row and the gift record
  written (when a deduction occurred), one unit taken off the plan's inventory (when the
  counter is not \<open>-1\<close>) and the order inserted; when it returns an error the store and
  the queue are as they were, and a failure of any write inside the transaction, or of
  its commit, returns the insert error. Renewal does the same for the user row, the gift
  record and the order, and never writes the plan: its transaction has no inventory
  decrement, and its failure returns the error of the store.
\<close>

theorem fulfilment_all_or_nothing:
  "(Purchase env preq w = (Inr no, w') \<longrightarrow>
      (\<exists>x w1. purchasePricing env preq w = (Inr x, w1) \<and>
         db w' = orderInserted (purchaseOrder env preq x) (stockTaken (x_sub x)
                   (giftWritten env ''Purchase order deduction'' (debited x)
                      (purchaseOrder env preq x) (db w))))) \<and>
   (Renewal env nreq w = (Inr no, w') \<longrightarrow>
      (\<exists>us x w1. renewalPricing env nreq w = (Inr (us, x), w1) \<and>
         db w' = orderInserted (renewalOrder env nreq us x)
                   (giftWritten env ''Renewal order deduction'' (debited x)
                      (renewalOrder env nreq us x) (db w)) \<and>
         subscribes (db w') = subscribes (db w))) \<and>
   (Purchase env preq w = (Inl e, w') \<longrightarrow> db w' = db w \<and> queue w' = queue w) \<and>
   (Renewal env nreq w = (Inl e, w') \<longrightarrow> db w' = db w \<and> queue w' = queue w) \<and>
   (purchasePricing env preq w = (Inr x, w1) \<and>
    (OpUserUpdate \<in> faults env \<and> slt 0 (x_deductionAmount x) \<or>
     OpLogCreate \<in> faults env \<and> slt 0 (x_deductionAmount x) \<or>
     OpSubscribeUpdate \<in> faults env \<and> s_Inventory (x_sub x) \<noteq> - 1 \<or>
     OpOrderCreate \<in> faults env \<or> OpCommit \<in> faults env) \<longrightarrow>
      fst (Purchase env preq w) = Inl DatabaseInsertError \<and>
      db (snd (Purchase env preq w)) = db w) \<and>
   (renewalPricing env nreq w = (Inr (us, x), w1) \<and>
    (OpUserUpdate \<in> faults env \<and> slt 0 (x_deductionAmount x) \<or>
     OpLogCreate \<in> faults env \<and> slt 0 (x_deductionAmount x) \<or>
     OpOrderCreate \<in> faults env \<or> OpCommit \<in> faults env) \<longrightarrow>
      fst (Renewal env nreq w) = Inl StoreError \<and>
      db (snd (Renewal env nreq w)) = db w)"
proof -
  have A: "\<exists>x w1. purchasePricing env preq w = (Inr x, w1) \<and>
         db w' = orderInserted (purchaseOrder env preq x) (stockTaken (x_sub x)
                   (giftWritten env ''Purchase order deduction'' (debited x)
                      (purchaseOrder env preq x) (db w)))"
    if "Purchase env preq w = (Inr no, w')"
    using Purchase_Inr [OF that] by blast
  have B: "\<exists>us x w1. renewalPricing env nreq w = (Inr (us, x), w1) \<and>
         db w' = orderInserted (renewalOrder env nreq us x)
                   (giftWritten env ''Renewal order deduction'' (debited x)
                      (renewalOrder env nreq us x) (db w)) \<and>
         subscribes (db w') = subscribes (db w)"
    if "Renewal env nreq w = (Inr no, w')"
  proof -
    from Renewal_Inr [OF that] obtain us x w1
      where p: "renewalPricing env nreq w = (Inr (us, x), w1)"
        and d: "db w' = orderInserted (renewalOrder env nreq us x)
                  (giftWritten env ''Renewal order deduction'' (debited x)
                     (renewalOrder env nreq us x) (db w))"
      by blast
    have "subscribes (db w') = subscribes (db w)"
      unfolding d by (simp add: committed_tables)
    with p d show ?thesis by blast
  qed
  have C: "db w' = db w \<and> queue w' = queue w" if "Purchase env preq w = (Inl e, w')"
    using Purchase_Inl [OF that] by simp
  have D: "db w' = db w \<and> queue w' = queue w" if "Renewal env nreq w = (Inl e, w')"
    using Renewal_Inl [OF that] by simp
  have E: "fst (Purchase env preq w) = Inl DatabaseInsertError \<and>
      db (snd (Purchase env preq w)) = db w"
    if a: "purchasePricing env preq w = (Inr x, w1) \<and>
      (OpUserUpdate \<in> faults env \<and> slt 0 (x_deductionAmount x) \<or>
       OpLogCreate \<in> faults env \<and> slt 0 (x_deductionAmount x) \<or>
       OpSubscribeUpdate \<in> faults env \<and> s_Inventory (x_sub x) \<noteq> - 1 \<or>
       OpOrderCreate \<in> faults env \<or> OpCommit \<in> faults env)"
  proof -
    from a have "fst (purchaseCommit env preq x w1) = Inl DatabaseInsertError"
      by (intro purchaseCommit_fault) simp
    with a have "fst (Purchase env preq w) = Inl DatabaseInsertError"
      by (intro Purchase_commit_Inl) simp_all
    then show ?thesis using Purchase_rejected_world by blast
  qed
  have F: "fst (Renewal env nreq w) = Inl StoreError \<and> db (snd (Renewal env nreq w)) = db w"
    if a: "renewalPricing env nreq w = (Inr (us, x), w1) \<and>
      (OpUserUpdate \<in> faults env \<and> slt 0 (x_deductionAmount x) \<or>
       OpLogCreate \<in> faults env \<and> slt 0 (x_deductionAmount x) \<or>
       OpOrderCreate \<in> faults env \<or> OpCommit \<in> faults env)"
  proof -
    from a have "fst (renewalCommit env nreq us x w1) = Inl StoreError"
      by (intro renewalCommit_fault) simp
    with a have "fst (Renewal env nreq w) = Inl StoreError"
      by (intro Renewal_commit_Inl) simp_all
    then show ?thesis using Renewal_rejected_world by blast
  qed
  show ?thesis
    by (rule conjI [OF impI [OF A] conjI [OF impI [OF B] conjI [OF impI [OF C]
          conjI [OF impI [OF D] conjI [OF impI [OF E] impI [OF F]]]]]])
qed

text \<open>
  On the fixtures, for the user with the gift balance of 5000: the purchase of three
  units writes the user row, the gift record, the inventory and the order; the same
  purchase when the insert of the order fails, and the renewal when the insert of the
  gift record fails, leave the store as it was.
\<close>

theorem fulfilment_all_or_nothing_witness:
  "fst (Purchase env1 purchase0 world0) = Inr ''T0001'' \<and>
   users (db (snd (Purchase env1 purchase0 world0))) = [\<lparr>u_Id = 7, u_GiftAmount = 2000\<rparr>] \<and>
   length (system_logs (db (snd (Purchase env1 purchase0 world0)))) = 1 \<and>
   subscribes (db (snd (Purchase env1 purchase0 world0))) = [plan0\<lparr>s_Inventory := 4\<rparr>, plan1] \<and>
   length (orders (db (snd (Purchase env1 purchase0 world0)))) = 1 \<and>
   fst (Purchase (env1\<lparr>faults := {OpOrderCreate}\<rparr>) purchase0 world0) = Inl DatabaseInsertError \<and>
   db (snd (Purchase (env1\<lparr>faults := {OpOrderCreate}\<rparr>) purchase0 world0)) = db world0 \<and>
   fst (Renewal (env1\<lparr>faults := {OpLogCreate}\<rparr>) renewal0 world0) = Inl StoreError \<and>
   db (snd (Renewal (env1\<lparr>faults := {OpLogCreate}\<rparr>) renewal0 world0)) = db world0"
proof -
  let ?x = "\<lparr>x_user = user1, x_Quantity = 3, x_sub = plan0, x_price = 3000, x_discountAmount = 0,
            x_amount0 = 3000, x_coupon = 0, x_amount1 = 3000, x_deductionAmount = 3000,
            x_giftAfter = 2000, x_amount2 = 0, x_payment = pay0, x_feeAmount = 0, x_amount3 = 0,
            x_isNew = True\<rparr>"
  let ?y = "\<lparr>x_user = user1, x_Quantity = 3, x_sub = plan0, x_price = 3000,
            x_discountAmount = 0, x_amount0 = 3000, x_coupon = 100, x_amount1 = 2900,
            x_deductionAmount = 2900, x_giftAfter = 2100, x_amount2 = 0, x_payment = pay0,
            x_feeAmount = 0, x_amount3 = 0, x_isNew = False\<rparr>"
  let ?f = "env1\<lparr>faults := {OpOrderCreate}\<rparr>"
  let ?g = "env1\<lparr>faults := {OpLogCreate}\<rparr>"
  have p: "Purchase env1 purchase0 world0 = (Inr ''T0001'', snd (Purchase env1 purchase0 world0))"
    by (simp add: eval_defs)
  then have pf: "fst (Purchase env1 purchase0 world0) = Inr ''T0001''"
    by (metis fst_conv)
  have x1: "purchasePricing env1 purchase0 world0 = (Inr ?x, world0)"
    and x2: "purchasePricing ?f purchase0 world0 = (Inr ?x, world0)"
    and y1: "renewalPricing ?g renewal0 world0 = (Inr (usub0, ?y), world0)"
    by (simp_all add: eval_defs)
  from fulfilment_all_or_nothing [where env = env1 and preq = purchase0 and w = world0 and
      no = "''T0001''" and w' = "snd (Purchase env1 purchase0 world0)", THEN conjunct1] p
  obtain x w1 where "purchasePricing env1 purchase0 world0 = (Inr x, w1)"
    and "db (snd (Purchase env1 purchase0 world0)) =
           orderInserted (purchaseOrder env1 purchase0 x) (stockTaken (x_sub x)
             (giftWritten env1 ''Purchase order deduction'' (debited x)
                (purchaseOrder env1 purchase0 x) (db world0)))"
    by blast
  with x1 have d: "db (snd (Purchase env1 purchase0 world0)) =
           orderInserted (purchaseOrder env1 purchase0 ?x) (stockTaken (x_sub ?x)
             (giftWritten env1 ''Purchase order deduction'' (debited ?x)
                (purchaseOrder env1 purchase0 ?x) (db world0)))"
    by simp
  have a: "users (db (snd (Purchase env1 purchase0 world0))) = [\<lparr>u_Id = 7, u_GiftAmount = 2000\<rparr>] \<and>
     length (system_logs (db (snd (Purchase env1 purchase0 world0)))) = 1 \<and>
     subscribes (db (snd (Purchase env1 purchase0 world0))) = [plan0\<lparr>s_Inventory := 4\<rparr>, plan1] \<and>
     length (orders (db (snd (Purchase env1 purchase0 world0)))) = 1"
    unfolding d
    by (simp add: orderInserted_def stockTaken_def giftWritten_def debited_def purchaseOrder_def
          emptyOrder_def slt_def fixture_defs)
  have "purchasePricing ?f purchase0 world0 = (Inr ?x, world0) \<and>
      (OpUserUpdate \<in> faults ?f \<and> slt 0 (x_deductionAmount ?x) \<or>
       OpLogCreate \<in> faults ?f \<and> slt 0 (x_deductionAmount ?x) \<or>
       OpSubscribeUpdate \<in> faults ?f \<and> s_Inventory (x_sub ?x) \<noteq> - 1 \<or>
       OpOrderCreate \<in> faults ?f \<or> OpCommit \<in> faults ?f)"
    using x2 by simp
  with fulfilment_all_or_nothing [where env = ?f and preq = purchase0 and w = world0 and
      x = ?x and ?w1.0 = world0, THEN conjunct2, THEN conjunct2, THEN conjunct2,
      THEN conjunct2, THEN conjunct1]
  have b: "fst (Purchase ?f purchase0 world0) = Inl DatabaseInsertError \<and>
           db (snd (Purchase ?f purchase0 world0)) = db world0"
    by blast
  have "renewalPricing ?g renewal0 world0 = (Inr (usub0, ?y), world0) \<and>
      (OpUserUpdate \<in> faults ?g \<and> slt 0 (x_deductionAmount ?y) \<or>
       OpLogCreate \<in> faults ?g \<and> slt 0 (x_deductionAmount ?y) \<or>
       OpOrderCreate \<in> faults ?g \<or> OpCommit \<in> faults ?g)"
    using y1 by (simp add: slt_def)
  with fulfilment_all_or_nothing [where env = ?g and nreq = renewal0 and w = world0 and
      x = ?y and ?w1.0 = world0 and us = usub0, THEN conjunct2, THEN conjunct2, THEN conjunct2,
      THEN conjunct2, THEN conjunct2]
  have c: "fst (Renewal ?g renewal0 world0) = Inl StoreError \<and>
           db (snd (Renewal ?g renewal0 world0)) = db world0"
    by blast
  from pf a b c show ?thesis by blast
qed

text \<open>
  C2 as stated fails for Renewal: the renewal of a subscription to the plan with five
  units in stock commits its order, and the plan's inventory, which the claim counts
  among the writes of the unit, is not taken down: the plan row is as before.
\<close>

theorem renewal_inventory_counterexample:
  "fst (Renewal env0 renewal0 world0) = Inr ''T0001'' \<and>
   length (orders (db (snd (Renewal env0 renewal0 world0)))) =
     Suc (length (orders (db world0))) \<and>
   SubscribeModel_FindOne env0 (db world0) 1 = Some plan0 \<and>
   s_Inventory plan0 = 5 \<and>
   SubscribeModel_FindOne env0 (db (snd (Renewal env0 renewal0 world0))) 1 = Some plan0 \<and>
   subscribes (db (snd (Renewal env0 renewal0 world0))) \<noteq>
     subscribes (stockTaken plan0 (db world0))"
  by (simp add: eval_defs stockTaken_def)

section \<open>The inventory of a plan\<close>










section \<open>The order of the checks\<close>

lemma fst_andThen:
  "fst (andThen m f w) = (case fst (m w) of Inl e \<Rightarrow> Inl e | Inr x \<Rightarrow> fst (f x (snd (m w))))"
  by (simp add: andThen_def split: prod.splits sum.splits)

lemma quiet_db: "quiet m \<Longrightarrow> db (snd (m w)) = db w"
  by (cases "m w") (auto dest: quietD)

lemma checkQuantity_fst:
  "fst (checkQuantity tag q w) =
     (if slt MaxQuantity (if sle q 0 then 1 else q) then Inl InvalidParams
      else Inr (if sle q 0 then 1 else q))"
  by (auto simp: checkQuantity_def logged_def throw_def ok_def Let_def)

lemma purchasePlan_fst:
  assumes "faults env = {}"
    and "find (\<lambda>s. s_Id s = pr_SubscribeId req) (subscribes (db w)) = Some sub"
    and "s_Sell sub = Some sell"
  shows "fst (purchasePlan env u req q w) =
     (if SingleModel env \<and> filter (\<lambda>s. us_UserId s = u_Id u) (user_subscribes (db w)) \<noteq> []
      then Inl UserSubscribeExist
      else if s_Sell sub = Some False then Inl ERROR
      else if s_Inventory sub = 0 then Inl SubscribeOutOfStock
      else if slt 0 (s_Quota sub) \<and>
              sle (s_Quota sub)
                (countSubscribe (filter (\<lambda>s. us_UserId s = u_Id u) (user_subscribes (db w)))
                   (pr_SubscribeId req) 0)
      then Inl SubscribeQuotaLimit
      else if slt MaxOrderAmount (fst (snd (discountedAmount env sub q))) then Inl InvalidParams
      else Inr (sub, discountedAmount env sub q))"
  using assms
  by (cases "discountedAmount env sub q")
     (auto simp: purchasePlan_def UserModel_QueryUserSubscribe_def SubscribeModel_FindOne_def
        logged_def throw_def ok_def)

lemma couponDeduction_fst:
  assumes "faults env = {}"
  shows "fst (couponDeduction env tag u code subId amount w) =
     (case couponViolation env (db w) u code subId of
        Some e \<Rightarrow> Inl e
      | None \<Rightarrow> Inr (couponValue env (db w) code amount))"
  using assms
  by (auto simp: couponDeduction_def couponViolation_def couponValue_def
        CouponModel_FindOneByCode_def countCouponOrders_def logged_def throw_def ok_def Let_def
      split: option.splits)

lemma purchaseFee_fst:
  assumes "faults env = {}"
    and "find (\<lambda>p. p_Id p = pid) (payments (db w)) = Some pay"
  shows "fst (purchaseFee env pid amount w) =
     (if slt 0 amount \<and> slt MaxOrderAmount (amount + calculateFee env amount pay)
      then Inl InvalidParams
      else Inr (pay, if slt 0 amount then calculateFee env amount pay else 0,
                amount + (if slt 0 amount then calculateFee env amount pay else 0)))"
  using assms
  by (auto simp: purchaseFee_def PaymentModel_FindOne_def logged_def throw_def ok_def Let_def)

lemma isNewStep_fst:
  assumes "faults env = {}"
  shows "\<exists>isNew. fst (isNewStep env u w) = Inr isNew"
  using assms
  by (simp add: isNewStep_def OrderModel_IsUserEligibleForNewOrder_def ok_def)

lemma purchaseCommit_fst:
  assumes "faults env = {}"
  shows "fst (purchaseCommit env req x w) = Inr (purchaseOrder env req x)"
  using assms
  by (auto simp: purchaseCommit_def purchaseTx_def giftWrites_def store_defs ok_def Let_def
      split: prod.splits option.splits sum.splits)

lemma Purchase_fst:
  assumes "faults env = {}"
  shows "fst (Purchase env req w) =
     (case fst (purchasePricing env req w) of
        Inl e \<Rightarrow> Inl e
      | Inr x \<Rightarrow> Inr (GenerateTradeNo env))"
  using assms
  by (simp add: Purchase_def fst_andThen purchaseCommit_fst enqueueCloseOrder_def
        purchaseOrder_def
      split: sum.splits)

lemma firstViolation_Cons:
  "firstViolation (c # cs) = (case c of Some e \<Rightarrow> Some e | None \<Rightarrow> firstViolation cs)"
  by (cases c) simp_all

lemma purchaseSteps_fst:
  assumes "faults env = {}"
    and "find (\<lambda>s. s_Id s = pr_SubscribeId req) (subscribes (db w)) = Some sub"
    and "s_Sell sub = Some sell"
    and "find (\<lambda>p. p_Id p = pr_Payment req) (payments (db w)) = Some pay"
  shows "(case fst (purchaseSteps env req u w) of Inl e \<Rightarrow> Some e | Inr x \<Rightarrow> None) =
           firstViolation (codeOrder (purchaseChecks env (db w) u req sub pay))"
proof -
  define q where "q = (if sle (pr_Quantity req) 0 then 1 else pr_Quantity req)"
  define w1 where "w1 = snd (checkQuantity ''[Purchase]'' (pr_Quantity req) w)"
  define w2 where "w2 = snd (purchasePlan env u req q w1)"
  have cq: "fst (checkQuantity ''[Purchase]'' (pr_Quantity req) w) =
              (if slt MaxQuantity q then Inl InvalidParams else Inr q)"
    unfolding q_def by (rule checkQuantity_fst)
  have d1: "db w1 = db w"
    unfolding w1_def by (rule quiet_db [OF checkQuantity_quiet])
  have d2: "db w2 = db w"
    unfolding w2_def using quiet_db [OF purchasePlan_quiet, of env u req q w1] d1 by simp
  obtain price amount0 dA where da: "discountedAmount env sub q = (price, amount0, dA)"
    by (cases "discountedAmount env sub q") auto
  have plan: "fst (purchasePlan env u req q w1) =
     (if SingleModel env \<and> filter (\<lambda>s. us_UserId s = u_Id u) (user_subscribes (db w)) \<noteq> []
      then Inl UserSubscribeExist
      else if s_Sell sub = Some False then Inl ERROR
      else if s_Inventory sub = 0 then Inl SubscribeOutOfStock
      else if slt 0 (s_Quota sub) \<and>
              sle (s_Quota sub)
                (countSubscribe (filter (\<lambda>s. us_UserId s = u_Id u) (user_subscribes (db w)))
                   (pr_SubscribeId req) 0)
      then Inl SubscribeQuotaLimit
      else if slt MaxOrderAmount amount0 then Inl InvalidParams
      else Inr (sub, price, amount0, dA))"
    using purchasePlan_fst [OF assms(1), of req w1 sub sell u q] assms(2,3) d1 da by simp
  define c where "c = couponValue env (db w) (pr_Coupon req) amount0"
  define w3 where "w3 = snd (couponDeduction env ''[Purchase]'' u (pr_Coupon req)
      (pr_SubscribeId req) amount0 w2)"
  have d3: "db w3 = db w"
    unfolding w3_def
    using quiet_db [OF couponDeduction_quiet, of env "''[Purchase]''" u "pr_Coupon req"
        "pr_SubscribeId req" amount0 w2] d2 by simp
  have coupon: "fst (couponDeduction env ''[Purchase]'' u (pr_Coupon req) (pr_SubscribeId req)
                      amount0 w2) =
      (case couponViolation env (db w) u (pr_Coupon req) (pr_SubscribeId req) of
         Some e \<Rightarrow> Inl e | None \<Rightarrow> Inr c)"
    using couponDeduction_fst [OF assms(1), of "''[Purchase]''" u "pr_Coupon req"
        "pr_SubscribeId req" amount0 w2] d2 by (simp add: c_def split: option.splits)
  obtain ded amount2 gift' where gd: "giftDeduction (u_GiftAmount u) (amount0 - c) =
      (ded, amount2, gift')"
    by (cases "giftDeduction (u_GiftAmount u) (amount0 - c)") auto
  have fee: "fst (purchaseFee env (pr_Payment req) amount2 w3) =
     (if slt 0 amount2 \<and> slt MaxOrderAmount (amount2 + calculateFee env amount2 pay)
      then Inl InvalidParams
      else Inr (pay, if slt 0 amount2 then calculateFee env amount2 pay else 0,
                amount2 + (if slt 0 amount2 then calculateFee env amount2 pay else 0)))"
    using purchaseFee_fst [OF assms(1), of "pr_Payment req" w3 pay amount2] assms(4) d3 by simp
  define w4 where "w4 = snd (purchaseFee env (pr_Payment req) amount2 w3)"
  from isNewStep_fst [OF assms(1), of u w4] obtain isNew
    where new: "fst (isNewStep env u w4) = Inr isNew" by blast
  let ?rest = "if slt 0 amount2 \<and> slt MaxOrderAmount (amount2 + calculateFee env amount2 pay)
               then Some InvalidParams else None"
  have s4: "(case fst (andThen (purchaseFee env (pr_Payment req) amount2)
                (\<lambda>(pay, feeAmount, amount3).
                   andThen (isNewStep env u) (\<lambda>isNew.
                   ok \<lparr>x_user = u, x_Quantity = q, x_sub = sub, x_price = price,
                       x_discountAmount = dA, x_amount0 = amount0, x_coupon = c,
                       x_amount1 = amount0 - c, x_deductionAmount = ded,
                       x_giftAfter = gift', x_amount2 = amount2, x_payment = pay,
                       x_feeAmount = feeAmount, x_amount3 = amount3, x_isNew = isNew\<rparr>)) w3) of
              Inl e \<Rightarrow> Some e | Inr x \<Rightarrow> None) = ?rest"
    by (simp add: fst_andThen fee new ok_def w4_def [symmetric])
  let ?coupon = "case couponViolation env (db w) u (pr_Coupon req) (pr_SubscribeId req) of
                   Some e \<Rightarrow> Some e | None \<Rightarrow> ?rest"
  have s3: "(case fst (andThen (couponDeduction env ''[Purchase]'' u (pr_Coupon req)
                                  (pr_SubscribeId req) amount0)
                (\<lambda>coupon.
                   case giftDeduction (u_GiftAmount u) (amount0 - coupon) of
                     (deductionAmount, amount2, giftAfter) \<Rightarrow>
                   andThen (purchaseFee env (pr_Payment req) amount2)
                     (\<lambda>(pay, feeAmount, amount3).
                   andThen (isNewStep env u) (\<lambda>isNew.
                   ok \<lparr>x_user = u, x_Quantity = q, x_sub = sub, x_price = price,
                       x_discountAmount = dA, x_amount0 = amount0, x_coupon = coupon,
                       x_amount1 = amount0 - coupon, x_deductionAmount = deductionAmount,
                       x_giftAfter = giftAfter, x_amount2 = amount2, x_payment = pay,
                       x_feeAmount = feeAmount, x_amount3 = amount3, x_isNew = isNew\<rparr>))) w2) of
              Inl e \<Rightarrow> Some e | Inr x \<Rightarrow> None) = ?coupon"
  proof (cases "couponViolation env (db w) u (pr_Coupon req) (pr_SubscribeId req)")
    case None
    then show ?thesis
      using s4 by (simp add: fst_andThen [of "couponDeduction _ _ _ _ _ _"] coupon gd
          w3_def [symmetric])
  next
    case (Some e)
    then show ?thesis
      by (simp add: fst_andThen [of "couponDeduction _ _ _ _ _ _"] coupon)
  qed
  let ?plan = "if SingleModel env \<and>
                  filter (\<lambda>s. us_UserId s = u_Id u) (user_subscribes (db w)) \<noteq> []
       then Some UserSubscribeExist
       else if s_Sell sub = Some False then Some ERROR
       else if s_Inventory sub = 0 then Some SubscribeOutOfStock
       else if slt 0 (s_Quota sub) \<and>
               sle (s_Quota sub)
                 (countSubscribe (filter (\<lambda>s. us_UserId s = u_Id u) (user_subscribes (db w)))
                    (pr_SubscribeId req) 0)
       then Some SubscribeQuotaLimit
       else if slt MaxOrderAmount amount0 then Some InvalidParams
       else ?coupon"
  have s2: "(case fst (andThen (purchasePlan env u req q)
                (\<lambda>(sub, price, amount0, discountAmount).
                   andThen (couponDeduction env ''[Purchase]'' u (pr_Coupon req)
                              (pr_SubscribeId req) amount0)
                     (\<lambda>coupon.
                   case giftDeduction (u_GiftAmount u) (amount0 - coupon) of
                     (deductionAmount, amount2, giftAfter) \<Rightarrow>
                   andThen (purchaseFee env (pr_Payment req) amount2)
                     (\<lambda>(pay, feeAmount, amount3).
                   andThen (isNewStep env u) (\<lambda>isNew.
                   ok \<lparr>x_user = u, x_Quantity = q, x_sub = sub, x_price = price,
                       x_discountAmount = discountAmount, x_amount0 = amount0,
                       x_coupon = coupon, x_amount1 = amount0 - coupon,
                       x_deductionAmount = deductionAmount, x_giftAfter = giftAfter,
                       x_amount2 = amount2, x_payment = pay, x_feeAmount = feeAmount,
                       x_amount3 = amount3, x_isNew = isNew\<rparr>)))) w1) of
              Inl e \<Rightarrow> Some e | Inr x \<Rightarrow> None) = ?plan"
    using s3
    by (auto simp: fst_andThen [of "purchasePlan _ _ _ _"] plan w2_def [symmetric]
        split: option.splits)
  have lhs: "(case fst (purchaseSteps env req u w) of Inl e \<Rightarrow> Some e | Inr x \<Rightarrow> None) =
      (if slt MaxQuantity q then Some InvalidParams else ?plan)"
    unfolding purchaseSteps_def
    using s2
    by (auto simp: fst_andThen [of "checkQuantity _ _"] cq w1_def [symmetric]
        split: option.splits)
  have rhs: "firstViolation (codeOrder (purchaseChecks env (db w) u req sub pay)) =
      (if slt MaxQuantity q then Some InvalidParams else ?plan)"
    unfolding purchaseChecks_def Let_def q_def [symmetric] da c_def [symmetric]
    by (auto simp: codeOrder_def violated_def c_def [symmetric] gd firstViolation_Cons
        split: option.splits)
  from lhs rhs show ?thesis by simp
qed

text \<open>
  C3, as amended. For a purchase of an authenticated user, when every call to the store
  succeeds and the plan and the payment method exist, Purchase answers with the error of
  the first violated check in this order, and with the order number when none is
  violated: (1) the quantity, where a quantity \<open>\<le> 0\<close> counts as 1 and a quantity above
  \<open>MaxQuantity\<close> (1000) gives \<open>InvalidParams\<close>; (2) the single-subscription mode; (3) the
  plan being for sale (the generic error); (4) the inventory not being 0; (5) the quota
  per user; (6) the ceiling of the amount after the discount; (7) the coupon; (8) the
  ceiling of the amount after the fee. A refused request leaves the store as it was.
\<close>

theorem purchase_checks_in_order:
  assumes "faults env = {}" and "ctxUser env = Some u"
    and "find (\<lambda>s. s_Id s = pr_SubscribeId req) (subscribes (db w)) = Some sub"
    and "s_Sell sub = Some sell"
    and "find (\<lambda>p. p_Id p = pr_Payment req) (payments (db w)) = Some pay"
  shows "fst (Purchase env req w) =
           verdict env (codeOrder (purchaseChecks env (db w) u req sub pay)) \<and>
         (fst (Purchase env req w) = Inl e \<longrightarrow> db (snd (Purchase env req w)) = db w) \<and>
         MaxQuantity = 1000"
proof -
  have p: "purchasePricing env req w = purchaseSteps env req u w"
    using assms(2) by (simp add: purchasePricing_def)
  have "fst (Purchase env req w) =
          verdict env (codeOrder (purchaseChecks env (db w) u req sub pay))"
    using purchaseSteps_fst [OF assms(1,3,4,5), of u, symmetric]
    by (cases "fst (purchaseSteps env req u w)")
       (simp_all add: Purchase_fst [OF assms(1)] p verdict_def split: option.splits)
  moreover have "fst (Purchase env req w) = Inl e \<longrightarrow> db (snd (Purchase env req w)) = db w"
    using Purchase_rejected_world by blast
  ultimately show ?thesis
    by (simp add: MaxQuantity_def)
qed

text \<open>
  On the fixtures: the purchase of a plan that is not for sale by a user who holds a
  subscription, in single-subscription mode; the purchase of the plan at 3000000000 with a
  code that no coupon has; and the purchase of three units of the first plan.
\<close>

theorem purchase_checks_in_order_witness:
  "fst (Purchase env3 purchase6 world2) = Inl UserSubscribeExist \<and>
   verdict env3 (codeOrder (purchaseChecks env3 (db world2) user0 purchase6 plan2 pay0)) =
     Inl UserSubscribeExist \<and>
   fst (Purchase env0 purchase7 world2) = Inl InvalidParams \<and>
   verdict env0 (codeOrder (purchaseChecks env0 (db world2) user0 purchase7 plan3 pay0)) =
     Inl InvalidParams \<and>
   db (snd (Purchase env0 purchase7 world2)) = db world2 \<and>
   fst (Purchase env0 purchase0 world2) = Inr ''T0001''"
proof -
  have c: "verdict env3 (codeOrder (purchaseChecks env3 (db world2) user0 purchase6 plan2 pay0)) =
             Inl UserSubscribeExist"
    "verdict env0 (codeOrder (purchaseChecks env0 (db world2) user0 purchase7 plan3 pay0)) =
       Inl InvalidParams"
    "verdict env0 (codeOrder (purchaseChecks env0 (db world2) user0 purchase0 plan0 pay0)) =
       Inr ''T0001''"
    by (simp_all add: verdict_def codeOrder_def purchaseChecks_def violated_def
          couponViolation_def couponValue_def eval_defs)
  have h6: "faults env3 = {}" "ctxUser env3 = Some user0"
    "find (\<lambda>s. s_Id s = pr_SubscribeId purchase6) (subscribes (db world2)) = Some plan2"
    "s_Sell plan2 = Some False"
    "find (\<lambda>p. p_Id p = pr_Payment purchase6) (payments (db world2)) = Some pay0"
    and h7: "faults env0 = {}" "ctxUser env0 = Some user0"
    "find (\<lambda>s. s_Id s = pr_SubscribeId purchase7) (subscribes (db world2)) = Some plan3"
    "s_Sell plan3 = Some True"
    "find (\<lambda>p. p_Id p = pr_Payment purchase7) (payments (db world2)) = Some pay0"
    and h0: "find (\<lambda>s. s_Id s = pr_SubscribeId purchase0) (subscribes (db world2)) = Some plan0"
    "s_Sell plan0 = Some True"
    "find (\<lambda>p. p_Id p = pr_Payment purchase0) (payments (db world2)) = Some pay0"
    by (simp_all add: fixture_defs)
  from purchase_checks_in_order [OF h6, where e = UserSubscribeExist] c(1)
  have a: "fst (Purchase env3 purchase6 world2) = Inl UserSubscribeExist"
    by simp
  from purchase_checks_in_order [OF h7, where e = InvalidParams] c(2)
  have b: "fst (Purchase env0 purchase7 world2) = Inl InvalidParams \<and>
           db (snd (Purchase env0 purchase7 world2)) = db world2"
    by simp
  from purchase_checks_in_order [OF h7(1,2) h0, where e = InvalidParams] c(3)
  have d: "fst (Purchase env0 purchase0 world2) = Inr ''T0001''"
    by simp
  from a b c d show ?thesis by simp
qed

text \<open>
  C3 as stated fails on the order of the checks. In single-subscription mode the purchase
  of a plan that is not for sale by a user who holds a subscription is refused for the
  subscription held, where the order of the claim (plan for sale before the
  single-subscription mode) gives the error of the plan. The purchase of the plan at
  3000000000 with a code that no coupon has is refused for the amount, where the order of
  the claim (coupon before the ceiling) gives the error of the coupon.
\<close>

theorem claimed_order_counterexample:
  "fst (Purchase env3 purchase6 world2) = Inl UserSubscribeExist \<and>
   verdict env3 (claimedOrder (purchaseChecks env3 (db world2) user0 purchase6 plan2 pay0)) =
     Inl ERROR \<and>
   fst (Purchase env3 purchase6 world2) \<noteq>
     verdict env3 (claimedOrder (purchaseChecks env3 (db world2) user0 purchase6 plan2 pay0)) \<and>
   fst (Purchase env0 purchase7 world2) = Inl InvalidParams \<and>
   verdict env0 (claimedOrder (purchaseChecks env0 (db world2) user0 purchase7 plan3 pay0)) =
     Inl CouponNotExist \<and>
   fst (Purchase env0 purchase7 world2) \<noteq>
     verdict env0 (claimedOrder (purchaseChecks env0 (db world2) user0 purchase7 plan3 pay0))"
  by (simp add: verdict_def claimedOrder_def purchaseChecks_def violated_def
        couponViolation_def couponValue_def eval_defs)


section \<open>Recharge: the bounds of the amount\<close>

text \<open>
  C9. A recharge request of an authenticated user whose amount is \<open>\<le> 0\<close> or above
  \<open>MaxRechargeAmount\<close> (2,000,000,000) is refused with \<open>InvalidParams\<close>; so is a request
  whose amount is accepted and whose payment method is found, when the amount plus the
  fee is above \<open>MaxOrderAmount\<close>. In both cases the store and the queue are left as they
  were: no order is created.
\<close>

theorem Recharge_amount_limits:
  assumes "ctxUser env = Some u"
  shows "(sle (rr_Amount req) 0 \<or> slt MaxRechargeAmount (rr_Amount req) \<longrightarrow>
            fst (Recharge env req w) = Inl InvalidParams \<and>
            db (snd (Recharge env req w)) = db w \<and> queue (snd (Recharge env req w)) = queue w) \<and>
         (\<not> sle (rr_Amount req) 0 \<and> \<not> slt MaxRechargeAmount (rr_Amount req) \<and>
          PaymentModel_FindOne env (db w) (rr_Payment req) = Some pay \<and>
          slt MaxOrderAmount (rr_Amount req + calculateFee env (rr_Amount req) pay) \<longrightarrow>
            fst (Recharge env req w) = Inl InvalidParams \<and>
            db (snd (Recharge env req w)) = db w \<and> queue (snd (Recharge env req w)) = queue w) \<and>
         MaxRechargeAmount = 2000000000"
  using assms
  by (auto simp: Recharge_def logged_def throw_def Let_def MaxRechargeAmount_def)

text \<open>
  The scenario of the specification (amount 2,100,000,000), and an amount of
  2,000,000,000 paid with the method whose fee is 200,000,000.
\<close>

theorem Recharge_amount_limits_witness:
  "fst (Recharge env0 \<lparr>rr_Amount = 2100000000, rr_Payment = 1\<rparr> world0) = Inl InvalidParams \<and>
   db (snd (Recharge env0 \<lparr>rr_Amount = 2100000000, rr_Payment = 1\<rparr> world0)) = db world0 \<and>
   fst (Recharge env0 \<lparr>rr_Amount = 2000000000, rr_Payment = 2\<rparr> world0) = Inl InvalidParams \<and>
   db (snd (Recharge env0 \<lparr>rr_Amount = 2000000000, rr_Payment = 2\<rparr> world0)) = db world0"
proof -
  have u: "ctxUser env0 = Some user0"
    by (simp add: env0_def)
  have big: "slt MaxRechargeAmount (rr_Amount \<lparr>rr_Amount = 2100000000, rr_Payment = 1\<rparr>)"
    by (simp add: slt_def MaxRechargeAmount_def)
  have ok: "\<not> sle (rr_Amount \<lparr>rr_Amount = 2000000000, rr_Payment = 2\<rparr>) 0"
    "\<not> slt MaxRechargeAmount (rr_Amount \<lparr>rr_Amount = 2000000000, rr_Payment = 2\<rparr>)"
    by (simp_all add: sle_def slt_def MaxRechargeAmount_def)
  have pay: "PaymentModel_FindOne env0 (db world0) (rr_Payment \<lparr>rr_Amount = 2000000000, rr_Payment = 2\<rparr>)
               = Some pay1"
    by (simp add: PaymentModel_FindOne_def fixture_defs)
  have over: "slt MaxOrderAmount
                (rr_Amount \<lparr>rr_Amount = 2000000000, rr_Payment = 2\<rparr> +
                 calculateFee env0 (rr_Amount \<lparr>rr_Amount = 2000000000, rr_Payment = 2\<rparr>) pay1)"
    by (simp add: slt_def MaxOrderAmount_def env0_def pay1_def)
  from Recharge_amount_limits [OF u, of "\<lparr>rr_Amount = 2100000000, rr_Payment = 1\<rparr>" world0 pay1] big
  have a: "fst (Recharge env0 \<lparr>rr_Amount = 2100000000, rr_Payment = 1\<rparr> world0) = Inl InvalidParams \<and>
           db (snd (Recharge env0 \<lparr>rr_Amount = 2100000000, rr_Payment = 1\<rparr> world0)) = db world0"
    by blast
  from Recharge_amount_limits [OF u, of "\<lparr>rr_Amount = 2000000000, rr_Payment = 2\<rparr>" world0 pay1]
    ok pay over
  have b: "fst (Recharge env0 \<lparr>rr_Amount = 2000000000, rr_Payment = 2\<rparr> world0) = Inl InvalidParams \<and>
           db (snd (Recharge env0 \<lparr>rr_Amount = 2000000000, rr_Payment = 2\<rparr> world0)) = db world0"
    by blast
  from a b show ?thesis by blast
qed


section \<open>An expired subscription\<close>

lemmas sub_fixture_defs =
  app0_def subenv0_def subreq0_def subworld0_def usub0_def plan0_def newline_def

lemma getUserSubscribe_found:
  "FindOneSubscribeByToken env token = TokenFound us \<Longrightarrow>
     getUserSubscribe env token w = (Inr us, w)"
  by (simp add: getUserSubscribe_def)

lemma getServers_expired:
  "isSubscriptionExpired env us \<Longrightarrow>
     getServers env us w = (Inr (createExpiredServers env), w)"
  by (simp add: getServers_def)

lemma buildSubscription_expired:
  assumes "isSubscriptionExpired env us"
    and "FindOneSubscribe env (us_SubscribeId us) = Some info"
    and "\<And>cfg. ad_Servers cfg = createExpiredServers env \<Longrightarrow>
           \<exists>c bytes. adapterClient env cfg = Some c \<and> clientBuild env c = Some bytes"
  shows "\<exists>r cfg c. fst (buildSubscription env req app us w) = Inr r \<and>
           ad_Servers cfg = createExpiredServers env \<and>
           adapterClient env cfg = Some c \<and> clientBuild env c = Some (rs_Config r)"
proof -
  define cfg where "cfg =
    \<lparr>ad_Template = a_SubscribeTemplate app, ad_Servers = createExpiredServers env,
     ad_SiteName = cfg_SiteName env, ad_SubscribeName = s_Name info,
     ad_OutputFormat = a_OutputFormat app,
     ad_UserInfo =
       \<lparr>au_Password = us_UUID us, au_ExpiredAt = us_ExpireTime us,
        au_Download = us_Download us, au_Upload = us_Upload us,
        au_Traffic = us_Traffic us, au_SubscribeURL = getSubscribeV2URL env\<rparr>,
     ad_Params = sr_Params req\<rparr>"
  have s: "ad_Servers cfg = createExpiredServers env"
    by (simp add: cfg_def)
  from assms(3) [OF s] obtain c bytes
    where c: "adapterClient env cfg = Some c" and b: "clientBuild env c = Some bytes"
    by blast
  have "fst (buildSubscription env req app us w) =
          Inr \<lparr>rs_Config = bytes, rs_Upload = us_Upload us, rs_Download = us_Download us,
               rs_Total = us_Traffic us, rs_Expire = us_ExpireTime us\<rparr>"
    using c b
    by (simp add: buildSubscription_def assms(2) getServers_expired [OF assms(1)]
          cfg_def [symmetric] Let_def)
  with s c b show ?thesis
    by (intro exI [of _ "\<lparr>rs_Config = bytes, rs_Upload = us_Upload us,
          rs_Download = us_Download us, rs_Total = us_Traffic us,
          rs_Expire = us_ExpireTime us\<rparr>"] exI [of _ cfg] exI [of _ c]) simp
qed

lemma Handler_client:
  assumes "ClientModel_List env = Some clients"
    and "selectClient env (ToLower env (req_UserAgent env)) clients None \<noteq> (None, None)"
    and "FindOneSubscribeByToken env (sr_Token req) = TokenFound us"
  shows "\<exists>app w1. Handler env req w = buildSubscription env req app us w1"
proof (cases "selectClient env (ToLower env (req_UserAgent env)) clients None")
  case (Pair t d)
  show ?thesis
  proof (cases t)
    case None
    with Pair assms(2) obtain app where "d = Some app"
      by (cases d) auto
    with None Pair show ?thesis
      by (auto simp: Handler_def assms(1) Let_def getUserSubscribe_found [OF assms(3)])
  next
    case (Some app)
    with Pair show ?thesis
      by (auto simp: Handler_def assms(1) Let_def getUserSubscribe_found [OF assms(3)])
  qed
qed

text \<open>
  C10, as amended. A subscription that is found by its token is returned whatever its
  status and its expiry. When it has expired (its expiry is before now and is not 0), the
  servers are the two placeholder nodes, at 127.0.0.1, port 18080, over shadowsocks, on a
  server named \<open>Subscribe Expired\<close>: the first node is named \<open>Subscribe Expired\<close>, the
  second one has the first line of the configured host as its name. The handler then
  answers with the configuration that the adapter builds from these two nodes, provided
  that the list of the clients is read, a client matches or a default one exists, the plan
  of the subscription is found and the adapter renders the two nodes.
\<close>

theorem expired_subscription_placeholders:
  "(FindOneSubscribeByToken env (sr_Token req) = TokenFound us \<longrightarrow>
      getUserSubscribe env (sr_Token req) w = (Inr us, w)) \<and>
   isSubscriptionExpired env us = (us_ExpireTime us < nowUnix env \<and> us_ExpireTime us \<noteq> 0) \<and>
   (isSubscriptionExpired env us \<longrightarrow>
      getServers env us w = (Inr (createExpiredServers env), w)) \<and>
   map n_Name (createExpiredServers env) = [''Subscribe Expired'', getFirstHostLine env] \<and>
   map n_Address (createExpiredServers env) = [''127.0.0.1'', ''127.0.0.1''] \<and>
   map n_Port (createExpiredServers env) = [18080, 18080] \<and>
   map n_Protocol (createExpiredServers env) = [''shadowsocks'', ''shadowsocks''] \<and>
   map (map_option ns_Name \<circ> n_Server) (createExpiredServers env) =
     [Some ''Subscribe Expired'', Some ''Subscribe Expired''] \<and>
   (FindOneSubscribeByToken env (sr_Token req) = TokenFound us \<and>
    isSubscriptionExpired env us \<and>
    ClientModel_List env = Some clients \<and>
    selectClient env (ToLower env (req_UserAgent env)) clients None \<noteq> (None, None) \<and>
    FindOneSubscribe env (us_SubscribeId us) = Some info \<and>
    (\<forall>cfg. ad_Servers cfg = createExpiredServers env \<longrightarrow>
       (\<exists>c bytes. adapterClient env cfg = Some c \<and> clientBuild env c = Some bytes)) \<longrightarrow>
      (\<exists>r cfg c. fst (Handler env req w) = Inr r \<and>
         ad_Servers cfg = createExpiredServers env \<and>
         adapterClient env cfg = Some c \<and> clientBuild env c = Some (rs_Config r)))"
proof -
  have A: "getUserSubscribe env (sr_Token req) w = (Inr us, w)"
    if "FindOneSubscribeByToken env (sr_Token req) = TokenFound us"
    using that by (rule getUserSubscribe_found)
  have B: "isSubscriptionExpired env us =
             (us_ExpireTime us < nowUnix env \<and> us_ExpireTime us \<noteq> 0)"
    by (simp add: isSubscriptionExpired_def)
  have C: "getServers env us w = (Inr (createExpiredServers env), w)"
    if "isSubscriptionExpired env us"
    using that by (rule getServers_expired)
  have D: "map n_Name (createExpiredServers env) = [''Subscribe Expired'', getFirstHostLine env]"
    "map n_Address (createExpiredServers env) = [''127.0.0.1'', ''127.0.0.1'']"
    "map n_Port (createExpiredServers env) = [18080, 18080]"
    "map n_Protocol (createExpiredServers env) = [''shadowsocks'', ''shadowsocks'']"
    "map (map_option ns_Name \<circ> n_Server) (createExpiredServers env) =
       [Some ''Subscribe Expired'', Some ''Subscribe Expired'']"
    by (simp_all add: createExpiredServers_def expiredServer_def Let_def)
  have E: "\<exists>r cfg c. fst (Handler env req w) = Inr r \<and>
             ad_Servers cfg = createExpiredServers env \<and>
             adapterClient env cfg = Some c \<and> clientBuild env c = Some (rs_Config r)"
    if h: "FindOneSubscribeByToken env (sr_Token req) = TokenFound us \<and>
        isSubscriptionExpired env us \<and>
        ClientModel_List env = Some clients \<and>
        selectClient env (ToLower env (req_UserAgent env)) clients None \<noteq> (None, None) \<and>
        FindOneSubscribe env (us_SubscribeId us) = Some info \<and>
        (\<forall>cfg. ad_Servers cfg = createExpiredServers env \<longrightarrow>
           (\<exists>c bytes. adapterClient env cfg = Some c \<and> clientBuild env c = Some bytes))"
  proof -
    from h obtain app w1 where "Handler env req w = buildSubscription env req app us w1"
      using Handler_client by blast
    moreover from h have "\<exists>r cfg c. fst (buildSubscription env req app us w1) = Inr r \<and>
        ad_Servers cfg = createExpiredServers env \<and>
        adapterClient env cfg = Some c \<and> clientBuild env c = Some (rs_Config r)"
      by (intro buildSubscription_expired) blast+
    ultimately show ?thesis
      by simp
  qed
  show ?thesis
    by (rule conjI [OF impI [OF A] conjI [OF B conjI [OF impI [OF C] conjI [OF D(1)
          conjI [OF D(2) conjI [OF D(3) conjI [OF D(4) conjI [OF D(5) impI [OF E]]]]]]]]])
qed

text \<open>
  On the fixture: the subscription \<open>usub0\<close> expired at 1600000000, now is 1700000000; the
  handler answers with the names of the two placeholder nodes, as rendered by the
  adapter of the fixture.
\<close>

theorem expired_subscription_placeholders_witness:
  "isSubscriptionExpired subenv0 usub0 \<and>
   getUserSubscribe subenv0 ''tok'' subworld0 = (Inr usub0, subworld0) \<and>
   getServers subenv0 usub0 subworld0 = (Inr (createExpiredServers subenv0), subworld0) \<and>
   map n_Name (createExpiredServers subenv0) = [''Subscribe Expired'', ''panel.example.com''] \<and>
   (\<exists>r. fst (Handler subenv0 subreq0 subworld0) = Inr r)"
proof -
  note t = expired_subscription_placeholders
    [where env = subenv0 and req = subreq0 and us = usub0 and w = subworld0
       and clients = "[app0]" and info = plan0]
  have f: "FindOneSubscribeByToken subenv0 (sr_Token subreq0) = TokenFound usub0"
    and k: "sr_Token subreq0 = ''tok''"
    and x: "isSubscriptionExpired subenv0 usub0"
    and l: "ClientModel_List subenv0 = Some [app0]"
    and p: "FindOneSubscribe subenv0 (us_SubscribeId usub0) = Some plan0"
    and a: "\<forall>cfg. ad_Servers cfg = createExpiredServers subenv0 \<longrightarrow>
       (\<exists>c bytes. adapterClient subenv0 cfg = Some c \<and> clientBuild subenv0 c = Some bytes)"
    by (simp_all add: subenv0_def subreq0_def usub0_def isSubscriptionExpired_def)
  have s: "selectClient subenv0 (ToLower subenv0 (req_UserAgent subenv0)) [app0] None \<noteq>
             (None, None)"
    by (simp add: subenv0_def app0_def Let_def)
  have h: "getFirstHostLine subenv0 = ''panel.example.com''"
    by (simp add: getFirstHostLine_def subenv0_def newline_def Let_def)
  from t [THEN conjunct1] f k
  have 1: "getUserSubscribe subenv0 ''tok'' subworld0 = (Inr usub0, subworld0)"
    by simp
  from t [THEN conjunct2, THEN conjunct2, THEN conjunct1] x
  have 2: "getServers subenv0 usub0 subworld0 = (Inr (createExpiredServers subenv0), subworld0)"
    by simp
  from t [THEN conjunct2, THEN conjunct2, THEN conjunct2, THEN conjunct1] h
  have 3: "map n_Name (createExpiredServers subenv0) =
             [''Subscribe Expired'', ''panel.example.com'']"
    by simp
  from t [THEN conjunct2, THEN conjunct2, THEN conjunct2, THEN conjunct2, THEN conjunct2,
          THEN conjunct2, THEN conjunct2, THEN conjunct2] f x l s p a
  have 4: "\<exists>r. fst (Handler subenv0 subreq0 subworld0) = Inr r"
    by blast
  from x 1 2 3 4 show ?thesis
    by simp
qed

text \<open>
  C10 as stated fails on the name of the second node: it is the first line of the
  configured host, here \<open>panel.example.com\<close>, and this is the name that reaches the
  adapter and the configuration that the handler returns.
\<close>

theorem second_placeholder_name_counterexample:
  "isSubscriptionExpired subenv0 usub0 \<and>
   FindOneSubscribeByToken subenv0 (sr_Token subreq0) = TokenFound usub0 \<and>
   fst (getServers subenv0 usub0 subworld0) = Inr (createExpiredServers subenv0) \<and>
   n_Name (createExpiredServers subenv0 ! 1) = ''panel.example.com'' \<and>
   n_Name (createExpiredServers subenv0 ! 1) \<noteq> ''Subscribe Expired'' \<and>
   map_option rs_Config (case fst (Handler subenv0 subreq0 subworld0) of
      Inl e \<Rightarrow> None | Inr r \<Rightarrow> Some r) = Some ''Subscribe Expired;panel.example.com;''"
  by (simp add: isSubscriptionExpired_def getServers_def createExpiredServers_def
        getFirstHostLine_def Handler_def buildSubscription_def getUserSubscribe_def
        logSubscribeActivity_def Let_def say_def sub_fixture_defs)

end
